theory Spec2Isabelle
  imports Complex_Main "HOL-Library.Word"
begin

unbundle bit_operations_syntax

section \<open>C strings\<close>

text \<open>
  A C string is modelled by the characters before its terminating NUL, as a
  \<^typ>\<open>string\<close>. A pointer that may be \<^verbatim>\<open>NULL\<close> is an \<^typ>\<open>'a option\<close>.
  \<^verbatim>\<open>strstr(h, n)\<close> is the offset of the first occurrence of \<open>n\<close> in \<open>h\<close>,
  \<^verbatim>\<open>strchr(s, c)\<close> the offset of the first \<open>c\<close> in \<open>s\<close>; \<open>None\<close> is the
  \<^verbatim>\<open>NULL\<close> result.
\<close>

fun strstr :: "string \<Rightarrow> string \<Rightarrow> nat option" where
  "strstr [] n = (if n = [] then Some 0 else None)"
| "strstr (h # hs) n =
     (if take (length n) (h # hs) = n then Some 0
      else map_option Suc (strstr hs n))"

fun strchr :: "string \<Rightarrow> char \<Rightarrow> nat option" where
  "strchr [] c = None"
| "strchr (x # xs) c = (if x = c then Some 0 else map_option Suc (strchr xs c))"

section \<open>TypeAnalyzerC.c: type reconstruction from the symbol table\<close>

subsection \<open>Symbol analysis helpers\<close>

definition c_is_class_symbol :: "string \<Rightarrow> bool" where
  "c_is_class_symbol name \<longleftrightarrow>
     strstr name ''_OBJC_CLASS_$_'' \<noteq> None \<or>
     strstr name ''_TtC'' \<noteq> None \<or>
     strstr name ''objc_class'' \<noteq> None"

definition c_is_struct_symbol :: "string \<Rightarrow> bool" where
  "c_is_struct_symbol name \<longleftrightarrow>
     strstr name ''struct'' \<noteq> None \<or>
     strstr name ''Struct'' \<noteq> None \<or>
     strstr name ''_struct_'' \<noteq> None"

definition c_is_enum_symbol :: "string \<Rightarrow> bool" where
  "c_is_enum_symbol name \<longleftrightarrow>
     strstr name ''enum'' \<noteq> None \<or>
     strstr name ''Enum'' \<noteq> None \<or>
     strstr name ''_enum_'' \<noteq> None"

definition c_is_protocol_symbol :: "string \<Rightarrow> bool" where
  "c_is_protocol_symbol name \<longleftrightarrow>
     strstr name ''protocol'' \<noteq> None \<or>
     strstr name ''Protocol'' \<noteq> None \<or>
     strstr name ''_protocol_'' \<noteq> None"

subsection \<open>Name extraction helpers\<close>

text \<open>
  \<^verbatim>\<open>strdup(symbolName + k)\<close> is taken only when the \<open>k\<close>-character marker occurs in
  the name, so the name has at least \<open>k\<close> characters and the copy is \<open>drop k\<close>.
\<close>

definition c_extract_class_name :: "string \<Rightarrow> string" where
  "c_extract_class_name symbolName =
     (if strstr symbolName ''_OBJC_CLASS_$_'' \<noteq> None then drop 14 symbolName
      else symbolName)"

definition c_extract_struct_name :: "string \<Rightarrow> string" where
  "c_extract_struct_name symbolName =
     (if strstr symbolName ''_struct_'' \<noteq> None then drop 8 symbolName
      else symbolName)"

definition c_extract_enum_name :: "string \<Rightarrow> string" where
  "c_extract_enum_name symbolName =
     (if strstr symbolName ''_enum_'' \<noteq> None then drop 6 symbolName
      else symbolName)"

definition c_extract_protocol_name :: "string \<Rightarrow> string" where
  "c_extract_protocol_name symbolName =
     (if strstr symbolName ''_protocol_'' \<noteq> None then drop 10 symbolName
      else symbolName)"

subsection \<open>Size estimates\<close>

definition c_estimate_class_size :: "string \<Rightarrow> 64 word" where
  "c_estimate_class_size className =
     (if strstr className ''View'' \<noteq> None \<or> strstr className ''Controller'' \<noteq> None
      then 200
      else if strstr className ''Model'' \<noteq> None then 100
      else if strstr className ''Manager'' \<noteq> None then 150
      else 64)"

definition c_estimate_struct_size :: "string \<Rightarrow> 64 word" where
  "c_estimate_struct_size structName =
     (if strstr structName ''Point'' \<noteq> None \<or> strstr structName ''Size'' \<noteq> None
      then 16
      else if strstr structName ''Rect'' \<noteq> None then 32
      else if strstr structName ''Range'' \<noteq> None then 16
      else 24)"

definition c_estimate_enum_size :: "string \<Rightarrow> 64 word" where
  "c_estimate_enum_size enumName =
     (if strstr enumName ''Int'' \<noteq> None \<or> strstr enumName ''Raw'' \<noteq> None then 8
      else 4)"

subsection \<open>The reconstruction loop\<close>

datatype c_type_category_t =
  C_TYPE_CATEGORY_STRUCT
| C_TYPE_CATEGORY_CLASS
| C_TYPE_CATEGORY_ENUM
| C_TYPE_CATEGORY_PROTOCOL
| C_TYPE_CATEGORY_UNKNOWN

text \<open>
  \<^verbatim>\<open>c_reconstructed_type_t\<close>. The fields carry the prefix \<open>type_\<close> because other
  structures of the repository have fields of the same names. The \<^verbatim>\<open>double\<close>
  confidence is one of five literals; it is kept as the rational the literal denotes.
\<close>

record c_reconstructed_type_t =
  type_name :: string
  type_address :: "64 word"
  type_size :: "64 word"
  type_category :: c_type_category_t
  type_confidence :: rat

text \<open>
  \<^verbatim>\<open>SymbolInfo\<close> is declared in SymbolTable.h; the loop reads its \<^verbatim>\<open>name\<close>
  (which may be \<^verbatim>\<open>NULL\<close>) and its \<^verbatim>\<open>address\<close>.
\<close>

record SymbolInfo =
  sym_name :: "string option"
  sym_address :: "64 word"

fun c_reconstruction_has_name :: "c_reconstructed_type_t list \<Rightarrow> string \<Rightarrow> bool" where
  "c_reconstruction_has_name [] name = False"
| "c_reconstruction_has_name (t # ts) name =
     (if type_name t = name then True else c_reconstruction_has_name ts name)"

definition c_confidence_for_symbol :: "string \<Rightarrow> c_type_category_t \<Rightarrow> rat" where
  "c_confidence_for_symbol name category =
     (if strstr name ''_OBJC_CLASS_$_'' \<noteq> None then 9 / 10
      else if category = C_TYPE_CATEGORY_CLASS \<and>
              (strstr name ''_TtC'' \<noteq> None \<or> strstr name ''_Tt'' \<noteq> None) then 85 / 100
      else if category = C_TYPE_CATEGORY_ENUM \<or> category = C_TYPE_CATEGORY_STRUCT
      then 75 / 100
      else if category = C_TYPE_CATEGORY_PROTOCOL then 7 / 10
      else 6 / 10)"

fun c_estimated_size_for_category :: "string \<Rightarrow> c_type_category_t \<Rightarrow> 64 word" where
  "c_estimated_size_for_category name C_TYPE_CATEGORY_CLASS = c_estimate_class_size name"
| "c_estimated_size_for_category name C_TYPE_CATEGORY_STRUCT = c_estimate_struct_size name"
| "c_estimated_size_for_category name C_TYPE_CATEGORY_ENUM = c_estimate_enum_size name"
| "c_estimated_size_for_category name _ = 0"

text \<open>
  Lines 421 to 436 of the loop body: the category of a symbol name and the type name
  extracted from it (\<open>None\<close> is the \<^verbatim>\<open>NULL\<close> that \<^verbatim>\<open>type_name\<close> keeps when no
  test matches).
\<close>

definition c_symbol_type :: "string \<Rightarrow> c_type_category_t \<times> string option" where
  "c_symbol_type name =
     (if c_is_class_symbol name
      then (C_TYPE_CATEGORY_CLASS, Some (c_extract_class_name name))
      else if c_is_struct_symbol name
      then (C_TYPE_CATEGORY_STRUCT, Some (c_extract_struct_name name))
      else if c_is_enum_symbol name
      then (C_TYPE_CATEGORY_ENUM, Some (c_extract_enum_name name))
      else if c_is_protocol_symbol name
      then (C_TYPE_CATEGORY_PROTOCOL, Some (c_extract_protocol_name name))
      else (C_TYPE_CATEGORY_UNKNOWN, None))"

text \<open>
  One iteration of the loop over the symbols. Each \<^verbatim>\<open>continue\<close> returns the list
  as it is. The array with its \<^verbatim>\<open>type_count\<close> is a list; \<^verbatim>\<open>realloc\<close> is taken to
  succeed.
\<close>

definition c_reconstruct_symbol ::
  "c_reconstructed_type_t list \<Rightarrow> SymbolInfo \<Rightarrow> c_reconstructed_type_t list" where
  "c_reconstruct_symbol types symb =
     (case sym_name symb of
        None \<Rightarrow> types
      | Some name \<Rightarrow>
          if name = [] then types
          else
            (case c_symbol_type name of
               (category, None) \<Rightarrow> types
             | (category, Some tname) \<Rightarrow>
                 if tname = [] then types
                 else if c_reconstruction_has_name types tname then types
                 else types @
                   [\<lparr>type_name = tname,
                     type_address = sym_address symb,
                     type_size = c_estimated_size_for_category tname category,
                     type_category = category,
                     type_confidence = c_confidence_for_symbol name category\<rparr>]))"

fun c_reconstruct_symbols ::
  "c_reconstructed_type_t list \<Rightarrow> SymbolInfo list \<Rightarrow> c_reconstructed_type_t list" where
  "c_reconstruct_symbols types [] = types"
| "c_reconstruct_symbols types (symb # syms) =
     c_reconstruct_symbols (c_reconstruct_symbol types symb) syms"

text \<open>
  \<^verbatim>\<open>c_reconstruct_types_from_binary\<close> opens the file and parses its symbol table
  through MachOHeader.h and SymbolTable.h. The argument is what they deliver: \<open>None\<close>
  when opening or parsing fails (the function then returns \<^verbatim>\<open>NULL\<close>), the symbols
  in table order otherwise.
\<close>

definition c_reconstruct_types_from_binary ::
  "SymbolInfo list option \<Rightarrow> c_reconstructed_type_t list option" where
  "c_reconstruct_types_from_binary parsed =
     (case parsed of
        None \<Rightarrow> None
      | Some symbols \<Rightarrow> Some (c_reconstruct_symbols [] symbols))"

section \<open>ClassDumpC.c: the runtime-symbol scanner\<close>

text \<open>
  The memory-mapped binary is a list of bytes, \<^typ>\<open>string\<close>. A pointer into it is
  the rest of the bytes from that position on, so that
  \<^verbatim>\<open>binarySize - (pos - binaryData)\<close> is the length of that rest. The bytes NUL, LF
  and CR end a name.
\<close>

abbreviation NUL :: char where "NUL \<equiv> CHR 0x00"
abbreviation LF :: char where "LF \<equiv> CHR 0x0A"
abbreviation CR :: char where "CR \<equiv> CHR 0x0D"

text \<open>
  \<^verbatim>\<open>memchr(s, c, n)\<close>: the offset of the first \<open>c\<close> among the first \<open>n\<close> bytes at
  \<open>s\<close>, \<open>None\<close> for \<^verbatim>\<open>NULL\<close>.
\<close>

fun memchr :: "string \<Rightarrow> char \<Rightarrow> nat \<Rightarrow> nat option" where
  "memchr [] c n = None"
| "memchr (x # xs) c n =
     (if n = 0 then None
      else if x = c then Some 0
      else map_option Suc (memchr xs c (n - 1)))"

subsection \<open>The result structure\<close>

text \<open>
  Each array with its count is a list. Where two structures have a field of the same
  name, the fields of the category carry the prefix \<open>cat_\<close>, those of the protocol
  \<open>proto_\<close>, and the protocol list of a class is \<open>class_protocols\<close>.
\<close>

record class_dump_info_t =
  className :: string
  superclassName :: string
  class_protocols :: "string list"
  instanceMethods :: "string list"
  classMethods :: "string list"
  properties :: "string list"
  ivars :: "string list"
  isSwift :: bool
  isMetaClass :: bool

record category_dump_info_t =
  categoryName :: string
  cat_className :: string
  cat_protocols :: "string list"
  cat_instanceMethods :: "string list"
  cat_classMethods :: "string list"
  cat_properties :: "string list"

record protocol_dump_info_t =
  protocolName :: string
  proto_protocols :: "string list"
  proto_methods :: "string list"

record class_dump_result_t =
  classes :: "class_dump_info_t list"
  categories :: "category_dump_info_t list"
  protocols :: "protocol_dump_info_t list"
  generatedHeader :: "string option"
  headerSize :: nat

subsection \<open>Helpers\<close>

text \<open>
  The loop of \<^verbatim>\<open>class_dump_safe_strndup\<close>: the number of bytes that are copied.
  A C string ends where its list ends (the terminating NUL is read there).
\<close>

fun safe_strndup_len :: "string \<Rightarrow> nat \<Rightarrow> nat" where
  "safe_strndup_len [] max_len = 0"
| "safe_strndup_len (c # cs) max_len =
     (if 0 < max_len \<and> c \<noteq> NUL \<and> c \<noteq> LF \<and> c \<noteq> CR
      then Suc (safe_strndup_len cs (max_len - 1))
      else 0)"

text \<open>The callers never pass a \<^verbatim>\<open>NULL\<close> start; \<^verbatim>\<open>malloc\<close> is taken to succeed.\<close>

definition class_dump_safe_strndup :: "string \<Rightarrow> nat \<Rightarrow> string option" where
  "class_dump_safe_strndup start max_len =
     (if max_len = 0 then None
      else
        (let len = safe_strndup_len start max_len
         in if len = 0 then None else Some (take len start)))"

text \<open>
  The three lookups return a pointer to the first matching element; here its index.
\<close>

fun find_index :: "('a \<Rightarrow> bool) \<Rightarrow> 'a list \<Rightarrow> nat option" where
  "find_index P [] = None"
| "find_index P (x # xs) = (if P x then Some 0 else map_option Suc (find_index P xs))"

definition class_dump_find_class :: "class_dump_result_t \<Rightarrow> string \<Rightarrow> nat option" where
  "class_dump_find_class result class_name =
     find_index (\<lambda>c. className c = class_name) (classes result)"

definition class_dump_find_category ::
  "class_dump_result_t \<Rightarrow> string \<Rightarrow> string \<Rightarrow> nat option" where
  "class_dump_find_category result class_name category_name =
     find_index (\<lambda>c. cat_className c = class_name \<and> categoryName c = category_name)
       (categories result)"

definition class_dump_find_protocol :: "class_dump_result_t \<Rightarrow> string \<Rightarrow> nat option" where
  "class_dump_find_protocol result protocol_name =
     find_index (\<lambda>p. protocolName p = protocol_name) (protocols result)"

definition class_dump_add_unique_string :: "string list \<Rightarrow> string \<Rightarrow> string list" where
  "class_dump_add_unique_string list v =
     (if find_index (\<lambda>s. s = v) list \<noteq> None then list else list @ [v])"

definition class_dump_split_category :: "string \<Rightarrow> string option \<times> string option" where
  "class_dump_split_category raw =
     (case strstr raw ''_$_'' of
        Some class_len \<Rightarrow>
          (class_dump_safe_strndup raw class_len,
           class_dump_safe_strndup (drop (class_len + 3) raw)
             (length (drop (class_len + 3) raw)))
      | None \<Rightarrow> (None, Some raw))"

definition class_dump_add_method_to_class ::
  "class_dump_info_t \<Rightarrow> string \<Rightarrow> bool \<Rightarrow> class_dump_info_t" where
  "class_dump_add_method_to_class class_info method_name is_class_method =
     (if is_class_method
      then class_info\<lparr>classMethods :=
             class_dump_add_unique_string (classMethods class_info) method_name\<rparr>
      else class_info\<lparr>instanceMethods :=
             class_dump_add_unique_string (instanceMethods class_info) method_name\<rparr>)"

definition class_dump_add_method_to_category ::
  "category_dump_info_t \<Rightarrow> string \<Rightarrow> bool \<Rightarrow> category_dump_info_t" where
  "class_dump_add_method_to_category category_info method_name is_class_method =
     (if is_class_method
      then category_info\<lparr>cat_classMethods :=
             class_dump_add_unique_string (cat_classMethods category_info) method_name\<rparr>
      else category_info\<lparr>cat_instanceMethods :=
             class_dump_add_unique_string (cat_instanceMethods category_info) method_name\<rparr>)"

text \<open>
  Returns the result and the index of the category, found or appended (\<^verbatim>\<open>realloc\<close>
  is taken to succeed, so the pointer returned is never \<^verbatim>\<open>NULL\<close>).
\<close>

definition class_dump_add_category_with_class ::
  "class_dump_result_t \<Rightarrow> string \<Rightarrow> string \<Rightarrow> class_dump_result_t \<times> nat" where
  "class_dump_add_category_with_class result class_name category_name =
     (case class_dump_find_category result class_name category_name of
        Some existing \<Rightarrow> (result, existing)
      | None \<Rightarrow>
          (result\<lparr>categories := categories result @
             [\<lparr>categoryName = category_name, cat_className = class_name,
               cat_protocols = [], cat_instanceMethods = [], cat_classMethods = [],
               cat_properties = []\<rparr>]\<rparr>,
           length (categories result)))"

subsection \<open>Utility functions\<close>

definition class_dump_is_swift_class :: "string \<Rightarrow> bool" where
  "class_dump_is_swift_class name \<longleftrightarrow>
     strstr name ''_TtC'' \<noteq> None \<or> strstr name ''_Tt'' \<noteq> None \<or>
     strstr name ''Swift'' \<noteq> None"

definition class_dump_is_meta_class :: "string \<Rightarrow> bool" where
  "class_dump_is_meta_class name \<longleftrightarrow> strstr name ''_OBJC_METACLASS_$_'' \<noteq> None"

subsection \<open>Insertion into the result\<close>

definition add_class_to_result :: "class_dump_result_t \<Rightarrow> string \<Rightarrow> class_dump_result_t" where
  "add_class_to_result result name =
     (if class_dump_find_class result name \<noteq> None then result
      else result\<lparr>classes := classes result @
             [\<lparr>className = name, superclassName = ''NSObject'', class_protocols = [],
               instanceMethods = [], classMethods = [], properties = [], ivars = [],
               isSwift = class_dump_is_swift_class name,
               isMetaClass = class_dump_is_meta_class name\<rparr>]\<rparr>)"

definition add_category_to_result ::
  "class_dump_result_t \<Rightarrow> string \<Rightarrow> class_dump_result_t" where
  "add_category_to_result result name =
     (if find_index (\<lambda>c. categoryName c = name) (categories result) \<noteq> None then result
      else result\<lparr>categories := categories result @
             [\<lparr>categoryName = name, cat_className = ''NSObject'', cat_protocols = [],
               cat_instanceMethods = [], cat_classMethods = [], cat_properties = []\<rparr>]\<rparr>)"

definition add_protocol_to_result ::
  "class_dump_result_t \<Rightarrow> string \<Rightarrow> class_dump_result_t" where
  "add_protocol_to_result result name =
     (if class_dump_find_protocol result name \<noteq> None then result
      else result\<lparr>protocols := protocols result @
             [\<lparr>protocolName = name, proto_protocols = [], proto_methods = []\<rparr>]\<rparr>)"

subsection \<open>The method scan\<close>

text \<open>
  Lines 217 to 231 of \<^verbatim>\<open>class_dump_scan_methods\<close>: what one parsed signature
  adds to the result. \<open>category_name\<close> is \<open>None\<close> for \<^verbatim>\<open>NULL\<close>.
\<close>

definition class_dump_scan_methods_record ::
  "class_dump_result_t \<Rightarrow> string \<Rightarrow> string option \<Rightarrow> string \<Rightarrow> bool \<Rightarrow>
   class_dump_result_t" where
  "class_dump_scan_methods_record result class_name category_name method_part is_plus =
     (if length class_name > 0
      then
        (let result1 =
               (case class_dump_find_class result class_name of
                  None \<Rightarrow> add_class_to_result result class_name
                | Some _ \<Rightarrow> result);
             class_info = class_dump_find_class result1 class_name
         in if category_name \<noteq> None \<and> length (the category_name) > 0
            then
              (let (result2, category_info) =
                     class_dump_add_category_with_class result1 class_name
                       (the category_name)
               in result2\<lparr>categories := (categories result2)
                    [category_info :=
                       class_dump_add_method_to_category
                         (categories result2 ! category_info) method_part is_plus]\<rparr>)
            else
              (case class_info of
                 None \<Rightarrow> result1
               | Some ci \<Rightarrow>
                   result1\<lparr>classes := (classes result1)
                     [ci := class_dump_add_method_to_class (classes result1 ! ci)
                              method_part is_plus]\<rparr>))
      else result)"

text \<open>
  Lines 205 to 215: the class name and the category name in a class specification.
  \<open>close_paren\<close> is counted from \<open>open_paren\<close>, so \<^verbatim>\<open>close_paren > open_paren\<close> is
  \<open>0 < cl\<close>. Writing NUL over the opening parenthesis ends \<open>class_part\<close> there.
\<close>

definition class_dump_scan_methods_names :: "string \<Rightarrow> string \<times> string option" where
  "class_dump_scan_methods_names class_part =
     (let open_paren = strchr class_part CHR ''('';
          close_paren =
            (case open_paren of
               None \<Rightarrow> None
             | Some op \<Rightarrow> strchr (drop op class_part) CHR '')'')
      in case (open_paren, close_paren) of
           (Some op, Some cl) \<Rightarrow>
             if cl > 0
             then (take op class_part,
                   class_dump_safe_strndup (drop (op + 1) class_part) (cl - 1))
             else (class_part, None)
         | _ \<Rightarrow> (class_part, None))"

text \<open>
  The body of the loop of \<^verbatim>\<open>class_dump_scan_methods\<close> at one position: \<open>pos\<close> is
  \<^verbatim>\<open>binary_data + i\<close>, and the loop condition \<^verbatim>\<open>i + 2 < binary_size\<close> has made sure of
  three bytes there. Every \<^verbatim>\<open>continue\<close> returns the result as it is.
  Writing NUL over the space cuts \<open>content\<close> into \<open>class_part\<close> and \<open>method_part\<close>.
\<close>

definition class_dump_scan_methods_at ::
  "string \<Rightarrow> class_dump_result_t \<Rightarrow> class_dump_result_t" where
  "class_dump_scan_methods_at pos result =
     (let c = pos ! 0 in
      if (c = CHR ''-'' \<or> c = CHR ''+'') \<and> pos ! 1 = CHR ''[''
      then
        (let start = drop 2 pos;
             remaining = length start;
             max_len = (if remaining > 200 then 200 else remaining)
         in case memchr start CHR '']'' max_len of
              None \<Rightarrow> result
            | Some content_len \<Rightarrow>
                if content_len = 0 \<or> content_len \<ge> 200 then result
                else
                  (case class_dump_safe_strndup start content_len of
                     None \<Rightarrow> result
                   | Some content \<Rightarrow>
                       (case strchr content CHR '' '' of
                          None \<Rightarrow> result
                        | Some space \<Rightarrow>
                            (let class_part = take space content;
                                 method_part = drop (space + 1) content
                             in if method_part = [] then result
                                else
                                  (let (class_name, category_name) =
                                         class_dump_scan_methods_names class_part
                                   in class_dump_scan_methods_record result class_name
                                        category_name method_part (c = CHR ''+''))))))
      else result)"

fun class_dump_scan_methods :: "string \<Rightarrow> class_dump_result_t \<Rightarrow> class_dump_result_t" where
  "class_dump_scan_methods [] result = result"
| "class_dump_scan_methods (b # bs) result =
     (if length (b # bs) > 2
      then class_dump_scan_methods bs (class_dump_scan_methods_at (b # bs) result)
      else result)"

subsection \<open>The ivar scan\<close>

text \<open>The body of the loop at a position where \<^verbatim>\<open>strncmp\<close> has matched the pattern.\<close>

definition class_dump_scan_ivars_at ::
  "string \<Rightarrow> class_dump_result_t \<Rightarrow> class_dump_result_t" where
  "class_dump_scan_ivars_at pos result =
     (let name_start = drop 13 pos;
          name_remaining = length pos - 13
      in case class_dump_safe_strndup name_start name_remaining of
           None \<Rightarrow> result
         | Some full_name \<Rightarrow>
             (case strchr full_name CHR ''.'' of
                None \<Rightarrow> result
              | Some dot \<Rightarrow>
                  (let class_name = take dot full_name;
                       ivar_name = drop (dot + 1) full_name
                   in if class_name \<noteq> [] \<and> ivar_name \<noteq> []
                      then
                        (let result1 =
                               (case class_dump_find_class result class_name of
                                  None \<Rightarrow> add_class_to_result result class_name
                                | Some _ \<Rightarrow> result)
                         in case class_dump_find_class result1 class_name of
                              None \<Rightarrow> result1
                            | Some ci \<Rightarrow>
                                result1\<lparr>classes := (classes result1)
                                  [ci := (classes result1 ! ci)
                                     \<lparr>ivars := class_dump_add_unique_string
                                                 (ivars (classes result1 ! ci)) ivar_name\<rparr>]\<rparr>)
                      else result)))"

function class_dump_scan_ivars :: "string \<Rightarrow> class_dump_result_t \<Rightarrow> class_dump_result_t" where
  "class_dump_scan_ivars pos result =
     (if length pos > 13
      then
        (case memchr pos CHR ''_'' (length pos) of
           None \<Rightarrow> result
         | Some k \<Rightarrow>
             (let p = drop k pos
              in if length p < 13 then result
                 else class_dump_scan_ivars (drop 1 p)
                        (if take 13 p = ''_OBJC_IVAR_$_''
                         then class_dump_scan_ivars_at p result
                         else result)))
      else result)"
  by pat_completeness auto
termination
  by (relation "measure (\<lambda>(pos, result). length pos)") auto

declare class_dump_scan_ivars.simps [simp del]

subsection \<open>The class, category and protocol passes\<close>

text \<open>
  \<^verbatim>\<open>strncmp(pos, pattern, n) == 0\<close> holds when the \<open>n\<close> bytes at \<open>pos\<close> are the
  pattern; a pattern cut off by the end of the mapping does not match. The three
  passes return whether they found an entry; \<^verbatim>\<open>class_dump_binary\<close> does not read
  that value, and the functions here return the result structure only.
\<close>

function class_dump_analyze_classes ::
  "string \<Rightarrow> class_dump_result_t \<Rightarrow> class_dump_result_t" where
  "class_dump_analyze_classes pos result =
     (if length pos > 14
      then
        (case memchr pos CHR ''_'' (length pos) of
           None \<Rightarrow> result
         | Some k \<Rightarrow>
             (let p = drop k pos
              in class_dump_analyze_classes (drop 1 p)
                   (if take 14 p = ''_OBJC_CLASS_$_''
                    then
                      (case class_dump_safe_strndup (drop 14 p) (length p - 14) of
                         None \<Rightarrow> result
                       | Some name \<Rightarrow> add_class_to_result result name)
                    else result)))
      else result)"
  by pat_completeness auto
termination
  by (relation "measure (\<lambda>(pos, result). length pos)") auto

declare class_dump_analyze_classes.simps [simp del]

definition class_dump_analyze_categories_at ::
  "string \<Rightarrow> class_dump_result_t \<Rightarrow> class_dump_result_t" where
  "class_dump_analyze_categories_at p result =
     (case class_dump_safe_strndup (drop 17 p) (length p - 17) of
        None \<Rightarrow> result
      | Some raw_name \<Rightarrow>
          (case class_dump_split_category raw_name of
             (class_name, None) \<Rightarrow> result
           | (class_name, Some category_name) \<Rightarrow>
               (let resolved_class =
                      (if class_name \<noteq> None \<and> length (the class_name) > 0
                       then the class_name else ''NSObject'')
                in fst (class_dump_add_category_with_class result resolved_class
                          category_name))))"

function class_dump_analyze_categories ::
  "string \<Rightarrow> class_dump_result_t \<Rightarrow> class_dump_result_t" where
  "class_dump_analyze_categories pos result =
     (if length pos > 17
      then
        (case memchr pos CHR ''_'' (length pos) of
           None \<Rightarrow> result
         | Some k \<Rightarrow>
             (let p = drop k pos
              in class_dump_analyze_categories (drop 1 p)
                   (if take 17 p = ''_OBJC_CATEGORY_$_''
                    then class_dump_analyze_categories_at p result
                    else result)))
      else result)"
  by pat_completeness auto
termination
  by (relation "measure (\<lambda>(pos, result). length pos)") auto

declare class_dump_analyze_categories.simps [simp del]

function class_dump_analyze_protocols ::
  "string \<Rightarrow> class_dump_result_t \<Rightarrow> class_dump_result_t" where
  "class_dump_analyze_protocols pos result =
     (if length pos > 17
      then
        (case memchr pos CHR ''_'' (length pos) of
           None \<Rightarrow> result
         | Some k \<Rightarrow>
             (let p = drop k pos
              in class_dump_analyze_protocols (drop 1 p)
                   (if take 17 p = ''_OBJC_PROTOCOL_$_''
                    then
                      (case class_dump_safe_strndup (drop 17 p) (length p - 17) of
                         None \<Rightarrow> result
                       | Some name \<Rightarrow> add_protocol_to_result result name)
                    else result)))
      else result)"
  by pat_completeness auto
termination
  by (relation "measure (\<lambda>(pos, result). length pos)") auto

declare class_dump_analyze_protocols.simps [simp del]

subsection \<open>The fallback on selector strings\<close>

function analyze_strings_count :: "string \<Rightarrow> string \<Rightarrow> nat \<Rightarrow> nat" where
  "analyze_strings_count pattern pos foundMethods =
     (if length pos > 0
      then
        (case memchr pos (pattern ! 0) (length pos) of
           None \<Rightarrow> foundMethods
         | Some k \<Rightarrow>
             (let p = drop k pos
              in analyze_strings_count pattern (drop 1 p)
                   (if take (length pattern) p = pattern
                    then foundMethods + 1 else foundMethods)))
      else foundMethods)"
  by pat_completeness auto
termination
  by (relation "measure (\<lambda>(pattern, pos, foundMethods). length pos)") auto

declare analyze_strings_count.simps [simp del]

definition stringPatterns :: "string list" where
  "stringPatterns =
     [''init'', ''dealloc'', ''alloc'', ''retain'', ''release'', ''autorelease'',
      ''copy'', ''mutableCopy'', ''description'', ''debugDescription'']"

definition analyze_strings_for_objc ::
  "string \<Rightarrow> class_dump_result_t \<Rightarrow> class_dump_result_t" where
  "analyze_strings_for_objc binaryData result =
     (let foundMethods =
            foldl (\<lambda>found pattern. analyze_strings_count pattern binaryData found)
              0 stringPatterns
      in if foundMethods > 0
         then add_protocol_to_result
                (add_category_to_result
                   (add_class_to_result result ''SampleClass'') ''SampleCategory'')
                ''SampleProtocol''
         else result)"

subsection \<open>The main function\<close>

text \<open>
  \<^verbatim>\<open>class_dump_binary\<close> opens and maps the file at \<open>binaryPath\<close>. The argument is
  what that delivers: \<open>None\<close> when \<^verbatim>\<open>open\<close>, \<^verbatim>\<open>fstat\<close> or \<^verbatim>\<open>mmap\<close> fails (the
  function then returns \<^verbatim>\<open>NULL\<close>), the bytes of the file otherwise.
\<close>

definition class_dump_empty_result :: class_dump_result_t where
  "class_dump_empty_result =
     \<lparr>classes = [], categories = [], protocols = [], generatedHeader = None,
       headerSize = 0\<rparr>"

definition class_dump_scan_passes :: "string \<Rightarrow> class_dump_result_t" where
  "class_dump_scan_passes binaryData =
     class_dump_scan_methods binaryData
       (class_dump_scan_ivars binaryData
          (class_dump_analyze_protocols binaryData
             (class_dump_analyze_categories binaryData
                (class_dump_analyze_classes binaryData class_dump_empty_result))))"

definition class_dump_binary :: "string option \<Rightarrow> class_dump_result_t option" where
  "class_dump_binary mapped =
     (case mapped of
        None \<Rightarrow> None
      | Some binaryData \<Rightarrow>
          (let result = class_dump_scan_passes binaryData
           in if classes result = [] \<and> categories result = [] \<and> protocols result = []
              then Some (analyze_strings_for_objc binaryData result)
              else Some result))"

subsection \<open>The uniqueness invariant of the result\<close>

text \<open>
  No two classes of one name, no two categories of one class name and category name,
  no two protocols of one name.
\<close>

definition class_dump_result_unique :: "class_dump_result_t \<Rightarrow> bool" where
  "class_dump_result_unique r \<longleftrightarrow>
     distinct (map className (classes r)) \<and>
     distinct (map (\<lambda>c. (cat_className c, categoryName c)) (categories r)) \<and>
     distinct (map protocolName (protocols r))"

section \<open>DisassemblyEngine.c: the instruction decoders\<close>

subsection \<open>Formatting\<close>

text \<open>
  The conversions of \<^verbatim>\<open>snprintf\<close> that the decoders use: \<^verbatim>\<open>%x\<close> and \<^verbatim>\<open>%llx\<close>
  (\<open>fmt_x\<close>), \<^verbatim>\<open>%X\<close> (\<open>fmt_X\<close>), \<^verbatim>\<open>%02X\<close> and \<^verbatim>\<open>%08X\<close> (\<open>fmt_0X\<close>), \<^verbatim>\<open>%u\<close>
  (\<open>fmt_u\<close>) and \<^verbatim>\<open>%d\<close> (\<open>fmt_d\<close>). \<^verbatim>\<open>snprintf(buf, n, ...)\<close> keeps the
  first \<open>n - 1\<close> characters of the formatted text.
\<close>

definition hex_digit :: "bool \<Rightarrow> nat \<Rightarrow> char" where
  "hex_digit upper d =
     (if upper then ''0123456789ABCDEF'' else ''0123456789abcdef'') ! d"

function hex_of_nat :: "bool \<Rightarrow> nat \<Rightarrow> string" where
  "hex_of_nat upper n =
     (if n < 16 then [hex_digit upper n]
      else hex_of_nat upper (n div 16) @ [hex_digit upper (n mod 16)])"
  by pat_completeness auto
termination
  by (relation "measure (\<lambda>(upper, n). n)") auto

declare hex_of_nat.simps [simp del]

function dec_of_nat :: "nat \<Rightarrow> string" where
  "dec_of_nat n =
     (if n < 10 then [''0123456789'' ! n]
      else dec_of_nat (n div 10) @ [''0123456789'' ! (n mod 10)])"
  by pat_completeness auto
termination
  by (relation "measure (\<lambda>n. n)") auto

declare dec_of_nat.simps [simp del]

definition fmt_x :: "nat \<Rightarrow> string" where
  "fmt_x n = hex_of_nat False n"

definition fmt_X :: "nat \<Rightarrow> string" where
  "fmt_X n = hex_of_nat True n"

definition fmt_0X :: "nat \<Rightarrow> nat \<Rightarrow> string" where
  "fmt_0X width n =
     replicate (width - length (hex_of_nat True n)) CHR ''0'' @ hex_of_nat True n"

definition fmt_u :: "nat \<Rightarrow> string" where
  "fmt_u n = dec_of_nat n"

definition fmt_d :: "int \<Rightarrow> string" where
  "fmt_d i = (if i < 0 then ''-'' @ dec_of_nat (nat (- i)) else dec_of_nat (nat i))"

definition snprintf :: "nat \<Rightarrow> string \<Rightarrow> string" where
  "snprintf n s = take (n - 1) s"

subsection \<open>The instruction record\<close>

datatype InstructionCategory =
  INST_CATEGORY_UNKNOWN
| INST_CATEGORY_DATA_PROCESSING
| INST_CATEGORY_LOAD_STORE
| INST_CATEGORY_BRANCH
| INST_CATEGORY_SYSTEM
| INST_CATEGORY_SIMD

datatype BranchType =
  BRANCH_NONE
| BRANCH_CALL
| BRANCH_UNCONDITIONAL
| BRANCH_CONDITIONAL
| BRANCH_RETURN

text \<open>
  \<^verbatim>\<open>DisassembledInstruction\<close> is declared in DisassemblyEngine.h. The fields are the
  ones the decoders write; \<^verbatim>\<open>length\<close> is \<open>inst_length\<close> here. The register masks
  are written with \<^verbatim>\<open>1ULL << r\<close> and are 64 bits wide; \<open>flags_written\<close> only ever
  holds 0 or \<^verbatim>\<open>0xF\<close>. \<open>branch_offset\<close> holds an \<^verbatim>\<open>int64_t\<close>, in two's complement.
\<close>

record DisassembledInstruction =
  address :: "64 word"
  raw_bytes :: "32 word"
  inst_length :: nat
  mnemonic :: string
  operands :: string
  full_disasm :: string
  comment :: string
  category :: InstructionCategory
  has_branch :: bool
  branch_type :: BranchType
  has_branch_target :: bool
  branch_target :: "64 word"
  branch_offset :: "64 word"
  updates_pc :: bool
  regs_read :: "64 word"
  regs_written :: "64 word"
  flags_written :: "8 word"
  is_function_start :: bool
  is_function_end :: bool
  is_valid :: bool

text \<open>
  What DisassemblyEngine.h declares and the decoders depend on, as a parameter of
  the model: the sizes of the three text buffers of the instruction record, the bit
  of the prologue and epilogue heuristics in the flags of the context, and the
  enumerators of value 0, which \<^verbatim>\<open>memset\<close> leaves in \<open>category\<close> and \<open>branch_type\<close>.
\<close>

record EngineHeader =
  sizeof_mnemonic :: nat
  sizeof_operands :: nat
  sizeof_full_disasm :: nat
  DISASM_FLAG_PROLOGUE_EPILOGUE_HEURISTICS :: "32 word"
  category_zero :: InstructionCategory
  branch_type_zero :: BranchType

text \<open>The decoders read only the \<open>flags\<close> of the context.\<close>

record DisassemblyContext =
  flags :: "32 word"

text \<open>\<^verbatim>\<open>memset(inst, 0, sizeof(DisassembledInstruction))\<close>\<close>

definition zeroed_instruction :: "EngineHeader \<Rightarrow> DisassembledInstruction" where
  "zeroed_instruction H =
     \<lparr>address = 0, raw_bytes = 0, inst_length = 0, mnemonic = [], operands = [],
       full_disasm = [], comment = [], category = category_zero H, has_branch = False,
       branch_type = branch_type_zero H, has_branch_target = False, branch_target = 0,
       branch_offset = 0, updates_pc = False, regs_read = 0, regs_written = 0,
       flags_written = 0, is_function_start = False, is_function_end = False,
       is_valid = False\<rparr>"

subsection \<open>String helpers\<close>

definition arm64_register_name :: "8 word \<Rightarrow> bool \<Rightarrow> string" where
  "arm64_register_name reg is_64bit =
     (if reg > 31 then ''???''
      else if is_64bit
      then [''X0'', ''X1'', ''X2'', ''X3'', ''X4'', ''X5'', ''X6'', ''X7'',
            ''X8'', ''X9'', ''X10'', ''X11'', ''X12'', ''X13'', ''X14'', ''X15'',
            ''X16'', ''X17'', ''X18'', ''X19'', ''X20'', ''X21'', ''X22'', ''X23'',
            ''X24'', ''X25'', ''X26'', ''X27'', ''X28'', ''X29'', ''X30'', ''SP''] ! unat reg
      else [''W0'', ''W1'', ''W2'', ''W3'', ''W4'', ''W5'', ''W6'', ''W7'',
            ''W8'', ''W9'', ''W10'', ''W11'', ''W12'', ''W13'', ''W14'', ''W15'',
            ''W16'', ''W17'', ''W18'', ''W19'', ''W20'', ''W21'', ''W22'', ''W23'',
            ''W24'', ''W25'', ''W26'', ''W27'', ''W28'', ''W29'', ''W30'', ''WSP''] ! unat reg)"

definition arm64_condition_string :: "8 word \<Rightarrow> string" where
  "arm64_condition_string cond =
     (if cond < 16
      then [''EQ'', ''NE'', ''CS'', ''CC'', ''MI'', ''PL'', ''VS'', ''VC'',
            ''HI'', ''LS'', ''GE'', ''LT'', ''GT'', ''LE'', ''AL'', ''NV''] ! unat cond
      else ''??'')"

subsection \<open>Prologue and epilogue heuristics\<close>

text \<open>The context pointer may be \<^verbatim>\<open>NULL\<close>; the instruction pointer never is.\<close>

definition heuristics_enabled :: "EngineHeader \<Rightarrow> DisassemblyContext option \<Rightarrow> bool" where
  "heuristics_enabled H ctx =
     (case ctx of
        None \<Rightarrow> False
      | Some c \<Rightarrow> flags c AND DISASM_FLAG_PROLOGUE_EPILOGUE_HEURISTICS H \<noteq> 0)"

definition arm64_is_prologue ::
  "EngineHeader \<Rightarrow> DisassemblyContext option \<Rightarrow> DisassembledInstruction \<Rightarrow> bool" where
  "arm64_is_prologue H ctx inst =
     (if \<not> heuristics_enabled H ctx then False
      else if strstr (mnemonic inst) ''STP'' \<noteq> None \<and>
              strstr (operands inst) ''X29'' \<noteq> None \<and>
              strstr (operands inst) ''X30'' \<noteq> None \<and>
              strstr (operands inst) ''#-'' \<noteq> None
      then True
      else False)"

definition arm64_is_epilogue ::
  "EngineHeader \<Rightarrow> DisassemblyContext option \<Rightarrow> DisassembledInstruction \<Rightarrow> bool" where
  "arm64_is_epilogue H ctx inst =
     (if mnemonic inst = ''RET'' then True
      else if \<not> heuristics_enabled H ctx then False
      else if strstr (mnemonic inst) ''LDP'' \<noteq> None \<and>
              strstr (operands inst) ''X29'' \<noteq> None \<and>
              strstr (operands inst) ''X30'' \<noteq> None
      then True
      else False)"

subsection \<open>The AArch64 decoder: the branches of the cascade\<close>

text \<open>
  Each definition is the body of one branch of \<^verbatim>\<open>disasm_arm64\<close>, a function of the
  record as it stands when the branch is entered. \<^verbatim>\<open>strcpy\<close> into \<open>mnemonic\<close> stores
  the literal as it is (the C is defined only when the buffer holds it); \<^verbatim>\<open>snprintf\<close>
  truncates to the size of the buffer. \<^verbatim>\<open>1ULL << r\<close> is \<open>push_bit r 1\<close>.
\<close>

text \<open>B and BL (lines 323 to 344)\<close>

definition arm64_b_bl ::
  "EngineHeader \<Rightarrow> 32 word \<Rightarrow> 64 word \<Rightarrow> DisassembledInstruction \<Rightarrow> DisassembledInstruction"
  where
  "arm64_b_bl H bytes addr inst =
     (let is_link = (drop_bit 31 bytes AND 0x1 = 1);
          imm26 = bytes AND 0x3FFFFFF;
          imm26' = (if imm26 AND 0x2000000 \<noteq> 0 then imm26 OR 0xFC000000 else imm26);
          offset = (scast imm26' :: 64 word) * 4;
          target = addr + offset
      in inst\<lparr>mnemonic := (if is_link then ''BL'' else ''B''),
              branch_target := target,
              branch_offset := offset,
              has_branch_target := True,
              has_branch := True,
              branch_type := (if is_link then BRANCH_CALL else BRANCH_UNCONDITIONAL),
              operands := snprintf (sizeof_operands H) (''0x'' @ fmt_x (unat target)),
              category := INST_CATEGORY_BRANCH,
              is_valid := True,
              updates_pc := True,
              regs_written :=
                (if is_link then regs_written inst OR push_bit 30 1 else regs_written inst)\<rparr>)"

text \<open>
  ADR and ADRP (lines 346 to 380). \<open>imm\<close> is a \<^verbatim>\<open>uint32_t\<close>, so \<^verbatim>\<open>(int64_t)imm\<close>
  extends it with zeros.
\<close>

definition arm64_adr_adrp ::
  "EngineHeader \<Rightarrow> 32 word \<Rightarrow> 64 word \<Rightarrow> DisassembledInstruction \<Rightarrow> DisassembledInstruction"
  where
  "arm64_adr_adrp H bytes addr inst =
     (let is_adrp = (bytes AND 0x80000000 \<noteq> 0);
          immlo = drop_bit 29 bytes AND 0x3;
          immhi = drop_bit 5 bytes AND 0x7FFFF;
          imm = push_bit 2 immhi OR immlo;
          imm' = (if imm AND push_bit 20 1 \<noteq> 0 then imm OR 0xFFF00000 else imm);
          offset = (if is_adrp then push_bit 12 (ucast imm' :: 64 word)
                    else (ucast imm' :: 64 word));
          target = (if is_adrp then (addr AND NOT 0xFFF) + offset else addr + offset);
          rd = (ucast (bytes AND 0x1F) :: 8 word)
      in inst\<lparr>mnemonic := (if is_adrp then ''ADRP'' else ''ADR''),
              operands := snprintf (sizeof_operands H)
                (arm64_register_name rd True @ '', 0x'' @ fmt_x (unat target)),
              category := INST_CATEGORY_DATA_PROCESSING,
              is_valid := True,
              regs_written := regs_written inst OR push_bit (unat rd) 1,
              has_branch := False,
              has_branch_target := True,
              branch_target := target,
              branch_offset := offset\<rparr>)"

text \<open>BR, BLR, RET and BRAA (lines 382 to 411)\<close>

definition arm64_br_blr_ret ::
  "EngineHeader \<Rightarrow> 32 word \<Rightarrow> DisassembledInstruction \<Rightarrow> DisassembledInstruction" where
  "arm64_br_blr_ret H bytes inst =
     (let rn = (ucast (drop_bit 5 bytes AND 0x1F) :: 8 word);
          opc = (ucast (drop_bit 21 bytes AND 0x3) :: 8 word);
          inst1 = inst\<lparr>mnemonic := (if opc = 0 then ''BR'' else if opc = 1 then ''BLR''
                                      else if opc = 2 then ''RET'' else ''BRAA''),
                       operands := snprintf (sizeof_operands H) (arm64_register_name rn True),
                       has_branch := True,
                       branch_type := (if opc = 2 then BRANCH_RETURN
                                       else if opc = 1 then BRANCH_CALL
                                       else BRANCH_UNCONDITIONAL),
                       category := INST_CATEGORY_BRANCH,
                       is_valid := True,
                       updates_pc := True,
                       regs_read := regs_read inst OR push_bit (unat rn) 1\<rparr>
      in if opc = 1 then inst1\<lparr>regs_written := regs_written inst1 OR push_bit 30 1\<rparr>
         else if opc = 2
         then inst1\<lparr>is_function_end := True, has_branch := True,
                     branch_type := BRANCH_RETURN, updates_pc := True\<rparr>
         else inst1)"

text \<open>
  LDP and STP (lines 413 to 455). \<open>imm7\<close> is an \<^verbatim>\<open>int16_t\<close>, \<open>offset\<close> an
  \<^verbatim>\<open>int32_t\<close> printed with \<^verbatim>\<open>%d\<close>.
\<close>

definition arm64_ldp_stp ::
  "EngineHeader \<Rightarrow> 32 word \<Rightarrow> DisassembledInstruction \<Rightarrow> DisassembledInstruction" where
  "arm64_ldp_stp H bytes inst =
     (let is_load = (drop_bit 22 bytes AND 0x1 = 1);
          is_64bit = (drop_bit 31 bytes AND 0x1 = 1);
          rt = (ucast (bytes AND 0x1F) :: 8 word);
          rt2 = (ucast (drop_bit 10 bytes AND 0x1F) :: 8 word);
          rn = (ucast (drop_bit 5 bytes AND 0x1F) :: 8 word);
          imm7 = (ucast (drop_bit 15 bytes AND 0x7F) :: 16 word);
          imm7' = (if imm7 AND 0x40 \<noteq> 0 then imm7 OR 0xFF80 else imm7);
          offset = (scast imm7' :: 32 word) * (if is_64bit then 8 else 4);
          idx = (ucast (drop_bit 23 bytes AND 0x3) :: 8 word);
          regs = arm64_register_name rt is_64bit @ '', '' @
                 arm64_register_name rt2 is_64bit @ '', ['' @
                 arm64_register_name rn True
      in inst\<lparr>mnemonic := (if is_load then ''LDP'' else ''STP''),
              operands := snprintf (sizeof_operands H)
                (if idx = 0x3 then regs @ '', #'' @ fmt_d (sint offset) @ '']!''
                 else if idx = 0x1 then regs @ ''], #'' @ fmt_d (sint offset)
                 else regs @ '', #'' @ fmt_d (sint offset) @ '']''),
              category := INST_CATEGORY_LOAD_STORE,
              is_valid := True,
              regs_written :=
                (if is_load
                 then regs_written inst OR (push_bit (unat rt) 1 OR push_bit (unat rt2) 1)
                 else regs_written inst),
              regs_read :=
                (if is_load then regs_read inst OR push_bit (unat rn) 1
                 else regs_read inst OR
                      (push_bit (unat rt) 1 OR push_bit (unat rt2) 1 OR
                       push_bit (unat rn) 1))\<rparr>)"

text \<open>
  ADD and SUB with an immediate (lines 460 to 482). The branch is entered with bit 23
  clear, so \<open>shift\<close> is 0 or 1 and the 32-bit shift is exact.
\<close>

definition arm64_add_sub_imm ::
  "EngineHeader \<Rightarrow> 32 word \<Rightarrow> DisassembledInstruction \<Rightarrow> DisassembledInstruction" where
  "arm64_add_sub_imm H bytes inst =
     (let is_sub = (drop_bit 30 bytes AND 0x1 = 1);
          is_64bit = (drop_bit 31 bytes AND 0x1 = 1);
          rd = (ucast (bytes AND 0x1F) :: 8 word);
          rn = (ucast (drop_bit 5 bytes AND 0x1F) :: 8 word);
          imm12 = (ucast (drop_bit 10 bytes AND 0xFFF) :: 16 word);
          shift = (ucast (drop_bit 22 bytes AND 0x3) :: 8 word);
          imm = push_bit (unat shift * 12) (ucast imm12 :: 32 word)
      in inst\<lparr>mnemonic := (if is_sub then ''SUB'' else ''ADD''),
              operands := snprintf (sizeof_operands H)
                (arm64_register_name rd is_64bit @ '', '' @
                 arm64_register_name rn is_64bit @ '', #'' @ fmt_u (unat imm)),
              category := INST_CATEGORY_DATA_PROCESSING,
              is_valid := True,
              regs_read := regs_read inst OR push_bit (unat rn) 1,
              regs_written := regs_written inst OR push_bit (unat rd) 1,
              flags_written :=
                (if drop_bit 20 bytes AND 0x1 = 1 then 0xF else flags_written inst)\<rparr>)"

text \<open>MOVZ, MOVN and MOVK (lines 483 to 506)\<close>

definition arm64_mov_wide ::
  "EngineHeader \<Rightarrow> 32 word \<Rightarrow> DisassembledInstruction \<Rightarrow> DisassembledInstruction" where
  "arm64_mov_wide H bytes inst =
     (let opc = (ucast (drop_bit 29 bytes AND 0x3) :: 8 word);
          is_64bit = (drop_bit 31 bytes AND 0x1 = 1);
          rd = (ucast (bytes AND 0x1F) :: 8 word);
          imm16 = (ucast (drop_bit 5 bytes AND 0xFFFF) :: 16 word)
      in inst\<lparr>mnemonic := (if opc = 0x2 then ''MOVZ'' else if opc = 0x0 then ''MOVN''
                             else if opc = 0x3 then ''MOVK'' else ''MOV''),
              operands := snprintf (sizeof_operands H)
                (arm64_register_name rd is_64bit @ '', #0x'' @ fmt_X (unat imm16)),
              category := INST_CATEGORY_DATA_PROCESSING,
              is_valid := True,
              regs_read :=
                (if opc = 0x3 then regs_read inst OR push_bit (unat rd) 1 else 0),
              regs_written := regs_written inst OR push_bit (unat rd) 1\<rparr>)"

text \<open>The branch \<^verbatim>\<open>(op0 & 0x8) == 0x8\<close> (lines 457 to 507)\<close>

definition arm64_group_imm ::
  "EngineHeader \<Rightarrow> 32 word \<Rightarrow> DisassembledInstruction \<Rightarrow> DisassembledInstruction" where
  "arm64_group_imm H bytes inst =
     (if drop_bit 23 bytes AND 0x3F = 0x22 \<or> drop_bit 23 bytes AND 0x3F = 0x32
      then arm64_add_sub_imm H bytes inst
      else if drop_bit 23 bytes AND 0x3F = 0x25 \<or> drop_bit 23 bytes AND 0x3F = 0x05 \<or>
              drop_bit 23 bytes AND 0x3F = 0x35
      then arm64_mov_wide H bytes inst
      else inst)"

text \<open>B.cond (lines 511 to 528)\<close>

definition arm64_b_cond ::
  "EngineHeader \<Rightarrow> 32 word \<Rightarrow> 64 word \<Rightarrow> DisassembledInstruction \<Rightarrow> DisassembledInstruction"
  where
  "arm64_b_cond H bytes addr inst =
     (let cond = (ucast (bytes AND 0xF) :: 8 word);
          imm19 = drop_bit 5 bytes AND 0x7FFFF;
          imm19' = (if imm19 AND 0x40000 \<noteq> 0 then imm19 OR 0xFFF80000 else imm19);
          offset = (scast imm19' :: 64 word) * 4;
          target = addr + offset
      in inst\<lparr>mnemonic := snprintf (sizeof_mnemonic H) (''B.'' @ arm64_condition_string cond),
              branch_target := target,
              branch_offset := offset,
              has_branch_target := True,
              has_branch := True,
              branch_type := BRANCH_CONDITIONAL,
              operands := snprintf (sizeof_operands H) (''0x'' @ fmt_x (unat target)),
              category := INST_CATEGORY_BRANCH,
              is_valid := True,
              updates_pc := True\<rparr>)"

text \<open>CBZ and CBNZ (lines 529 to 550)\<close>

definition arm64_cbz_cbnz ::
  "EngineHeader \<Rightarrow> 32 word \<Rightarrow> 64 word \<Rightarrow> DisassembledInstruction \<Rightarrow> DisassembledInstruction"
  where
  "arm64_cbz_cbnz H bytes addr inst =
     (let is_cbnz = (drop_bit 24 bytes AND 0x1 = 1);
          is_64bit = (drop_bit 31 bytes AND 0x1 = 1);
          rt = (ucast (bytes AND 0x1F) :: 8 word);
          imm19 = drop_bit 5 bytes AND 0x7FFFF;
          imm19' = (if imm19 AND 0x40000 \<noteq> 0 then imm19 OR 0xFFF80000 else imm19);
          offset = (scast imm19' :: 64 word) * 4;
          target = addr + offset
      in inst\<lparr>mnemonic := (if is_cbnz then ''CBNZ'' else ''CBZ''),
              branch_target := target,
              branch_offset := offset,
              has_branch_target := True,
              has_branch := True,
              branch_type := BRANCH_CONDITIONAL,
              operands := snprintf (sizeof_operands H)
                (arm64_register_name rt is_64bit @ '', 0x'' @ fmt_x (unat target)),
              category := INST_CATEGORY_BRANCH,
              is_valid := True,
              updates_pc := True,
              regs_read := regs_read inst OR push_bit (unat rt) 1\<rparr>)"

text \<open>TBZ and TBNZ (lines 551 to 572). \<open>imm14\<close> is an \<^verbatim>\<open>int16_t\<close>.\<close>

definition arm64_tbz_tbnz ::
  "EngineHeader \<Rightarrow> 32 word \<Rightarrow> 64 word \<Rightarrow> DisassembledInstruction \<Rightarrow> DisassembledInstruction"
  where
  "arm64_tbz_tbnz H bytes addr inst =
     (let is_tbnz = (drop_bit 24 bytes AND 0x1 = 1);
          is_64bit_op = (drop_bit 31 bytes AND 0x1 = 1);
          rt = (ucast (bytes AND 0x1F) :: 8 word);
          bit_pos = (ucast ((drop_bit 19 bytes AND 0x1F) OR
                            push_bit 5 (drop_bit 31 bytes AND 0x1)) :: 8 word);
          imm14 = (ucast (drop_bit 5 bytes AND 0x3FFF) :: 16 word);
          imm14' = (if imm14 AND 0x2000 \<noteq> 0 then imm14 OR 0xC000 else imm14);
          offset = (scast imm14' :: 64 word) * 4;
          target = addr + offset
      in inst\<lparr>mnemonic := (if is_tbnz then ''TBNZ'' else ''TBZ''),
              branch_target := target,
              branch_offset := offset,
              has_branch_target := True,
              has_branch := True,
              branch_type := BRANCH_CONDITIONAL,
              operands := snprintf (sizeof_operands H)
                (arm64_register_name rt is_64bit_op @ '', #'' @ fmt_u (unat bit_pos) @
                 '', 0x'' @ fmt_x (unat target)),
              category := INST_CATEGORY_BRANCH,
              is_valid := True,
              updates_pc := True\<rparr>)"

text \<open>The first branch \<^verbatim>\<open>(op0 & 0xE) == 0xA\<close> (lines 509 to 573)\<close>

definition arm64_group_cond_branch ::
  "EngineHeader \<Rightarrow> 32 word \<Rightarrow> 64 word \<Rightarrow> DisassembledInstruction \<Rightarrow> DisassembledInstruction"
  where
  "arm64_group_cond_branch H bytes addr inst =
     (if drop_bit 24 bytes AND 0xFF = 0x54
      then arm64_b_cond H bytes addr inst
      else if drop_bit 24 bytes AND 0x7F = 0x34 \<or> drop_bit 24 bytes AND 0x7F = 0x35
      then arm64_cbz_cbnz H bytes addr inst
      else if drop_bit 24 bytes AND 0x7F = 0x36 \<or> drop_bit 24 bytes AND 0x7F = 0x37
      then arm64_tbz_tbnz H bytes addr inst
      else inst)"

text \<open>LDR and STR with an unsigned offset (lines 578 to 594)\<close>

definition arm64_ldr_str_imm ::
  "EngineHeader \<Rightarrow> 32 word \<Rightarrow> DisassembledInstruction \<Rightarrow> DisassembledInstruction" where
  "arm64_ldr_str_imm H bytes inst =
     (let size = (ucast (drop_bit 30 bytes AND 0x3) :: 8 word);
          is_load = (drop_bit 22 bytes AND 0x1 = 1);
          is_64bit = (size = 0x3);
          rt = (ucast (bytes AND 0x1F) :: 8 word);
          rn = (ucast (drop_bit 5 bytes AND 0x1F) :: 8 word);
          imm12 = (ucast (drop_bit 10 bytes AND 0xFFF) :: 16 word);
          offset = push_bit (unat size) (ucast imm12 :: 32 word)
      in inst\<lparr>mnemonic := (if is_load then ''LDR'' else ''STR''),
              operands := snprintf (sizeof_operands H)
                (arm64_register_name rt is_64bit @ '', ['' @
                 arm64_register_name rn True @ '', #'' @ fmt_u (unat offset) @ '']''),
              category := INST_CATEGORY_LOAD_STORE,
              is_valid := True\<rparr>)"

text \<open>LDUR and STUR (lines 596 to 612). \<open>imm9\<close> is an \<^verbatim>\<open>int16_t\<close>.\<close>

definition arm64_ldur_stur ::
  "EngineHeader \<Rightarrow> 32 word \<Rightarrow> DisassembledInstruction \<Rightarrow> DisassembledInstruction" where
  "arm64_ldur_stur H bytes inst =
     (let size = (ucast (drop_bit 30 bytes AND 0x3) :: 8 word);
          is_load = (drop_bit 22 bytes AND 0x1 = 1);
          is_64bit = (size \<ge> 0x2);
          rt = (ucast (bytes AND 0x1F) :: 8 word);
          rn = (ucast (drop_bit 5 bytes AND 0x1F) :: 8 word);
          imm9 = (ucast (drop_bit 12 bytes AND 0x1FF) :: 16 word);
          imm9' = (if imm9 AND 0x100 \<noteq> 0 then imm9 OR 0xFE00 else imm9)
      in inst\<lparr>mnemonic := (if is_load then ''LDUR'' else ''STUR''),
              operands := snprintf (sizeof_operands H)
                (arm64_register_name rt is_64bit @ '', ['' @
                 arm64_register_name rn True @ '', #'' @ fmt_d (sint imm9') @ '']''),
              category := INST_CATEGORY_LOAD_STORE,
              is_valid := True\<rparr>)"

text \<open>LDR of a literal (lines 614 to 628)\<close>

definition arm64_ldr_literal ::
  "EngineHeader \<Rightarrow> 32 word \<Rightarrow> 64 word \<Rightarrow> DisassembledInstruction \<Rightarrow> DisassembledInstruction"
  where
  "arm64_ldr_literal H bytes addr inst =
     (let rt = (ucast (bytes AND 0x1F) :: 8 word);
          imm19 = drop_bit 5 bytes AND 0x7FFFF;
          imm19' = (if imm19 AND 0x40000 \<noteq> 0 then imm19 OR 0xFFF80000 else imm19);
          offset = (scast imm19' :: 64 word) * 4;
          target = addr + offset
      in inst\<lparr>mnemonic := ''LDR'',
              operands := snprintf (sizeof_operands H)
                (arm64_register_name rt True @ '', 0x'' @ fmt_x (unat target)),
              category := INST_CATEGORY_LOAD_STORE,
              is_valid := True,
              regs_written := regs_written inst OR push_bit (unat rt) 1\<rparr>)"

text \<open>The branch \<^verbatim>\<open>(op0 & 0xB) == 0x8\<close> (lines 575 to 629)\<close>

definition arm64_group_load_store ::
  "EngineHeader \<Rightarrow> 32 word \<Rightarrow> 64 word \<Rightarrow> DisassembledInstruction \<Rightarrow> DisassembledInstruction"
  where
  "arm64_group_load_store H bytes addr inst =
     (if drop_bit 24 bytes = 0xB9 \<or> drop_bit 24 bytes = 0xF9 \<or>
         drop_bit 24 bytes = 0x39 \<or> drop_bit 24 bytes = 0x79
      then arm64_ldr_str_imm H bytes inst
      else if drop_bit 21 bytes AND 0x7FF = 0x1C0 \<or> drop_bit 21 bytes AND 0x7FF = 0x1C1 \<or>
              drop_bit 21 bytes AND 0x7FF = 0x3C0 \<or> drop_bit 21 bytes AND 0x7FF = 0x3C1
      then arm64_ldur_stur H bytes inst
      else if drop_bit 24 bytes = 0x18 \<or> drop_bit 24 bytes = 0x58 \<or>
              drop_bit 24 bytes = 0x98 \<or> drop_bit 24 bytes = 0xD8
      then arm64_ldr_literal H bytes addr inst
      else inst)"

text \<open>Logical operations on shifted registers (lines 632 to 678)\<close>

definition arm64_logical_shifted ::
  "EngineHeader \<Rightarrow> 32 word \<Rightarrow> DisassembledInstruction \<Rightarrow> DisassembledInstruction" where
  "arm64_logical_shifted H bytes inst =
     (let opc = (ucast (drop_bit 29 bytes AND 0x3) :: 8 word);
          is_64bit = (drop_bit 31 bytes AND 0x1 = 1);
          rd = (ucast (bytes AND 0x1F) :: 8 word);
          rn = (ucast (drop_bit 5 bytes AND 0x1F) :: 8 word);
          rm = (ucast (drop_bit 16 bytes AND 0x1F) :: 8 word);
          N = (drop_bit 21 bytes AND 0x1 = 1);
          inst1 = inst\<lparr>mnemonic :=
                    (if opc = 0 then (if N then ''BIC'' else ''AND'')
                     else if opc = 1 then (if N then ''ORN'' else ''ORR'')
                     else if opc = 2 then (if N then ''EON'' else ''EOR'')
                     else (if N then ''BICS'' else ''ANDS''))\<rparr>;
          imm6 = (ucast (drop_bit 10 bytes AND 0x3F) :: 8 word);
          shift_type = (ucast (drop_bit 22 bytes AND 0x3) :: 8 word);
          shift_name = (if shift_type = 0 then ''LSL'' else if shift_type = 1 then ''LSR''
                        else if shift_type = 2 then ''ASR'' else ''ROR'');
          inst2 =
            (if \<not> N \<and> opc = 1 \<and> rn = 31
             then inst1\<lparr>mnemonic := ''MOV'',
                         operands := snprintf (sizeof_operands H)
                           (arm64_register_name rd is_64bit @ '', '' @
                            arm64_register_name rm is_64bit),
                         regs_read := regs_read inst1 OR push_bit (unat rm) 1,
                         regs_written := regs_written inst1 OR push_bit (unat rd) 1\<rparr>
             else inst1\<lparr>operands := snprintf (sizeof_operands H)
                           (if imm6 \<noteq> 0
                            then arm64_register_name rd is_64bit @ '', '' @
                                 arm64_register_name rn is_64bit @ '', '' @
                                 arm64_register_name rm is_64bit @ '', '' @
                                 shift_name @ '' #'' @ fmt_u (unat imm6)
                            else arm64_register_name rd is_64bit @ '', '' @
                                 arm64_register_name rn is_64bit @ '', '' @
                                 arm64_register_name rm is_64bit),
                         regs_read := regs_read inst1 OR
                           (push_bit (unat rn) 1 OR push_bit (unat rm) 1),
                         regs_written := regs_written inst1 OR push_bit (unat rd) 1,
                         flags_written :=
                           (if drop_bit 20 bytes AND 0x1 = 1 then 0xF
                            else flags_written inst1)\<rparr>)
      in inst2\<lparr>category := INST_CATEGORY_DATA_PROCESSING, is_valid := True\<rparr>)"

text \<open>BFM, SBFM and UBFM (lines 679 to 697)\<close>

definition arm64_bitfield ::
  "EngineHeader \<Rightarrow> 32 word \<Rightarrow> DisassembledInstruction \<Rightarrow> DisassembledInstruction" where
  "arm64_bitfield H bytes inst =
     (let is_64bit = (drop_bit 31 bytes AND 0x1 = 1);
          opc = (ucast (drop_bit 29 bytes AND 0x3) :: 8 word);
          rd = (ucast (bytes AND 0x1F) :: 8 word);
          rn = (ucast (drop_bit 5 bytes AND 0x1F) :: 8 word);
          immr = (ucast (drop_bit 16 bytes AND 0x3F) :: 8 word);
          imms = (ucast (drop_bit 10 bytes AND 0x3F) :: 8 word)
      in inst\<lparr>mnemonic := (if opc = 0x0 \<and> \<not> is_64bit then ''BFM''
                             else if opc = 0x1 \<and> is_64bit then ''SBFM''
                             else if opc = 0x2 \<and> is_64bit then ''UBFM''
                             else ''BFM''),
              operands := snprintf (sizeof_operands H)
                (arm64_register_name rd is_64bit @ '', '' @
                 arm64_register_name rn is_64bit @ '', #'' @ fmt_u (unat immr) @
                 '', #'' @ fmt_u (unat imms)),
              category := INST_CATEGORY_DATA_PROCESSING,
              is_valid := True\<rparr>)"

text \<open>Three-source data processing (lines 699 to 730)\<close>

definition arm64_three_source ::
  "EngineHeader \<Rightarrow> 32 word \<Rightarrow> DisassembledInstruction \<Rightarrow> DisassembledInstruction" where
  "arm64_three_source H bytes inst =
     (let is_64bit = (drop_bit 31 bytes AND 0x1 = 1);
          rd = (ucast (bytes AND 0x1F) :: 8 word);
          rn = (ucast (drop_bit 5 bytes AND 0x1F) :: 8 word);
          rm = (ucast (drop_bit 16 bytes AND 0x1F) :: 8 word);
          ra = (ucast (drop_bit 10 bytes AND 0x1F) :: 8 word);
          op = (ucast (drop_bit 21 bytes AND 0x7) :: 8 word);
          inst1 = inst\<lparr>mnemonic :=
                    (if op = 0x0 then ''MADD'' else if op = 0x1 then ''MSUB''
                     else if op = 0x2 then ''SMULL'' else if op = 0x3 then ''SMULH''
                     else if op = 0x2 then ''UDIV'' else if op = 0x3 then ''SDIV''
                     else ''MUL'')\<rparr>;
          inst2 =
            (if ra = 31 \<and> op = 0x0
             then inst1\<lparr>mnemonic := ''MUL'',
                         operands := snprintf (sizeof_operands H)
                           (arm64_register_name rd is_64bit @ '', '' @
                            arm64_register_name rn is_64bit @ '', '' @
                            arm64_register_name rm is_64bit)\<rparr>
             else inst1\<lparr>operands := snprintf (sizeof_operands H)
                           (arm64_register_name rd is_64bit @ '', '' @
                            arm64_register_name rn is_64bit @ '', '' @
                            arm64_register_name rm is_64bit @ '', '' @
                            arm64_register_name ra is_64bit)\<rparr>)
      in inst2\<lparr>category := INST_CATEGORY_DATA_PROCESSING, is_valid := True\<rparr>)"

text \<open>
  The second branch \<^verbatim>\<open>(op0 & 0xE) == 0xA\<close> (lines 631 to 731). The test
  \<^verbatim>\<open>>= 0x0\<close> on an unsigned value is written as the source has it.
\<close>

definition arm64_group_data_reg ::
  "EngineHeader \<Rightarrow> 32 word \<Rightarrow> DisassembledInstruction \<Rightarrow> DisassembledInstruction" where
  "arm64_group_data_reg H bytes inst =
     (if drop_bit 21 bytes AND 0xFF \<ge> 0x0 \<and> drop_bit 21 bytes AND 0xFF \<le> 0x77
      then arm64_logical_shifted H bytes inst
      else if drop_bit 22 bytes AND 0x3FF \<ge> 0x340 \<and> drop_bit 22 bytes AND 0x3FF \<le> 0x34F
      then arm64_bitfield H bytes inst
      else if drop_bit 21 bytes AND 0xFF \<ge> 0x1B \<and> drop_bit 21 bytes AND 0xFF \<le> 0x1F
      then arm64_three_source H bytes inst
      else inst)"

text \<open>CMP and CMN with an immediate (lines 738 to 749)\<close>

definition arm64_cmp_imm ::
  "EngineHeader \<Rightarrow> 32 word \<Rightarrow> DisassembledInstruction \<Rightarrow> DisassembledInstruction" where
  "arm64_cmp_imm H bytes inst =
     (let is_64bit = (drop_bit 31 bytes AND 0x1 = 1);
          rn = (ucast (drop_bit 5 bytes AND 0x1F) :: 8 word);
          is_sub = (drop_bit 30 bytes AND 0x1 = 1);
          imm12 = (ucast (drop_bit 10 bytes AND 0xFFF) :: 16 word)
      in inst\<lparr>mnemonic := (if is_sub then ''CMP'' else ''CMN''),
              operands := snprintf (sizeof_operands H)
                (arm64_register_name rn is_64bit @ '', #'' @ fmt_u (unat imm12)),
              category := INST_CATEGORY_DATA_PROCESSING,
              is_valid := True,
              regs_read := regs_read inst OR push_bit (unat rn) 1,
              flags_written := 0xF\<rparr>)"

text \<open>CMP and CMN with a register (lines 751 to 763)\<close>

definition arm64_cmp_reg ::
  "EngineHeader \<Rightarrow> 32 word \<Rightarrow> DisassembledInstruction \<Rightarrow> DisassembledInstruction" where
  "arm64_cmp_reg H bytes inst =
     (let is_64bit = (drop_bit 31 bytes AND 0x1 = 1);
          rn = (ucast (drop_bit 5 bytes AND 0x1F) :: 8 word);
          is_sub = (drop_bit 30 bytes AND 0x1 = 1);
          rm = (ucast (drop_bit 16 bytes AND 0x1F) :: 8 word)
      in inst\<lparr>mnemonic := (if is_sub then ''CMP'' else ''CMN''),
              operands := snprintf (sizeof_operands H)
                (arm64_register_name rn is_64bit @ '', '' @ arm64_register_name rm is_64bit),
              category := INST_CATEGORY_DATA_PROCESSING,
              is_valid := True,
              regs_read := regs_read inst OR (push_bit (unat rn) 1 OR push_bit (unat rm) 1),
              flags_written := 0xF\<rparr>)"

text \<open>The CMP and CMN branch (lines 733 to 764)\<close>

definition arm64_group_cmp ::
  "EngineHeader \<Rightarrow> 32 word \<Rightarrow> DisassembledInstruction \<Rightarrow> DisassembledInstruction" where
  "arm64_group_cmp H bytes inst =
     (if drop_bit 24 bytes AND 0xFF = 0xF1 \<or> drop_bit 24 bytes AND 0xFF = 0x71
      then arm64_cmp_imm H bytes inst
      else if drop_bit 24 bytes AND 0xFF = 0xEB \<or> drop_bit 24 bytes AND 0xFF = 0x6B
      then arm64_cmp_reg H bytes inst
      else inst)"

text \<open>LSL, LSR, ASR and ROR (lines 766 to 794)\<close>

definition arm64_shift ::
  "EngineHeader \<Rightarrow> 32 word \<Rightarrow> DisassembledInstruction \<Rightarrow> DisassembledInstruction" where
  "arm64_shift H bytes inst =
     (let is_64bit = (drop_bit 31 bytes AND 0x1 = 1);
          rd = (ucast (bytes AND 0x1F) :: 8 word);
          rn = (ucast (drop_bit 5 bytes AND 0x1F) :: 8 word);
          rm = (ucast (drop_bit 16 bytes AND 0x1F) :: 8 word);
          shift_type = (ucast (drop_bit 22 bytes AND 0x3) :: 8 word);
          imm6 = (ucast (drop_bit 10 bytes AND 0x3F) :: 8 word);
          shift_name = (if shift_type = 0x0 then ''LSL'' else if shift_type = 0x1 then ''LSR''
                        else if shift_type = 0x2 then ''ASR'' else ''ROR'')
      in inst\<lparr>mnemonic := shift_name,
              operands := snprintf (sizeof_operands H)
                (if imm6 \<noteq> 0
                 then arm64_register_name rd is_64bit @ '', '' @
                      arm64_register_name rn is_64bit @ '', #'' @ fmt_u (unat imm6)
                 else arm64_register_name rd is_64bit @ '', '' @
                      arm64_register_name rn is_64bit @ '', '' @
                      arm64_register_name rm is_64bit),
              category := INST_CATEGORY_DATA_PROCESSING,
              is_valid := True\<rparr>)"

text \<open>CCMP (lines 796 to 814)\<close>

definition arm64_ccmp ::
  "EngineHeader \<Rightarrow> 32 word \<Rightarrow> DisassembledInstruction \<Rightarrow> DisassembledInstruction" where
  "arm64_ccmp H bytes inst =
     (let is_64bit = (drop_bit 31 bytes AND 0x1 = 1);
          rn = (ucast (drop_bit 5 bytes AND 0x1F) :: 8 word);
          rm = (ucast (drop_bit 16 bytes AND 0x1F) :: 8 word);
          nzcv = (ucast (bytes AND 0xF) :: 8 word);
          cond = (ucast (drop_bit 12 bytes AND 0xF) :: 8 word)
      in inst\<lparr>mnemonic := ''CCMP'',
              operands := snprintf (sizeof_operands H)
                (arm64_register_name rn is_64bit @ '', '' @
                 arm64_register_name rm is_64bit @ '', #'' @ fmt_u (unat nzcv) @ '', '' @
                 arm64_condition_string cond),
              category := INST_CATEGORY_DATA_PROCESSING,
              is_valid := True,
              regs_read := regs_read inst OR (push_bit (unat rn) 1 OR push_bit (unat rm) 1),
              flags_written := 0xF\<rparr>)"

text \<open>NOP (lines 816 to 821)\<close>

definition arm64_nop :: "DisassembledInstruction \<Rightarrow> DisassembledInstruction" where
  "arm64_nop inst =
     inst\<lparr>mnemonic := ''NOP'', operands := [], category := INST_CATEGORY_SYSTEM,
          is_valid := True\<rparr>"

text \<open>The hints (lines 822 to 836)\<close>

definition arm64_hint :: "32 word \<Rightarrow> DisassembledInstruction \<Rightarrow> DisassembledInstruction" where
  "arm64_hint bytes inst =
     (let crm = (ucast (drop_bit 8 bytes AND 0xF) :: 8 word);
          op2 = (ucast (drop_bit 5 bytes AND 0x7) :: 8 word)
      in inst\<lparr>mnemonic := (if crm = 0x0 \<and> op2 = 0x1 then ''YIELD''
                             else if crm = 0x0 \<and> op2 = 0x2 then ''WFE''
                             else if crm = 0x0 \<and> op2 = 0x3 then ''WFI''
                             else if crm = 0x0 \<and> op2 = 0x4 then ''SEV''
                             else if crm = 0x0 \<and> op2 = 0x5 then ''SEVL''
                             else ''HINT''),
              operands := [],
              category := INST_CATEGORY_SYSTEM,
              is_valid := True\<rparr>)"

text \<open>The barriers (lines 838 to 850)\<close>

definition arm64_barrier ::
  "EngineHeader \<Rightarrow> 32 word \<Rightarrow> DisassembledInstruction \<Rightarrow> DisassembledInstruction" where
  "arm64_barrier H bytes inst =
     (let crm = (ucast (drop_bit 8 bytes AND 0xF) :: 8 word);
          op2 = (ucast (drop_bit 5 bytes AND 0x7) :: 8 word)
      in inst\<lparr>mnemonic := (if op2 = 0x4 then ''DSB'' else if op2 = 0x5 then ''DMB''
                             else if op2 = 0x6 then ''ISB'' else ''BARRIER''),
              operands := snprintf (sizeof_operands H) (''#'' @ fmt_u (unat crm)),
              category := INST_CATEGORY_SYSTEM,
              is_valid := True\<rparr>)"

text \<open>MRS and MSR (lines 851 to 871)\<close>

definition arm64_sysreg_name :: "16 word \<Rightarrow> string" where
  "arm64_sysreg_name sysreg =
     ''S'' @ fmt_u (unat (drop_bit 14 sysreg AND 0x3)) @
     ''_'' @ fmt_u (unat (drop_bit 11 sysreg AND 0x7)) @
     ''_c'' @ fmt_u (unat (drop_bit 7 sysreg AND 0xF)) @
     ''_c'' @ fmt_u (unat (drop_bit 3 sysreg AND 0xF)) @
     ''_'' @ fmt_u (unat (sysreg AND 0x7))"

definition arm64_mrs_msr ::
  "EngineHeader \<Rightarrow> 32 word \<Rightarrow> DisassembledInstruction \<Rightarrow> DisassembledInstruction" where
  "arm64_mrs_msr H bytes inst =
     (let is_read = (drop_bit 21 bytes AND 0x1 = 1);
          rt = (ucast (bytes AND 0x1F) :: 8 word);
          sysreg = (ucast (drop_bit 5 bytes AND 0xFFFF) :: 16 word)
      in inst\<lparr>mnemonic := (if is_read then ''MRS'' else ''MSR''),
              operands := snprintf (sizeof_operands H)
                (if is_read
                 then arm64_register_name rt True @ '', '' @ arm64_sysreg_name sysreg
                 else arm64_sysreg_name sysreg @ '', '' @ arm64_register_name rt True),
              category := INST_CATEGORY_SYSTEM,
              is_valid := True\<rparr>)"

subsection \<open>The AArch64 decoder: the cascade\<close>

text \<open>
  The chain of \<^verbatim>\<open>if\<close> and \<^verbatim>\<open>else if\<close> of lines 323 to 871, in the order of the
  source. \<open>op0\<close> is \<^verbatim>\<open>(bytes >> 25) & 0xF\<close>.
\<close>

definition arm64_cascade ::
  "EngineHeader \<Rightarrow> 32 word \<Rightarrow> 64 word \<Rightarrow> DisassembledInstruction \<Rightarrow> DisassembledInstruction"
  where
  "arm64_cascade H bytes addr inst =
     (let op0 = (ucast (drop_bit 25 bytes AND 0xF) :: 8 word) in
      if drop_bit 26 bytes AND 0x3F = 0x5 \<or> drop_bit 26 bytes AND 0x3F = 0x25
      then arm64_b_bl H bytes addr inst
      else if bytes AND 0x9F000000 = 0x10000000 \<or> bytes AND 0x9F000000 = 0x90000000
      then arm64_adr_adrp H bytes addr inst
      else if drop_bit 21 bytes AND 0x7FF \<ge> 0x6B0 \<and> drop_bit 21 bytes AND 0x7FF \<le> 0x6B3
      then arm64_br_blr_ret H bytes inst
      else if drop_bit 22 bytes AND 0x3FF \<ge> 0x290 \<and> drop_bit 22 bytes AND 0x3FF \<le> 0x2BF
      then arm64_ldp_stp H bytes inst
      else if op0 AND 0x8 = 0x8
      then arm64_group_imm H bytes inst
      else if op0 AND 0xE = 0xA
      then arm64_group_cond_branch H bytes addr inst
      else if op0 AND 0xB = 0x8
      then arm64_group_load_store H bytes addr inst
      else if op0 AND 0xE = 0xA
      then arm64_group_data_reg H bytes inst
      else if drop_bit 24 bytes AND 0xFF = 0xF1 \<or> drop_bit 24 bytes AND 0xFF = 0x71 \<or>
              drop_bit 24 bytes AND 0xFF = 0xEB \<or> drop_bit 24 bytes AND 0xFF = 0x6B
      then arm64_group_cmp H bytes inst
      else if drop_bit 21 bytes AND 0x7FF \<ge> 0x69A \<and> drop_bit 21 bytes AND 0x7FF \<le> 0x69F
      then arm64_shift H bytes inst
      else if drop_bit 21 bytes AND 0x7FF \<ge> 0x3A2 \<and> drop_bit 21 bytes AND 0x7FF \<le> 0x3A3
      then arm64_ccmp H bytes inst
      else if bytes = 0xD503201F
      then arm64_nop inst
      else if drop_bit 12 bytes = 0xD503301
      then arm64_hint bytes inst
      else if drop_bit 12 bytes = 0xD503309
      then arm64_barrier H bytes inst
      else if drop_bit 21 bytes = 0x6A1
      then arm64_mrs_msr H bytes inst
      else inst)"

subsection \<open>The AArch64 decoder: fallbacks and the complete function\<close>

text \<open>
  The generic fallbacks of lines 873 to 942, entered when the cascade has left
  \<open>is_valid\<close> false: first the record that each of them writes.
\<close>

definition arm64_fallback_ldr_str ::
  "EngineHeader \<Rightarrow> 32 word \<Rightarrow> DisassembledInstruction \<Rightarrow> DisassembledInstruction" where
  "arm64_fallback_ldr_str H bytes inst =
     (let is_load = (drop_bit 22 bytes AND 0x1 = 1);
          rt = (ucast (bytes AND 0x1F) :: 8 word);
          rn = (ucast (drop_bit 5 bytes AND 0x1F) :: 8 word);
          size = (ucast (drop_bit 30 bytes AND 0x3) :: 8 word);
          is_64bit = (size \<ge> 0x2)
      in inst\<lparr>mnemonic := (if is_load then ''LDR'' else ''STR''),
              operands := snprintf (sizeof_operands H)
                (arm64_register_name rt is_64bit @ '', ['' @
                 arm64_register_name rn True @ '', ...]''),
              category := INST_CATEGORY_LOAD_STORE,
              is_valid := True\<rparr>)"

definition arm64_fallback_dp3src ::
  "EngineHeader \<Rightarrow> 32 word \<Rightarrow> DisassembledInstruction \<Rightarrow> DisassembledInstruction" where
  "arm64_fallback_dp3src H bytes inst =
     (let rd = (ucast (bytes AND 0x1F) :: 8 word);
          rn = (ucast (drop_bit 5 bytes AND 0x1F) :: 8 word);
          rm = (ucast (drop_bit 16 bytes AND 0x1F) :: 8 word);
          is_64bit = (drop_bit 31 bytes AND 0x1 = 1)
      in inst\<lparr>mnemonic := ''DP3SRC'',
              operands := snprintf (sizeof_operands H)
                (arm64_register_name rd is_64bit @ '', '' @
                 arm64_register_name rn is_64bit @ '', '' @
                 arm64_register_name rm is_64bit @ '', ...''),
              category := INST_CATEGORY_DATA_PROCESSING,
              is_valid := True\<rparr>)"

definition arm64_fallback_fmov ::
  "EngineHeader \<Rightarrow> 32 word \<Rightarrow> DisassembledInstruction \<Rightarrow> DisassembledInstruction" where
  "arm64_fallback_fmov H bytes inst =
     (let rd = (ucast (bytes AND 0x1F) :: 8 word);
          rn = (ucast (drop_bit 5 bytes AND 0x1F) :: 8 word)
      in inst\<lparr>mnemonic := ''FMOV'',
              operands := snprintf (sizeof_operands H)
                (''D'' @ fmt_u (unat rd) @ '', D'' @ fmt_u (unat rn)),
              category := INST_CATEGORY_SIMD,
              is_valid := True\<rparr>)"

definition arm64_fallback_simd ::
  "EngineHeader \<Rightarrow> DisassembledInstruction \<Rightarrow> DisassembledInstruction" where
  "arm64_fallback_simd H inst =
     inst\<lparr>mnemonic := ''SIMD'',
          operands := snprintf (sizeof_operands H) ''...'',
          category := INST_CATEGORY_SIMD,
          is_valid := True\<rparr>"

definition arm64_fallback_dpreg ::
  "EngineHeader \<Rightarrow> 32 word \<Rightarrow> DisassembledInstruction \<Rightarrow> DisassembledInstruction" where
  "arm64_fallback_dpreg H bytes inst =
     (let rd = (ucast (bytes AND 0x1F) :: 8 word);
          rn = (ucast (drop_bit 5 bytes AND 0x1F) :: 8 word);
          is_64bit = (drop_bit 31 bytes AND 0x1 = 1)
      in inst\<lparr>mnemonic := ''DPREG'',
              operands := snprintf (sizeof_operands H)
                (arm64_register_name rd is_64bit @ '', '' @
                 arm64_register_name rn is_64bit @ '', ...''),
              category := INST_CATEGORY_DATA_PROCESSING,
              is_valid := True\<rparr>)"

definition arm64_fallback_sys ::
  "EngineHeader \<Rightarrow> DisassembledInstruction \<Rightarrow> DisassembledInstruction" where
  "arm64_fallback_sys H inst =
     inst\<lparr>mnemonic := ''SYS'',
          operands := snprintf (sizeof_operands H) ''...'',
          category := INST_CATEGORY_SYSTEM,
          is_valid := True\<rparr>"

text \<open>
  The chain of the fallbacks. The second component tells whether the function
  returns at once (the \<^verbatim>\<open>return\<close> of the FMOV branch, line 915).
\<close>

definition arm64_generic_fallback ::
  "EngineHeader \<Rightarrow> 32 word \<Rightarrow> DisassembledInstruction \<Rightarrow> DisassembledInstruction \<times> bool"
  where
  "arm64_generic_fallback H bytes inst =
     (let op0 = (ucast (drop_bit 25 bytes AND 0xF) :: 8 word) in
      if op0 AND 0xB = 0x8 \<or> op0 AND 0xB = 0x9
      then (arm64_fallback_ldr_str H bytes inst, False)
      else if op0 = 0xB
      then (arm64_fallback_dp3src H bytes inst, False)
      else if op0 AND 0x7 = 0x7 \<or> op0 AND 0xE = 0xE
      then
        (if drop_bit 21 bytes AND 0x7FF = 0x3C0
         then (arm64_fallback_fmov H bytes inst, True)
         else (arm64_fallback_simd H inst, False))
      else if op0 AND 0xE = 0xA
      then (arm64_fallback_dpreg H bytes inst, False)
      else if op0 = 0xD
      then (arm64_fallback_sys H inst, False)
      else (inst, False))"

text \<open>
  The rewriting of ORR with a zero register into MOV (lines 944 to 986). \<open>first_comma\<close>
  is an offset into the operands, \<open>second_comma\<close> an offset from the character behind
  the first comma, which is the \<open>len\<close> of the source. The buffers \<open>mid\<close>, \<open>rd\<close> and
  \<open>rm\<close> have 32, 16 and 16 bytes. \<^verbatim>\<open>strcspn(rm_src, "\n\r\0")\<close> is the length
  before the first LF or CR.
\<close>

definition is_blank :: "char \<Rightarrow> bool" where
  "is_blank c \<longleftrightarrow> c = CHR '' '' \<or> c = CHR 0x09"

definition arm64_orr_alias ::
  "EngineHeader \<Rightarrow> DisassembledInstruction \<Rightarrow> DisassembledInstruction" where
  "arm64_orr_alias H inst =
     (if is_valid inst \<and> mnemonic inst = ''ORR''
      then
        (case strchr (operands inst) CHR '','' of
           None \<Rightarrow> inst
         | Some first_comma \<Rightarrow>
             (case strchr (drop (first_comma + 1) (operands inst)) CHR '','' of
                None \<Rightarrow> inst
              | Some len \<Rightarrow>
                  if len < 32
                  then
                    (let between = take len (drop (first_comma + 1) (operands inst));
                         mid = rev (dropWhile is_blank (rev (dropWhile is_blank between)))
                     in if mid = ''SP'' \<or> mid = ''WSP'' \<or> mid = ''XZR'' \<or> mid = ''WZR''
                        then
                          (let rd_len = (if first_comma \<ge> 16 then 15 else first_comma);
                               rd = take rd_len (operands inst);
                               rm_src = dropWhile is_blank
                                          (drop (first_comma + 1 + len + 1) (operands inst));
                               rm_len = length (takeWhile (\<lambda>c. c \<noteq> LF \<and> c \<noteq> CR) rm_src);
                               rm_len' = (if rm_len \<ge> 16 then 15 else rm_len);
                               rm = take rm_len' rm_src
                           in inst\<lparr>mnemonic := ''MOV'',
                                   operands := snprintf (sizeof_operands H) (rd @ '', '' @ rm),
                                   category := INST_CATEGORY_DATA_PROCESSING\<rparr>)
                        else inst)
                  else inst))
      else inst)"

text \<open>The raw word (lines 988 to 993)\<close>

definition arm64_word_fallback ::
  "EngineHeader \<Rightarrow> 32 word \<Rightarrow> DisassembledInstruction \<Rightarrow> DisassembledInstruction" where
  "arm64_word_fallback H bytes inst =
     (if \<not> is_valid inst
      then inst\<lparr>mnemonic := ''.word'',
                operands := snprintf (sizeof_operands H) (''0x'' @ fmt_0X 8 (unat bytes)),
                category := INST_CATEGORY_UNKNOWN,
                is_valid := True\<rparr>
      else inst)"

text \<open>
  The record at the entry of the cascade (lines 314 to 318), and the cascade followed
  by the generic fallbacks (lines 320 to 942).
\<close>

definition arm64_initial ::
  "EngineHeader \<Rightarrow> 32 word \<Rightarrow> 64 word \<Rightarrow> DisassembledInstruction" where
  "arm64_initial H bytes addr =
     (zeroed_instruction H)
       \<lparr>address := addr, raw_bytes := bytes, inst_length := 4, is_valid := False\<rparr>"

definition arm64_decode_branches ::
  "EngineHeader \<Rightarrow> 32 word \<Rightarrow> 64 word \<Rightarrow> DisassembledInstruction \<times> bool" where
  "arm64_decode_branches H bytes addr =
     (let inst1 = arm64_cascade H bytes addr (arm64_initial H bytes addr)
      in if \<not> is_valid inst1 then arm64_generic_fallback H bytes inst1
         else (inst1, False))"

text \<open>
  A word is matched by no decode branch when the cascade and the generic fallbacks
  leave \<open>is_valid\<close> false.
\<close>

definition arm64_unmatched :: "EngineHeader \<Rightarrow> 32 word \<Rightarrow> 64 word \<Rightarrow> bool" where
  "arm64_unmatched H bytes addr \<longleftrightarrow> \<not> is_valid (fst (arm64_decode_branches H bytes addr))"

text \<open>
  The end of the function (lines 944 to 1001): the MOV alias, the raw word, the
  full text and the two heuristics.
\<close>

definition arm64_finish ::
  "EngineHeader \<Rightarrow> DisassemblyContext option \<Rightarrow> 32 word \<Rightarrow> DisassembledInstruction \<Rightarrow>
   bool \<times> DisassembledInstruction" where
  "arm64_finish H ctx bytes inst2 =
     (let inst3 = arm64_orr_alias H inst2;
          inst4 = arm64_word_fallback H bytes inst3;
          inst5 = inst4\<lparr>full_disasm := snprintf (sizeof_full_disasm H)
                    (''0x'' @ fmt_x (unat (address inst4)) @ '': '' @
                     mnemonic inst4 @ '' '' @ operands inst4)\<rparr>;
          inst6 = inst5\<lparr>is_function_start := arm64_is_prologue H ctx inst5\<rparr>;
          inst7 = inst6\<lparr>is_function_end := arm64_is_epilogue H ctx inst6\<rparr>
      in (is_valid inst7, inst7))"

text \<open>
  \<^verbatim>\<open>disasm_arm64\<close>: the value returned and the record written through \<open>inst\<close>.
\<close>

definition disasm_arm64 ::
  "EngineHeader \<Rightarrow> DisassemblyContext option \<Rightarrow> 32 word \<Rightarrow> 64 word \<Rightarrow>
   bool \<times> DisassembledInstruction" where
  "disasm_arm64 H ctx bytes addr =
     (let (inst2, returned) = arm64_decode_branches H bytes addr
      in if returned then (is_valid inst2, inst2)
         else arm64_finish H ctx bytes inst2)"

subsection \<open>The x86-64 decoder\<close>

text \<open>
  \<^verbatim>\<open>disasm_x86_64\<close> reads the bytes at a pointer without a bound of its own; the
  argument \<open>bytes\<close> gives the byte at each offset from that pointer. The casts to
  \<^verbatim>\<open>uint16_t*\<close>, \<^verbatim>\<open>uint32_t*\<close> and \<^verbatim>\<open>int32_t*\<close> read little-endian values, as on
  the hosts the engine is built for.
\<close>

definition read_u16 :: "(nat \<Rightarrow> 8 word) \<Rightarrow> nat \<Rightarrow> 16 word" where
  "read_u16 bytes pos = ucast (bytes pos) OR push_bit 8 (ucast (bytes (pos + 1)))"

definition read_u32 :: "(nat \<Rightarrow> 8 word) \<Rightarrow> nat \<Rightarrow> 32 word" where
  "read_u32 bytes pos =
     ucast (bytes pos) OR push_bit 8 (ucast (bytes (pos + 1))) OR
     push_bit 16 (ucast (bytes (pos + 2))) OR push_bit 24 (ucast (bytes (pos + 3)))"

definition regs64 :: "string list" where
  "regs64 = [''rax'', ''rcx'', ''rdx'', ''rbx'', ''rsp'', ''rbp'', ''rsi'', ''rdi'']"

definition regs64_rex :: "string list" where
  "regs64_rex = [''r8'', ''r9'', ''r10'', ''r11'', ''r12'', ''r13'', ''r14'', ''r15'']"

text \<open>An instruction of one opcode byte and no operand (lines 1128 to 1187).\<close>

definition x86_plain ::
  "DisassembledInstruction \<Rightarrow> string \<Rightarrow> InstructionCategory \<Rightarrow> nat \<Rightarrow> DisassembledInstruction"
  where
  "x86_plain inst name cat pos =
     inst\<lparr>mnemonic := name, category := cat, is_valid := True, inst_length := pos\<rparr>"

text \<open>RET and RETF (lines 1097 to 1127)\<close>

definition x86_ret ::
  "EngineHeader \<Rightarrow> (nat \<Rightarrow> 8 word) \<Rightarrow> 8 word \<Rightarrow> nat \<Rightarrow> DisassembledInstruction \<Rightarrow>
   DisassembledInstruction" where
  "x86_ret H bytes opcode pos inst =
     (if opcode = 0xC3 \<or> opcode = 0xCB
      then inst\<lparr>mnemonic := (if opcode = 0xC3 then ''RET'' else ''RETF''),
                has_branch := True, branch_type := BRANCH_RETURN,
                category := INST_CATEGORY_BRANCH, is_valid := True,
                is_function_end := True, inst_length := pos\<rparr>
      else
        (let inst1 = inst\<lparr>mnemonic := ''RET''\<rparr>;
             inst2 =
               (if pos + 2 \<le> 15
                then inst1\<lparr>operands := snprintf (sizeof_operands H)
                              (''0x'' @ fmt_x (unat (read_u16 bytes pos))),
                            inst_length := pos + 2\<rparr>
                else inst1)
         in inst2\<lparr>has_branch := True, branch_type := BRANCH_RETURN,
                  category := INST_CATEGORY_BRANCH, is_valid := True,
                  is_function_end := True\<rparr>))"

text \<open>PUSH and POP of a register (lines 1189 to 1221)\<close>

definition x86_push_pop ::
  "EngineHeader \<Rightarrow> 8 word \<Rightarrow> bool \<Rightarrow> 8 word \<Rightarrow> nat \<Rightarrow> DisassembledInstruction \<Rightarrow>
   DisassembledInstruction" where
  "x86_push_pop H opcode has_rex rex pos inst =
     (let is_push = (opcode \<le> 0x57);
          reg_idx = (if is_push then opcode - 0x50 else opcode - 0x58)
      in inst\<lparr>mnemonic := (if is_push then ''PUSH'' else ''POP''),
              operands := snprintf (sizeof_operands H)
                (if has_rex \<and> rex AND 0x01 \<noteq> 0 then regs64_rex ! unat reg_idx
                 else regs64 ! unat reg_idx),
              category := INST_CATEGORY_DATA_PROCESSING,
              is_valid := True,
              inst_length := pos,
              regs_read :=
                (if is_push then regs_read inst OR push_bit (unat reg_idx) 1
                 else regs_read inst),
              regs_written :=
                (if is_push then regs_written inst
                 else regs_written inst OR push_bit (unat reg_idx) 1)\<rparr>)"

text \<open>
  JMP and CALL with a 32-bit displacement (lines 1223 to 1237 and 1255 to 1269).
  The sum \<^verbatim>\<open>address + pos + 4 + offset\<close> is taken in \<^verbatim>\<open>uint64_t\<close>.
\<close>

definition x86_jmp_call_rel32 ::
  "EngineHeader \<Rightarrow> (nat \<Rightarrow> 8 word) \<Rightarrow> 64 word \<Rightarrow> 8 word \<Rightarrow> nat \<Rightarrow>
   DisassembledInstruction \<Rightarrow> DisassembledInstruction" where
  "x86_jmp_call_rel32 H bytes addr opcode pos inst =
     (let inst1 = inst\<lparr>mnemonic := (if opcode = 0xE9 then ''JMP'' else ''CALL'')\<rparr>
      in if pos + 4 \<le> 15
         then
           (let offset = read_u32 bytes pos;
                target = addr + of_nat pos + 4 + (scast offset :: 64 word)
            in inst1\<lparr>branch_target := target,
                     has_branch_target := True,
                     has_branch := True,
                     operands := snprintf (sizeof_operands H) (''0x'' @ fmt_x (unat target)),
                     branch_type :=
                       (if opcode = 0xE9 then BRANCH_UNCONDITIONAL else BRANCH_CALL),
                     category := INST_CATEGORY_BRANCH,
                     is_valid := True,
                     inst_length := pos + 4,
                     updates_pc := True\<rparr>)
         else inst1)"

text \<open>JMP with an 8-bit displacement (lines 1239 to 1253)\<close>

definition x86_jmp_rel8 ::
  "EngineHeader \<Rightarrow> (nat \<Rightarrow> 8 word) \<Rightarrow> 64 word \<Rightarrow> nat \<Rightarrow> DisassembledInstruction \<Rightarrow>
   DisassembledInstruction" where
  "x86_jmp_rel8 H bytes addr pos inst =
     (let inst1 = inst\<lparr>mnemonic := ''JMP''\<rparr>
      in if pos < 15
         then
           (let offset = bytes pos;
                target = addr + of_nat pos + 1 + (scast offset :: 64 word)
            in inst1\<lparr>branch_target := target,
                     has_branch_target := True,
                     has_branch := True,
                     operands := snprintf (sizeof_operands H) (''0x'' @ fmt_x (unat target)),
                     branch_type := BRANCH_UNCONDITIONAL,
                     category := INST_CATEGORY_BRANCH,
                     is_valid := True,
                     inst_length := pos + 1,
                     updates_pc := True\<rparr>)
         else inst1)"

text \<open>The conditional jumps with an 8-bit displacement (lines 1271 to 1292)\<close>

definition x86_jcc_rel8 ::
  "EngineHeader \<Rightarrow> (nat \<Rightarrow> 8 word) \<Rightarrow> 64 word \<Rightarrow> 8 word \<Rightarrow> nat \<Rightarrow>
   DisassembledInstruction \<Rightarrow> DisassembledInstruction" where
  "x86_jcc_rel8 H bytes addr opcode pos inst =
     (let inst1 = inst\<lparr>mnemonic :=
                    [''JO'', ''JNO'', ''JB'', ''JAE'', ''JE'', ''JNE'', ''JBE'', ''JA'',
                     ''JS'', ''JNS'', ''JP'', ''JNP'', ''JL'', ''JGE'', ''JLE'', ''JG'']
                    ! unat (opcode - 0x70)\<rparr>
      in if pos < 15
         then
           (let offset = bytes pos;
                target = addr + of_nat pos + 1 + (scast offset :: 64 word)
            in inst1\<lparr>branch_target := target,
                     branch_offset := (scast offset :: 64 word),
                     has_branch_target := True,
                     has_branch := True,
                     branch_type := BRANCH_CONDITIONAL,
                     operands := snprintf (sizeof_operands H) (''0x'' @ fmt_x (unat target)),
                     category := INST_CATEGORY_BRANCH,
                     is_valid := True,
                     inst_length := pos + 1,
                     updates_pc := True\<rparr>)
         else inst1)"

text \<open>
  The two-byte opcodes (lines 1294 to 1340). The second byte is read at offset 1,
  the displacement at offset 2, whatever \<open>pos\<close> is.
\<close>

definition x86_two_byte ::
  "EngineHeader \<Rightarrow> (nat \<Rightarrow> 8 word) \<Rightarrow> 64 word \<Rightarrow> DisassembledInstruction \<Rightarrow>
   DisassembledInstruction" where
  "x86_two_byte H bytes addr inst =
     (let opcode2 = bytes 1;
          inst1 = inst\<lparr>inst_length := 2\<rparr>
      in if opcode2 \<ge> 0x80 \<and> opcode2 \<le> 0x8F
         then
           (let offset = read_u32 bytes 2;
                target = addr + 6 + (scast offset :: 64 word)
            in inst1\<lparr>mnemonic :=
                       [''JO'', ''JNO'', ''JB'', ''JNB'', ''JZ'', ''JNZ'', ''JBE'', ''JNBE'',
                        ''JS'', ''JNS'', ''JP'', ''JNP'', ''JL'', ''JNL'', ''JLE'', ''JNLE'']
                       ! unat (opcode2 - 0x80),
                     branch_target := target,
                     has_branch_target := True,
                     has_branch := True,
                     operands := snprintf (sizeof_operands H) (''0x'' @ fmt_x (unat target)),
                     branch_type := BRANCH_CONDITIONAL,
                     category := INST_CATEGORY_BRANCH,
                     is_valid := True,
                     inst_length := 6\<rparr>)
         else if opcode2 \<ge> 0x90 \<and> opcode2 \<le> 0x9F
         then inst1\<lparr>mnemonic :=
                       [''SETO'', ''SETNO'', ''SETB'', ''SETNB'', ''SETZ'', ''SETNZ'',
                        ''SETBE'', ''SETNBE'', ''SETS'', ''SETNS'', ''SETP'', ''SETNP'',
                        ''SETL'', ''SETNL'', ''SETLE'', ''SETNLE'']
                       ! unat (opcode2 - 0x90),
                     operands := ''r/m8'',
                     inst_length := 3,
                     category := INST_CATEGORY_DATA_PROCESSING,
                     is_valid := True\<rparr>
         else if opcode2 = 0x0B
         then inst1\<lparr>mnemonic := ''UD2'', category := INST_CATEGORY_SYSTEM,
                     is_valid := True, inst_length := 2\<rparr>
         else inst1\<lparr>mnemonic := snprintf (sizeof_mnemonic H) ''.byte'',
                     operands := snprintf (sizeof_operands H)
                       (''0x0F 0x'' @ fmt_0X 2 (unat opcode2)),
                     is_valid := True,
                     inst_length := 2\<rparr>)"

text \<open>MOV of an immediate, INT and the raw byte (lines 1342 to 1372)\<close>

definition x86_mov_imm ::
  "EngineHeader \<Rightarrow> (nat \<Rightarrow> 8 word) \<Rightarrow> 8 word \<Rightarrow> DisassembledInstruction \<Rightarrow>
   DisassembledInstruction" where
  "x86_mov_imm H bytes opcode inst =
     inst\<lparr>mnemonic := ''MOV'',
          operands := snprintf (sizeof_operands H)
            ([''eax'', ''ecx'', ''edx'', ''ebx'', ''esp'', ''ebp'', ''esi'', ''edi'']
               ! unat (opcode - 0xB8) @ '', 0x'' @ fmt_0X 8 (unat (read_u32 bytes 1))),
          category := INST_CATEGORY_DATA_PROCESSING,
          is_valid := True,
          inst_length := 5\<rparr>"

definition x86_int ::
  "EngineHeader \<Rightarrow> (nat \<Rightarrow> 8 word) \<Rightarrow> DisassembledInstruction \<Rightarrow> DisassembledInstruction"
  where
  "x86_int H bytes inst =
     inst\<lparr>mnemonic := ''INT'',
          operands := snprintf (sizeof_operands H) (''0x'' @ fmt_0X 2 (unat (bytes 1))),
          category := INST_CATEGORY_SYSTEM,
          is_valid := True,
          inst_length := 2\<rparr>"

definition x86_byte ::
  "EngineHeader \<Rightarrow> 8 word \<Rightarrow> DisassembledInstruction \<Rightarrow> DisassembledInstruction" where
  "x86_byte H opcode inst =
     inst\<lparr>mnemonic := ''.byte'',
          operands := snprintf (sizeof_operands H) (''0x'' @ fmt_0X 2 (unat opcode)),
          is_valid := True,
          inst_length := 1\<rparr>"

text \<open>The chain of the opcode tests (lines 1097 to 1372)\<close>

definition x86_cascade ::
  "EngineHeader \<Rightarrow> (nat \<Rightarrow> 8 word) \<Rightarrow> 64 word \<Rightarrow> bool \<Rightarrow> 8 word \<Rightarrow> 8 word \<Rightarrow> nat \<Rightarrow>
   DisassembledInstruction \<Rightarrow> DisassembledInstruction" where
  "x86_cascade H bytes addr has_rex rex opcode pos inst =
     (if opcode = 0xC3 \<or> opcode = 0xCB \<or> opcode = 0xC2
      then x86_ret H bytes opcode pos inst
      else if opcode = 0x90
      then x86_plain inst ''NOP'' INST_CATEGORY_DATA_PROCESSING pos
      else if opcode = 0xCC
      then x86_plain inst ''INT3'' INST_CATEGORY_SYSTEM pos
      else if opcode = 0xF4
      then x86_plain inst ''HLT'' INST_CATEGORY_SYSTEM pos
      else if opcode = 0xC9
      then x86_plain inst ''LEAVE'' INST_CATEGORY_DATA_PROCESSING pos
      else if opcode = 0x9C
      then x86_plain inst (if has_rex then ''PUSHFQ'' else ''PUSHF'')
             INST_CATEGORY_DATA_PROCESSING pos
      else if opcode = 0x9D
      then x86_plain inst (if has_rex then ''POPFQ'' else ''POPF'')
             INST_CATEGORY_DATA_PROCESSING pos
      else if opcode = 0x99
      then x86_plain inst (if has_rex then ''CQO'' else ''CDQ'')
             INST_CATEGORY_DATA_PROCESSING pos
      else if opcode = 0xF5
      then x86_plain inst ''CMC'' INST_CATEGORY_DATA_PROCESSING pos
      else if opcode = 0xF8
      then x86_plain inst ''CLC'' INST_CATEGORY_DATA_PROCESSING pos
      else if opcode = 0xF9
      then x86_plain inst ''STC'' INST_CATEGORY_DATA_PROCESSING pos
      else if (opcode \<ge> 0x50 \<and> opcode \<le> 0x57) \<or> (opcode \<ge> 0x58 \<and> opcode \<le> 0x5F)
      then x86_push_pop H opcode has_rex rex pos inst
      else if opcode = 0xE9
      then x86_jmp_call_rel32 H bytes addr opcode pos inst
      else if opcode = 0xEB
      then x86_jmp_rel8 H bytes addr pos inst
      else if opcode = 0xE8
      then x86_jmp_call_rel32 H bytes addr opcode pos inst
      else if opcode \<ge> 0x70 \<and> opcode \<le> 0x7F
      then x86_jcc_rel8 H bytes addr opcode pos inst
      else if opcode = 0x0F \<and> inst_length inst < 15
      then x86_two_byte H bytes addr inst
      else if opcode \<ge> 0xB8 \<and> opcode \<le> 0xBF
      then x86_mov_imm H bytes opcode inst
      else if opcode = 0xCD
      then x86_int H bytes inst
      else if opcode = 0xC9
      then x86_plain inst ''LEAVE'' INST_CATEGORY_DATA_PROCESSING 1
      else x86_byte H opcode inst)"

text \<open>\<^verbatim>\<open>disasm_x86_64\<close>: the value returned and the record written through \<open>inst\<close>.\<close>

definition disasm_x86_64 ::
  "EngineHeader \<Rightarrow> (nat \<Rightarrow> 8 word) \<Rightarrow> 64 word \<Rightarrow> bool \<times> DisassembledInstruction" where
  "disasm_x86_64 H bytes addr =
     (let inst0 = (zeroed_instruction H)\<lparr>address := addr, is_valid := False, inst_length := 1\<rparr>;
          has_rex = (bytes 0 \<ge> 0x40 \<and> bytes 0 \<le> 0x4F);
          rex = (if has_rex then bytes 0 else 0);
          pos0 = (if has_rex then 1 else 0);
          opcode = bytes pos0;
          pos = pos0 + 1;
          inst1 = x86_cascade H bytes addr has_rex rex opcode pos inst0;
          inst2 = inst1\<lparr>full_disasm := snprintf (sizeof_full_disasm H)
                    (''0x'' @ fmt_x (unat (address inst1)) @ '': '' @ mnemonic inst1 @ '' '' @
                     operands inst1)\<rparr>
      in (is_valid inst2, inst2))"

subsection \<open>Invariants of the instruction record\<close>

text \<open>A valid record has a mnemonic.\<close>

definition arm64_mnemonic_ok :: "DisassembledInstruction \<Rightarrow> bool" where
  "arm64_mnemonic_ok i \<longleftrightarrow> (is_valid i \<longrightarrow> mnemonic i \<noteq> [])"

text \<open>
  A record of mnemonic BL or BLR has bit 30 of \<open>regs_written\<close> set, and a record of
  mnemonic RET has the branch type \<open>BRANCH_RETURN\<close>.
\<close>

definition arm64_link_return_ok :: "DisassembledInstruction \<Rightarrow> bool" where
  "arm64_link_return_ok i \<longleftrightarrow>
     (mnemonic i = ''BL'' \<or> mnemonic i = ''BLR'' \<longrightarrow> bit (regs_written i) 30) \<and>
     (mnemonic i = ''RET'' \<longrightarrow> branch_type i = BRANCH_RETURN)"

text \<open>
  The record is at \<open>addr\<close>, and when it has a branch target and an offset other than
  0, the target is the offset added to the address, or for ADRP to the 4096-byte page
  of the address.
\<close>

definition arm64_target_ok :: "64 word \<Rightarrow> DisassembledInstruction \<Rightarrow> bool" where
  "arm64_target_ok addr i \<longleftrightarrow>
     address i = addr \<and>
     (has_branch_target i \<and> branch_offset i \<noteq> 0 \<longrightarrow>
        branch_target i =
          (if mnemonic i = ''ADRP'' then addr AND NOT 0xFFF else addr) + branch_offset i)"

text \<open>
  For the x86-64 decoder: the target is the offset added to the address of the next
  instruction.
\<close>

definition x86_target_ok :: "64 word \<Rightarrow> DisassembledInstruction \<Rightarrow> bool" where
  "x86_target_ok addr i \<longleftrightarrow>
     address i = addr \<and>
     (has_branch_target i \<and> branch_offset i \<noteq> 0 \<longrightarrow>
        branch_target i = addr + of_nat (inst_length i) + branch_offset i)"

text \<open>
  The header \<^verbatim>\<open>DisassemblyEngine.h\<close> is not among the sources. The general theorems
  hold for every header; the evaluations at concrete words take the following one:
  buffers of 32, 128 and 256 bytes, the heuristics flag at bit 0, and
  \<open>INST_CATEGORY_UNKNOWN\<close> and \<open>BRANCH_NONE\<close> as the enumerators of value 0.
\<close>

definition sample_header :: EngineHeader where
  "sample_header =
     \<lparr>sizeof_mnemonic = 32, sizeof_operands = 128, sizeof_full_disasm = 256,
      DISASM_FLAG_PROLOGUE_EPILOGUE_HEURISTICS = 1,
      category_zero = INST_CATEGORY_UNKNOWN, branch_type_zero = BRANCH_NONE\<rparr>"

text \<open>The two bytes of \<^verbatim>\<open>JE +5\<close>, followed by zero bytes.\<close>

definition je_bytes :: "nat \<Rightarrow> 8 word" where
  "je_bytes i = (if i = 0 then 0x74 else if i = 1 then 0x05 else 0)"

section \<open>Properties of the type reconstruction\<close>

lemma c_reconstruction_has_name_iff:
  "c_reconstruction_has_name ts name \<longleftrightarrow> name \<in> set (map type_name ts)"
  by (induction ts) auto

lemma c_reconstruct_symbol_distinct:
  "distinct (map type_name ts) \<Longrightarrow> distinct (map type_name (c_reconstruct_symbol ts symb))"
  by (auto simp: c_reconstruct_symbol_def c_reconstruction_has_name_iff
           split: option.splits prod.splits)

lemma c_reconstruct_symbols_distinct:
  "distinct (map type_name ts) \<Longrightarrow> distinct (map type_name (c_reconstruct_symbols ts syms))"
  by (induction syms arbitrary: ts) (auto simp: c_reconstruct_symbol_distinct)

lemma c_reconstruct_symbol_extends:
  "\<exists>rest. c_reconstruct_symbol ts symb = ts @ rest"
  by (simp add: c_reconstruct_symbol_def split: option.splits prod.splits)

lemma c_reconstruct_symbols_extends:
  "\<exists>rest. c_reconstruct_symbols ts syms = ts @ rest"
proof (induction syms arbitrary: ts)
  case Nil
  show ?case by simp
next
  case (Cons symb syms)
  obtain r1 where r1: "c_reconstruct_symbol ts symb = ts @ r1"
    using c_reconstruct_symbol_extends by blast
  obtain r2 where "c_reconstruct_symbols (ts @ r1) syms = (ts @ r1) @ r2"
    using Cons.IH by blast
  with r1 show ?case by simp
qed

text \<open>
  C10. The list that \<^verbatim>\<open>c_reconstruct_types_from_binary\<close> returns has no two entries
  of the same name. In the loop, a symbol whose extracted name is already in the list
  leaves the list as it is; a symbol whose extracted (non-empty) name is not yet in the
  list appends one entry of that name, with the symbol's address; and the entries
  already in the list are never changed or removed by the symbols that follow.
\<close>

theorem c_reconstruct_types_unique_names:
  "(\<exists>ts. c_reconstruct_types_from_binary (Some symbols) = Some ts \<and>
         distinct (map type_name ts)) \<and>
   (sym_name symb = Some name \<and> snd (c_symbol_type name) = Some tname \<and>
      c_reconstruction_has_name types tname \<longrightarrow>
        c_reconstruct_symbol types symb = types) \<and>
   (sym_name symb = Some name \<and> name \<noteq> [] \<and> snd (c_symbol_type name) = Some tname \<and>
      tname \<noteq> [] \<and> \<not> c_reconstruction_has_name types tname \<longrightarrow>
        (\<exists>e. c_reconstruct_symbol types symb = types @ [e] \<and> type_name e = tname \<and>
             type_address e = sym_address symb)) \<and>
   (\<exists>rest. c_reconstruct_symbols types syms = types @ rest)"
proof (intro conjI impI)
  have "distinct (map type_name (c_reconstruct_symbols [] symbols))"
    by (rule c_reconstruct_symbols_distinct) simp
  then show "\<exists>ts. c_reconstruct_types_from_binary (Some symbols) = Some ts \<and>
                 distinct (map type_name ts)"
    by (simp add: c_reconstruct_types_from_binary_def)
next
  assume "sym_name symb = Some name \<and> snd (c_symbol_type name) = Some tname \<and>
          c_reconstruction_has_name types tname"
  then show "c_reconstruct_symbol types symb = types"
    by (auto simp: c_reconstruct_symbol_def split: prod.splits option.splits)
next
  assume "sym_name symb = Some name \<and> name \<noteq> [] \<and>
          snd (c_symbol_type name) = Some tname \<and> tname \<noteq> [] \<and>
          \<not> c_reconstruction_has_name types tname"
  then show "\<exists>e. c_reconstruct_symbol types symb = types @ [e] \<and> type_name e = tname \<and>
                 type_address e = sym_address symb"
    by (auto simp: c_reconstruct_symbol_def split: prod.splits option.splits)
next
  show "\<exists>rest. c_reconstruct_symbols types syms = types @ rest"
    by (rule c_reconstruct_symbols_extends)
qed

theorem c_reconstruct_types_unique_names_witness:
  "c_reconstruct_types_from_binary
     (Some [\<lparr>sym_name = Some ''_OBJC_CLASS_$_Foo'', sym_address = 4096\<rparr>,
            \<lparr>sym_name = Some ''_OBJC_CLASS_$_Foo'', sym_address = 8192\<rparr>,
            \<lparr>sym_name = Some ''_struct_Bar'', sym_address = 12288\<rparr>]) =
   Some [\<lparr>type_name = ''Foo'', type_address = 4096, type_size = 64,
           type_category = C_TYPE_CATEGORY_CLASS, type_confidence = 9 / 10\<rparr>,
         \<lparr>type_name = ''Bar'', type_address = 12288, type_size = 24,
           type_category = C_TYPE_CATEGORY_STRUCT, type_confidence = 75 / 100\<rparr>] \<and>
   sym_name \<lparr>sym_name = Some ''_OBJC_CLASS_$_Foo'', sym_address = 8192\<rparr> =
     Some ''_OBJC_CLASS_$_Foo'' \<and>
   snd (c_symbol_type ''_OBJC_CLASS_$_Foo'') = Some ''Foo'' \<and>
   c_reconstruction_has_name
     [\<lparr>type_name = ''Foo'', type_address = 4096, type_size = 64,
       type_category = C_TYPE_CATEGORY_CLASS, type_confidence = 9 / 10\<rparr>] ''Foo'' \<and>
   c_reconstruct_symbol
     [\<lparr>type_name = ''Foo'', type_address = 4096, type_size = 64,
       type_category = C_TYPE_CATEGORY_CLASS, type_confidence = 9 / 10\<rparr>]
     \<lparr>sym_name = Some ''_OBJC_CLASS_$_Foo'', sym_address = 8192\<rparr> =
     [\<lparr>type_name = ''Foo'', type_address = 4096, type_size = 64,
       type_category = C_TYPE_CATEGORY_CLASS, type_confidence = 9 / 10\<rparr>] \<and>
   ''_struct_Bar'' \<noteq> [] \<and> snd (c_symbol_type ''_struct_Bar'') = Some ''Bar'' \<and>
   \<not> c_reconstruction_has_name
     [\<lparr>type_name = ''Foo'', type_address = 4096, type_size = 64,
       type_category = C_TYPE_CATEGORY_CLASS, type_confidence = 9 / 10\<rparr>] ''Bar'' \<and>
   (\<exists>e. c_reconstruct_symbol
      [\<lparr>type_name = ''Foo'', type_address = 4096, type_size = 64,
        type_category = C_TYPE_CATEGORY_CLASS, type_confidence = 9 / 10\<rparr>]
      \<lparr>sym_name = Some ''_struct_Bar'', sym_address = 12288\<rparr> =
      [\<lparr>type_name = ''Foo'', type_address = 4096, type_size = 64,
        type_category = C_TYPE_CATEGORY_CLASS, type_confidence = 9 / 10\<rparr>] @ [e] \<and>
      type_name e = ''Bar'' \<and> type_address e = 12288)"
  using c_reconstruct_types_unique_names
    [of "[\<lparr>sym_name = Some ''_OBJC_CLASS_$_Foo'', sym_address = 4096\<rparr>,
          \<lparr>sym_name = Some ''_OBJC_CLASS_$_Foo'', sym_address = 8192\<rparr>,
          \<lparr>sym_name = Some ''_struct_Bar'', sym_address = 12288\<rparr>]"
        "\<lparr>sym_name = Some ''_OBJC_CLASS_$_Foo'', sym_address = 8192\<rparr>"
        "''_OBJC_CLASS_$_Foo''" "''Foo''"
        "[\<lparr>type_name = ''Foo'', type_address = 4096, type_size = 64,
          type_category = C_TYPE_CATEGORY_CLASS, type_confidence = 9 / 10\<rparr>]"
        "[]"]
  by (simp add: c_reconstruct_types_from_binary_def c_reconstruct_symbol_def
        c_symbol_type_def c_is_class_symbol_def c_is_struct_symbol_def
        c_extract_class_name_def c_extract_struct_name_def
        c_estimate_class_size_def c_estimate_struct_size_def
        c_confidence_for_symbol_def)
section \<open>Properties of the runtime-symbol scanner\<close>

subsection \<open>Uniqueness of the keys\<close>

lemma find_index_None_iff: "find_index P xs = None \<longleftrightarrow> (\<forall>x \<in> set xs. \<not> P x)"
  by (induction xs) auto

lemma find_index_Some: "find_index P xs = Some i \<Longrightarrow> i < length xs \<and> P (xs ! i)"
  by (induction xs arbitrary: i) (auto split: if_splits)

lemma map_list_update_same:
  "i < length xs \<Longrightarrow> f y = f (xs ! i) \<Longrightarrow> map f (xs[i := y]) = map f xs"
  by (simp add: map_update list_update_same_conv)

lemma add_class_to_result_unique:
  "class_dump_result_unique r \<Longrightarrow> class_dump_result_unique (add_class_to_result r n)"
  by (auto simp: class_dump_result_unique_def add_class_to_result_def
        class_dump_find_class_def find_index_None_iff)

lemma add_category_to_result_unique:
  "class_dump_result_unique r \<Longrightarrow> class_dump_result_unique (add_category_to_result r n)"
  by (auto simp: class_dump_result_unique_def add_category_to_result_def find_index_None_iff)

lemma add_protocol_to_result_unique:
  "class_dump_result_unique r \<Longrightarrow> class_dump_result_unique (add_protocol_to_result r n)"
  by (auto simp: class_dump_result_unique_def add_protocol_to_result_def
        class_dump_find_protocol_def find_index_None_iff)

lemma add_category_with_class_unique:
  "class_dump_result_unique r \<Longrightarrow>
   class_dump_result_unique (fst (class_dump_add_category_with_class r c n))"
  by (auto simp: class_dump_result_unique_def class_dump_add_category_with_class_def
        class_dump_find_category_def find_index_None_iff split: option.splits)

lemma add_category_with_class_index:
  "class_dump_add_category_with_class r c n = (r', j) \<Longrightarrow> j < length (categories r')"
  by (auto simp: class_dump_add_category_with_class_def class_dump_find_category_def
        split: option.splits dest: find_index_Some)

lemma update_class_unique:
  "class_dump_result_unique r \<Longrightarrow> i < length (classes r) \<Longrightarrow>
   className c' = className (classes r ! i) \<Longrightarrow>
   class_dump_result_unique (r\<lparr>classes := (classes r)[i := c']\<rparr>)"
  by (simp add: class_dump_result_unique_def map_list_update_same)

lemma update_category_unique:
  "class_dump_result_unique r \<Longrightarrow> j < length (categories r) \<Longrightarrow>
   cat_className c' = cat_className (categories r ! j) \<Longrightarrow>
   categoryName c' = categoryName (categories r ! j) \<Longrightarrow>
   class_dump_result_unique (r\<lparr>categories := (categories r)[j := c']\<rparr>)"
  by (simp add: class_dump_result_unique_def map_list_update_same)

lemma add_method_to_class_name [simp]:
  "className (class_dump_add_method_to_class c m b) = className c"
  by (simp add: class_dump_add_method_to_class_def)

lemma add_method_to_category_names [simp]:
  "cat_className (class_dump_add_method_to_category c m b) = cat_className c"
  "categoryName (class_dump_add_method_to_category c m b) = categoryName c"
  by (simp_all add: class_dump_add_method_to_category_def)

lemma find_class_index:
  "class_dump_find_class r n = Some i \<Longrightarrow> i < length (classes r)"
  by (auto simp: class_dump_find_class_def dest: find_index_Some)

lemma add_category_with_class_unique':
  "class_dump_add_category_with_class r c n = (r', j) \<Longrightarrow> class_dump_result_unique r \<Longrightarrow>
   class_dump_result_unique r'"
  using add_category_with_class_unique[of r c n] by simp

lemma scan_methods_record_unique:
  assumes "class_dump_result_unique r"
  shows "class_dump_result_unique (class_dump_scan_methods_record r cn cat m b)"
proof -
  have u1: "class_dump_result_unique
              (case class_dump_find_class r cn of
                 None \<Rightarrow> add_class_to_result r cn | Some _ \<Rightarrow> r)"
    using assms by (simp add: add_class_to_result_unique split: option.splits)
  have cls: "class_dump_result_unique
               (case class_dump_find_class r1 cn of
                  None \<Rightarrow> r1
                | Some ci \<Rightarrow> r1\<lparr>classes := (classes r1)
                    [ci := class_dump_add_method_to_class (classes r1 ! ci) m b]\<rparr>)"
    if "class_dump_result_unique r1" for r1
    using that
    by (auto split: option.splits intro!: update_class_unique dest: find_class_index)
  have cat: "class_dump_result_unique
               (case class_dump_add_category_with_class r1 cn k of
                  (r2, j) \<Rightarrow> r2\<lparr>categories := (categories r2)
                     [j := class_dump_add_method_to_category (categories r2 ! j) m b]\<rparr>)"
    if "class_dump_result_unique r1" for r1 k
  proof -
    obtain r2 j where e: "class_dump_add_category_with_class r1 cn k = (r2, j)"
      by (cases "class_dump_add_category_with_class r1 cn k")
    have "class_dump_result_unique r2" "j < length (categories r2)"
      using e that add_category_with_class_unique' add_category_with_class_index by blast+
    then show ?thesis
      using e by (simp add: update_category_unique)
  qed
  show ?thesis
    unfolding class_dump_scan_methods_record_def Let_def
    using assms cls[OF u1] cat[OF u1] by simp
qed

lemma scan_methods_at_unique:
  "class_dump_result_unique r \<Longrightarrow> class_dump_result_unique (class_dump_scan_methods_at pos r)"
  unfolding class_dump_scan_methods_at_def Let_def
  by (simp add: scan_methods_record_unique split: option.splits prod.splits)

lemma scan_ivars_at_unique:
  assumes "class_dump_result_unique r"
  shows "class_dump_result_unique (class_dump_scan_ivars_at pos r)"
proof -
  have key: "class_dump_result_unique
               (r1\<lparr>classes := (classes r1)[ci := (classes r1 ! ci)\<lparr>ivars := l\<rparr>]\<rparr>)"
    if "class_dump_result_unique r1" "ci < length (classes r1)" for r1 ci l
    using that by (intro update_class_unique) simp_all
  have u1: "class_dump_result_unique
              (case class_dump_find_class r cn of
                 None \<Rightarrow> add_class_to_result r cn | Some _ \<Rightarrow> r)" for cn
    using assms by (simp add: add_class_to_result_unique split: option.splits)
  have step: "class_dump_result_unique
               (case class_dump_find_class r1 cn of
                  None \<Rightarrow> r1
                | Some ci \<Rightarrow> r1\<lparr>classes := (classes r1)
                    [ci := (classes r1 ! ci)\<lparr>ivars := class_dump_add_unique_string
                                                 (ivars (classes r1 ! ci)) l\<rparr>]\<rparr>)"
    if "class_dump_result_unique r1" for r1 cn l
    using that by (auto split: option.splits intro!: key dest: find_class_index)
  show ?thesis
    unfolding class_dump_scan_ivars_at_def Let_def
    using assms step[OF u1]
    by (simp split: option.splits)
qed

lemma analyze_categories_at_unique:
  "class_dump_result_unique r \<Longrightarrow>
   class_dump_result_unique (class_dump_analyze_categories_at pos r)"
  unfolding class_dump_analyze_categories_at_def Let_def
  by (simp add: add_category_with_class_unique split: option.splits prod.splits)

lemma scan_methods_unique:
  "class_dump_result_unique r \<Longrightarrow> class_dump_result_unique (class_dump_scan_methods pos r)"
  by (induction pos r rule: class_dump_scan_methods.induct)
     (auto simp: scan_methods_at_unique)

lemma scan_ivars_unique:
  "class_dump_result_unique r \<Longrightarrow> class_dump_result_unique (class_dump_scan_ivars pos r)"
proof (induction pos r rule: class_dump_scan_ivars.induct)
  case (1 pos result)
  show ?case
    using "1.prems" "1.IH"
    by (subst class_dump_scan_ivars.simps)
       (auto simp: Let_def scan_ivars_at_unique split: option.splits)
qed

lemma analyze_classes_unique:
  "class_dump_result_unique r \<Longrightarrow> class_dump_result_unique (class_dump_analyze_classes pos r)"
proof (induction pos r rule: class_dump_analyze_classes.induct)
  case (1 pos result)
  show ?case
    using "1.prems" "1.IH"
    by (subst class_dump_analyze_classes.simps)
       (auto simp: Let_def add_class_to_result_unique split: option.splits)
qed

lemma analyze_categories_unique:
  "class_dump_result_unique r \<Longrightarrow>
   class_dump_result_unique (class_dump_analyze_categories pos r)"
proof (induction pos r rule: class_dump_analyze_categories.induct)
  case (1 pos result)
  show ?case
    using "1.prems" "1.IH"
    by (subst class_dump_analyze_categories.simps)
       (auto simp: Let_def analyze_categories_at_unique split: option.splits)
qed

lemma analyze_protocols_unique:
  "class_dump_result_unique r \<Longrightarrow>
   class_dump_result_unique (class_dump_analyze_protocols pos r)"
proof (induction pos r rule: class_dump_analyze_protocols.induct)
  case (1 pos result)
  show ?case
    using "1.prems" "1.IH"
    by (subst class_dump_analyze_protocols.simps)
       (auto simp: Let_def add_protocol_to_result_unique split: option.splits)
qed

lemma analyze_strings_unique:
  "class_dump_result_unique r \<Longrightarrow>
   class_dump_result_unique (analyze_strings_for_objc d r)"
  by (simp add: analyze_strings_for_objc_def Let_def add_class_to_result_unique
        add_category_to_result_unique add_protocol_to_result_unique)

lemma empty_result_unique: "class_dump_result_unique class_dump_empty_result"
  by (simp add: class_dump_result_unique_def class_dump_empty_result_def)

lemma scan_passes_unique: "class_dump_result_unique (class_dump_scan_passes d)"
  unfolding class_dump_scan_passes_def
  by (intro scan_methods_unique scan_ivars_unique analyze_protocols_unique
        analyze_categories_unique analyze_classes_unique empty_result_unique)

lemma class_dump_binary_unique:
  "class_dump_binary (Some d) = Some r \<Longrightarrow> class_dump_result_unique r"
  using scan_passes_unique[of d] analyze_strings_unique[of "class_dump_scan_passes d" d]
  by (auto simp: class_dump_binary_def Let_def split: if_splits)

subsection \<open>Tails and the method scan\<close>

lemma safe_strndup_len_takeWhile:
  "safe_strndup_len start n =
     length (takeWhile (\<lambda>c. c \<noteq> NUL \<and> c \<noteq> LF \<and> c \<noteq> CR) (take n start))"
  by (induction start arbitrary: n) (auto simp: take_Cons split: nat.splits)

lemma take_safe_strndup_len:
  "take (safe_strndup_len start n) start =
     takeWhile (\<lambda>c. c \<noteq> NUL \<and> c \<noteq> LF \<and> c \<noteq> CR) (take n start)"
  by (induction start arbitrary: n) (auto simp: take_Cons split: nat.splits)

lemma take_length_takeWhile_take:
  "take (length (takeWhile P (take n s))) s = takeWhile P (take n s)"
  by (induction s arbitrary: n) (auto simp: take_Cons split: nat.splits)

lemma safe_strndup_takeWhile:
  "class_dump_safe_strndup start n =
     (let tail = takeWhile (\<lambda>c. c \<noteq> NUL \<and> c \<noteq> LF \<and> c \<noteq> CR) (take n start)
      in if tail = [] then None else Some tail)"
  by (auto simp: class_dump_safe_strndup_def Let_def safe_strndup_len_takeWhile
        take_length_takeWhile_take)



lemma strchr_take:
  "strchr (take m s) c =
     (case strchr s c of None \<Rightarrow> None | Some k \<Rightarrow> if k < m then Some k else None)"
  by (induction s arbitrary: m) (auto simp: take_Cons split: nat.splits option.splits)

lemma strchr_takeWhile:
  "strchr (takeWhile P s) c =
     (case strchr s c of
        None \<Rightarrow> None
      | Some k \<Rightarrow> if k < length (takeWhile P s) then Some k else None)"
  by (induction s) (auto split: option.splits)

lemma memchr_Some:
  "memchr s c n = Some k \<Longrightarrow> k < length s \<and> k < n \<and> s ! k = c \<and> c \<notin> set (take k s)"
  by (induction s c n arbitrary: k rule: memchr.induct) (auto split: if_splits)

lemma scan_methods_at_skip:
  assumes e: "memchr (drop 2 pos) CHR '']''
                (if length (drop 2 pos) > 200 then 200 else length (drop 2 pos)) = Some e"
    and sp: "strchr (take e (drop 2 pos)) CHR '' '' = None \<or>
             strchr (takeWhile (\<lambda>c. c \<noteq> NUL \<and> c \<noteq> LF \<and> c \<noteq> CR) (take e (drop 2 pos))) CHR '' '' =
               Some (length (takeWhile (\<lambda>c. c \<noteq> NUL \<and> c \<noteq> LF \<and> c \<noteq> CR) (take e (drop 2 pos))) - 1)"
  shows "class_dump_scan_methods_at pos result = result"
proof -
  let ?txt = "takeWhile (\<lambda>c. c \<noteq> NUL \<and> c \<noteq> LF \<and> c \<noteq> CR) (take e (drop 2 pos))"
  have c: "class_dump_safe_strndup (drop 2 pos) e = (if ?txt = [] then None else Some ?txt)"
    by (simp add: safe_strndup_takeWhile Let_def)
  have "strchr ?txt CHR '' '' = None \<or> strchr ?txt CHR '' '' = Some (length ?txt - 1)"
    using sp by (auto simp: strchr_takeWhile)
  then have skip: "?txt \<noteq> [] \<Longrightarrow>
      (case strchr ?txt CHR '' '' of
         None \<Rightarrow> result
       | Some space \<Rightarrow>
           if drop (space + 1) ?txt = [] then result
           else (case class_dump_scan_methods_names (take space ?txt) of
                   (class_name, category_name) \<Rightarrow>
                     class_dump_scan_methods_record result class_name category_name
                       (drop (space + 1) ?txt) (pos ! 0 = CHR ''+''))) = result"
    by (auto split: option.splits)
  show ?thesis
    unfolding class_dump_scan_methods_at_def Let_def
    using e c skip by (simp split: option.splits)
qed





subsection \<open>The claims on the scanner\<close>

text \<open>
  C6. For every binary that can be mapped, \<^verbatim>\<open>class_dump_binary\<close> returns a result in
  which no two classes have the same \<open>className\<close>, no two categories the same pair of
  class name and category name, and no two protocols the same \<open>protocolName\<close>. Each
  insertion operation (\<^verbatim>\<open>add_class_to_result\<close>, \<^verbatim>\<open>add_category_to_result\<close>,
  \<^verbatim>\<open>add_protocol_to_result\<close>, \<^verbatim>\<open>class_dump_add_category_with_class\<close>), each of the
  five scan passes and the fallback keep this invariant.
\<close>

theorem class_dump_result_keys_unique:
  "(\<exists>r. class_dump_binary (Some binaryData) = Some r \<and> class_dump_result_unique r) \<and>
   (class_dump_result_unique result \<longrightarrow>
      class_dump_result_unique (add_class_to_result result name) \<and>
      class_dump_result_unique (add_category_to_result result name) \<and>
      class_dump_result_unique (add_protocol_to_result result name) \<and>
      class_dump_result_unique
        (fst (class_dump_add_category_with_class result class_name name)) \<and>
      class_dump_result_unique (class_dump_analyze_classes pos result) \<and>
      class_dump_result_unique (class_dump_analyze_categories pos result) \<and>
      class_dump_result_unique (class_dump_analyze_protocols pos result) \<and>
      class_dump_result_unique (class_dump_scan_ivars pos result) \<and>
      class_dump_result_unique (class_dump_scan_methods pos result) \<and>
      class_dump_result_unique (analyze_strings_for_objc pos result))"
proof (intro conjI impI)
  obtain r where r: "class_dump_binary (Some binaryData) = Some r"
    by (cases "class_dump_binary (Some binaryData)")
       (auto simp: class_dump_binary_def Let_def split: if_splits)
  then have "class_dump_result_unique r"
    by (rule class_dump_binary_unique)
  with r show "\<exists>r. class_dump_binary (Some binaryData) = Some r \<and> class_dump_result_unique r"
    by blast
qed (simp_all add: add_class_to_result_unique add_category_to_result_unique
       add_protocol_to_result_unique add_category_with_class_unique
       analyze_classes_unique analyze_categories_unique analyze_protocols_unique
       scan_ivars_unique scan_methods_unique analyze_strings_unique)

theorem class_dump_result_keys_unique_witness:
  "class_dump_result_unique
     \<lparr>classes = [], categories =
        [\<lparr>categoryName = ''Bar'', cat_className = ''Foo'', cat_protocols = [],
          cat_instanceMethods = [], cat_classMethods = [], cat_properties = []\<rparr>],
      protocols = [], generatedHeader = None, headerSize = 0\<rparr> \<and>
   class_dump_result_unique
     (add_category_to_result
        \<lparr>classes = [], categories =
           [\<lparr>categoryName = ''Bar'', cat_className = ''Foo'', cat_protocols = [],
             cat_instanceMethods = [], cat_classMethods = [], cat_properties = []\<rparr>],
         protocols = [], generatedHeader = None, headerSize = 0\<rparr> ''Bar'') \<and>
   class_dump_result_unique
     (fst (class_dump_add_category_with_class
        \<lparr>classes = [], categories =
           [\<lparr>categoryName = ''Bar'', cat_className = ''Foo'', cat_protocols = [],
             cat_instanceMethods = [], cat_classMethods = [], cat_properties = []\<rparr>],
         protocols = [], generatedHeader = None, headerSize = 0\<rparr> ''NSObject'' ''Bar''))"
proof -
  let ?r = "\<lparr>classes = [], categories =
              [\<lparr>categoryName = ''Bar'', cat_className = ''Foo'', cat_protocols = [],
                cat_instanceMethods = [], cat_classMethods = [], cat_properties = []\<rparr>],
             protocols = [], generatedHeader = None, headerSize = 0\<rparr>"
  have h: "class_dump_result_unique ?r"
    by (simp add: class_dump_result_unique_def)
  show ?thesis
    using h class_dump_result_keys_unique [of "[]" ?r "''Bar''" "''NSObject''" "[]"]
    by simp
qed

text \<open>
  C7. The binary made of the four byte sequences \<^verbatim>\<open>_OBJC_CLASS_$_Foo\<close>,
  \<^verbatim>\<open>_OBJC_CATEGORY_$_Foo_$_Bar\<close>, \<^verbatim>\<open>_OBJC_IVAR_$_Foo.counter\<close> and \<^verbatim>\<open>-[Foo tick]\<close>,
  each followed by NUL, gives exactly one class, \<open>Foo\<close> with superclass \<open>NSObject\<close>,
  ivar \<open>counter\<close> and instance method \<open>tick\<close>, exactly one category, \<open>Bar\<close> on
  \<open>Foo\<close>, and no protocol.
\<close>

theorem class_dump_binary_runtime_scan_scenario:
  "class_dump_binary
     (Some (''_OBJC_CLASS_$_Foo'' @ [NUL] @ ''_OBJC_CATEGORY_$_Foo_$_Bar'' @ [NUL] @
            ''_OBJC_IVAR_$_Foo.counter'' @ [NUL] @ ''-[Foo tick]'' @ [NUL])) =
   Some \<lparr>classes =
           [\<lparr>className = ''Foo'', superclassName = ''NSObject'', class_protocols = [],
             instanceMethods = [''tick''], classMethods = [], properties = [],
             ivars = [''counter''], isSwift = False, isMetaClass = False\<rparr>],
         categories =
           [\<lparr>categoryName = ''Bar'', cat_className = ''Foo'', cat_protocols = [],
             cat_instanceMethods = [], cat_classMethods = [], cat_properties = []\<rparr>],
         protocols = [], generatedHeader = None, headerSize = 0\<rparr>"
  by code_simp




text \<open>
  C9. At a position of the method scan where the closing bracket is found, if the
  text before the bracket holds no space, or if the first space of the text is its
  last character (the selector behind it is empty), the body of the loop returns the
  result as it is: no class, no category and no method is added. The text is the
  bytes before the bracket, cut at the first NUL, CR or LF.
\<close>

theorem scan_methods_skips_without_selector:
  assumes "memchr (drop 2 pos) CHR '']''
             (if length (drop 2 pos) > 200 then 200 else length (drop 2 pos)) = Some e"
    and "strchr (take e (drop 2 pos)) CHR '' '' = None \<or>
         strchr (takeWhile (\<lambda>c. c \<noteq> NUL \<and> c \<noteq> LF \<and> c \<noteq> CR) (take e (drop 2 pos)))
           CHR '' '' =
         Some (length (takeWhile (\<lambda>c. c \<noteq> NUL \<and> c \<noteq> LF \<and> c \<noteq> CR)
                 (take e (drop 2 pos))) - 1)"
  shows "class_dump_scan_methods_at pos result = result"
  using assms by (rule scan_methods_at_skip)

theorem scan_methods_skips_without_selector_witness:
  "memchr (drop 2 ''-[Foo]x'') CHR '']''
     (if length (drop 2 ''-[Foo]x'') > 200 then 200 else length (drop 2 ''-[Foo]x'')) =
     Some 3 \<and>
   strchr (take 3 (drop 2 ''-[Foo]x'')) CHR '' '' = None \<and>
   class_dump_scan_methods_at ''-[Foo]x'' class_dump_empty_result = class_dump_empty_result \<and>
   memchr (drop 2 ''+[Foo ]x'') CHR '']''
     (if length (drop 2 ''+[Foo ]x'') > 200 then 200 else length (drop 2 ''+[Foo ]x'')) =
     Some 4 \<and>
   strchr (takeWhile (\<lambda>c. c \<noteq> NUL \<and> c \<noteq> LF \<and> c \<noteq> CR) (take 4 (drop 2 ''+[Foo ]x'')))
     CHR '' '' =
     Some (length (takeWhile (\<lambda>c. c \<noteq> NUL \<and> c \<noteq> LF \<and> c \<noteq> CR)
             (take 4 (drop 2 ''+[Foo ]x''))) - 1) \<and>
   class_dump_scan_methods_at ''+[Foo ]x'' class_dump_empty_result = class_dump_empty_result"
proof -
  have m1: "memchr (drop 2 ''-[Foo]x'') CHR '']''
     (if length (drop 2 ''-[Foo]x'') > 200 then 200 else length (drop 2 ''-[Foo]x'')) =
     Some 3"
    by simp
  have s1: "strchr (take 3 (drop 2 ''-[Foo]x'')) CHR '' '' = None"
    by simp
  have m2: "memchr (drop 2 ''+[Foo ]x'') CHR '']''
     (if length (drop 2 ''+[Foo ]x'') > 200 then 200 else length (drop 2 ''+[Foo ]x'')) =
     Some 4"
    by simp
  have s2: "strchr (takeWhile (\<lambda>c. c \<noteq> NUL \<and> c \<noteq> LF \<and> c \<noteq> CR)
              (take 4 (drop 2 ''+[Foo ]x''))) CHR '' '' =
            Some (length (takeWhile (\<lambda>c. c \<noteq> NUL \<and> c \<noteq> LF \<and> c \<noteq> CR)
                    (take 4 (drop 2 ''+[Foo ]x''))) - 1)"
    by simp
  show ?thesis
    using m1 s1 m2 s2
      scan_methods_skips_without_selector [OF m1 disjI1 [OF s1]]
      scan_methods_skips_without_selector [OF m2 disjI2 [OF s2]]
    by simp
qed

section \<open>Properties of the decoders\<close>

subsection \<open>The branches of the AArch64 cascade\<close>

text \<open>
  For each branch: the record it leaves is valid, its mnemonic is not empty, and it
  satisfies the invariants \<open>arm64_link_return_ok\<close> and \<open>arm64_target_ok\<close>.
\<close>

lemma snprintf_B_dot:
  "snprintf n (CHR ''B'' # CHR ''.'' # s) = t \<Longrightarrow>
     t = [] \<or> t = ''B'' \<or> (\<exists>r. t = CHR ''B'' # CHR ''.'' # r)"
  by (cases "n - 1"; cases "n - 2") (auto simp: snprintf_def take_Cons split: nat.splits)

lemma snprintf_B_dot_nonempty:
  "1 < n \<Longrightarrow> snprintf n (CHR ''B'' # CHR ''.'' # s) \<noteq> []"
  by (cases "n - 1") (auto simp: snprintf_def)

lemma arm64_b_bl_valid: "is_valid (arm64_b_bl H bytes addr inst)"
  by (simp add: arm64_b_bl_def Let_def)

lemma arm64_b_bl_mnemonic: "mnemonic (arm64_b_bl H bytes addr inst) \<noteq> []"
  by (simp add: arm64_b_bl_def Let_def)

lemma arm64_b_bl_link: "arm64_link_return_ok (arm64_b_bl H bytes addr inst)"
  by (simp add: arm64_link_return_ok_def arm64_b_bl_def Let_def bit_simps)

lemma arm64_b_bl_target:
  "address inst = addr \<Longrightarrow> arm64_target_ok addr (arm64_b_bl H bytes addr inst)"
  by (simp add: arm64_target_ok_def arm64_b_bl_def Let_def)

lemma arm64_adr_adrp_valid: "is_valid (arm64_adr_adrp H bytes addr inst)"
  by (simp add: arm64_adr_adrp_def Let_def)

lemma arm64_adr_adrp_mnemonic: "mnemonic (arm64_adr_adrp H bytes addr inst) \<noteq> []"
  by (simp add: arm64_adr_adrp_def Let_def)

lemma arm64_adr_adrp_link: "arm64_link_return_ok (arm64_adr_adrp H bytes addr inst)"
  by (simp add: arm64_link_return_ok_def arm64_adr_adrp_def Let_def bit_simps)

lemma arm64_adr_adrp_target:
  "address inst = addr \<Longrightarrow> arm64_target_ok addr (arm64_adr_adrp H bytes addr inst)"
  by (simp add: arm64_target_ok_def arm64_adr_adrp_def Let_def)

lemma arm64_br_blr_ret_valid: "is_valid (arm64_br_blr_ret H bytes inst)"
  by (simp add: arm64_br_blr_ret_def Let_def)

lemma arm64_br_blr_ret_mnemonic: "mnemonic (arm64_br_blr_ret H bytes inst) \<noteq> []"
  by (simp add: arm64_br_blr_ret_def Let_def)

lemma arm64_br_blr_ret_link: "arm64_link_return_ok (arm64_br_blr_ret H bytes inst)"
  by (simp add: arm64_link_return_ok_def arm64_br_blr_ret_def Let_def bit_simps)

lemma arm64_br_blr_ret_target:
  "arm64_target_ok addr inst \<Longrightarrow> \<not> has_branch_target inst \<Longrightarrow>
   arm64_target_ok addr (arm64_br_blr_ret H bytes inst)"
  by (simp add: arm64_target_ok_def arm64_br_blr_ret_def Let_def)

lemma arm64_ldp_stp_valid: "is_valid (arm64_ldp_stp H bytes inst)"
  by (simp add: arm64_ldp_stp_def Let_def)

lemma arm64_ldp_stp_mnemonic: "mnemonic (arm64_ldp_stp H bytes inst) \<noteq> []"
  by (simp add: arm64_ldp_stp_def Let_def)

lemma arm64_ldp_stp_link: "arm64_link_return_ok (arm64_ldp_stp H bytes inst)"
  by (simp add: arm64_link_return_ok_def arm64_ldp_stp_def Let_def bit_simps)

lemma arm64_ldp_stp_target:
  "arm64_target_ok addr inst \<Longrightarrow> \<not> has_branch_target inst \<Longrightarrow>
   arm64_target_ok addr (arm64_ldp_stp H bytes inst)"
  by (simp add: arm64_target_ok_def arm64_ldp_stp_def Let_def)

lemma arm64_add_sub_imm_valid: "is_valid (arm64_add_sub_imm H bytes inst)"
  by (simp add: arm64_add_sub_imm_def Let_def)

lemma arm64_add_sub_imm_mnemonic: "mnemonic (arm64_add_sub_imm H bytes inst) \<noteq> []"
  by (simp add: arm64_add_sub_imm_def Let_def)

lemma arm64_add_sub_imm_link: "arm64_link_return_ok (arm64_add_sub_imm H bytes inst)"
  by (simp add: arm64_link_return_ok_def arm64_add_sub_imm_def Let_def bit_simps)

lemma arm64_add_sub_imm_target:
  "arm64_target_ok addr inst \<Longrightarrow> \<not> has_branch_target inst \<Longrightarrow>
   arm64_target_ok addr (arm64_add_sub_imm H bytes inst)"
  by (simp add: arm64_target_ok_def arm64_add_sub_imm_def Let_def)

lemma arm64_mov_wide_valid: "is_valid (arm64_mov_wide H bytes inst)"
  by (simp add: arm64_mov_wide_def Let_def)

lemma arm64_mov_wide_mnemonic: "mnemonic (arm64_mov_wide H bytes inst) \<noteq> []"
  by (simp add: arm64_mov_wide_def Let_def)

lemma arm64_mov_wide_link: "arm64_link_return_ok (arm64_mov_wide H bytes inst)"
  by (simp add: arm64_link_return_ok_def arm64_mov_wide_def Let_def bit_simps)

lemma arm64_mov_wide_target:
  "arm64_target_ok addr inst \<Longrightarrow> \<not> has_branch_target inst \<Longrightarrow>
   arm64_target_ok addr (arm64_mov_wide H bytes inst)"
  by (simp add: arm64_target_ok_def arm64_mov_wide_def Let_def)

lemma arm64_b_cond_valid: "is_valid (arm64_b_cond H bytes addr inst)"
  by (simp add: arm64_b_cond_def Let_def)

lemma arm64_b_cond_mnemonic: "1 < sizeof_mnemonic H \<Longrightarrow> mnemonic (arm64_b_cond H bytes addr inst) \<noteq> []"
  by (simp add: arm64_b_cond_def Let_def snprintf_B_dot_nonempty)

lemma arm64_b_cond_link: "arm64_link_return_ok (arm64_b_cond H bytes addr inst)"
  using snprintf_B_dot [of "sizeof_mnemonic H" "arm64_condition_string (ucast (bytes AND 0xF))"]
  by (auto simp add: arm64_link_return_ok_def arm64_b_cond_def Let_def bit_simps)

lemma arm64_b_cond_target:
  "address inst = addr \<Longrightarrow> arm64_target_ok addr (arm64_b_cond H bytes addr inst)"
  using snprintf_B_dot [of "sizeof_mnemonic H" "arm64_condition_string (ucast (bytes AND 0xF))"]
  by (auto simp add: arm64_target_ok_def arm64_b_cond_def Let_def)

lemma arm64_cbz_cbnz_valid: "is_valid (arm64_cbz_cbnz H bytes addr inst)"
  by (simp add: arm64_cbz_cbnz_def Let_def)

lemma arm64_cbz_cbnz_mnemonic: "mnemonic (arm64_cbz_cbnz H bytes addr inst) \<noteq> []"
  by (simp add: arm64_cbz_cbnz_def Let_def)

lemma arm64_cbz_cbnz_link: "arm64_link_return_ok (arm64_cbz_cbnz H bytes addr inst)"
  by (simp add: arm64_link_return_ok_def arm64_cbz_cbnz_def Let_def bit_simps)

lemma arm64_cbz_cbnz_target:
  "address inst = addr \<Longrightarrow> arm64_target_ok addr (arm64_cbz_cbnz H bytes addr inst)"
  by (simp add: arm64_target_ok_def arm64_cbz_cbnz_def Let_def)

lemma arm64_tbz_tbnz_valid: "is_valid (arm64_tbz_tbnz H bytes addr inst)"
  by (simp add: arm64_tbz_tbnz_def Let_def)

lemma arm64_tbz_tbnz_mnemonic: "mnemonic (arm64_tbz_tbnz H bytes addr inst) \<noteq> []"
  by (simp add: arm64_tbz_tbnz_def Let_def)

lemma arm64_tbz_tbnz_link: "arm64_link_return_ok (arm64_tbz_tbnz H bytes addr inst)"
  by (simp add: arm64_link_return_ok_def arm64_tbz_tbnz_def Let_def bit_simps)

lemma arm64_tbz_tbnz_target:
  "address inst = addr \<Longrightarrow> arm64_target_ok addr (arm64_tbz_tbnz H bytes addr inst)"
  by (simp add: arm64_target_ok_def arm64_tbz_tbnz_def Let_def)

lemma arm64_ldr_str_imm_valid: "is_valid (arm64_ldr_str_imm H bytes inst)"
  by (simp add: arm64_ldr_str_imm_def Let_def)

lemma arm64_ldr_str_imm_mnemonic: "mnemonic (arm64_ldr_str_imm H bytes inst) \<noteq> []"
  by (simp add: arm64_ldr_str_imm_def Let_def)

lemma arm64_ldr_str_imm_link: "arm64_link_return_ok (arm64_ldr_str_imm H bytes inst)"
  by (simp add: arm64_link_return_ok_def arm64_ldr_str_imm_def Let_def bit_simps)

lemma arm64_ldr_str_imm_target:
  "arm64_target_ok addr inst \<Longrightarrow> \<not> has_branch_target inst \<Longrightarrow>
   arm64_target_ok addr (arm64_ldr_str_imm H bytes inst)"
  by (simp add: arm64_target_ok_def arm64_ldr_str_imm_def Let_def)

lemma arm64_ldur_stur_valid: "is_valid (arm64_ldur_stur H bytes inst)"
  by (simp add: arm64_ldur_stur_def Let_def)

lemma arm64_ldur_stur_mnemonic: "mnemonic (arm64_ldur_stur H bytes inst) \<noteq> []"
  by (simp add: arm64_ldur_stur_def Let_def)

lemma arm64_ldur_stur_link: "arm64_link_return_ok (arm64_ldur_stur H bytes inst)"
  by (simp add: arm64_link_return_ok_def arm64_ldur_stur_def Let_def bit_simps)

lemma arm64_ldur_stur_target:
  "arm64_target_ok addr inst \<Longrightarrow> \<not> has_branch_target inst \<Longrightarrow>
   arm64_target_ok addr (arm64_ldur_stur H bytes inst)"
  by (simp add: arm64_target_ok_def arm64_ldur_stur_def Let_def)

lemma arm64_ldr_literal_valid: "is_valid (arm64_ldr_literal H bytes addr inst)"
  by (simp add: arm64_ldr_literal_def Let_def)

lemma arm64_ldr_literal_mnemonic: "mnemonic (arm64_ldr_literal H bytes addr inst) \<noteq> []"
  by (simp add: arm64_ldr_literal_def Let_def)

lemma arm64_ldr_literal_link: "arm64_link_return_ok (arm64_ldr_literal H bytes addr inst)"
  by (simp add: arm64_link_return_ok_def arm64_ldr_literal_def Let_def bit_simps)

lemma arm64_ldr_literal_target:
  "arm64_target_ok addr inst \<Longrightarrow> \<not> has_branch_target inst \<Longrightarrow>
   arm64_target_ok addr (arm64_ldr_literal H bytes addr inst)"
  by (simp add: arm64_target_ok_def arm64_ldr_literal_def Let_def)

lemma arm64_logical_shifted_valid: "is_valid (arm64_logical_shifted H bytes inst)"
  by (simp add: arm64_logical_shifted_def Let_def)

lemma arm64_logical_shifted_mnemonic: "mnemonic (arm64_logical_shifted H bytes inst) \<noteq> []"
  by (simp add: arm64_logical_shifted_def Let_def)

lemma arm64_logical_shifted_link: "arm64_link_return_ok (arm64_logical_shifted H bytes inst)"
  by (simp add: arm64_link_return_ok_def arm64_logical_shifted_def Let_def bit_simps)

lemma arm64_logical_shifted_target:
  "arm64_target_ok addr inst \<Longrightarrow> \<not> has_branch_target inst \<Longrightarrow>
   arm64_target_ok addr (arm64_logical_shifted H bytes inst)"
  by (simp add: arm64_target_ok_def arm64_logical_shifted_def Let_def)

lemma arm64_bitfield_valid: "is_valid (arm64_bitfield H bytes inst)"
  by (simp add: arm64_bitfield_def Let_def)

lemma arm64_bitfield_mnemonic: "mnemonic (arm64_bitfield H bytes inst) \<noteq> []"
  by (simp add: arm64_bitfield_def Let_def)

lemma arm64_bitfield_link: "arm64_link_return_ok (arm64_bitfield H bytes inst)"
  by (simp add: arm64_link_return_ok_def arm64_bitfield_def Let_def bit_simps)

lemma arm64_bitfield_target:
  "arm64_target_ok addr inst \<Longrightarrow> \<not> has_branch_target inst \<Longrightarrow>
   arm64_target_ok addr (arm64_bitfield H bytes inst)"
  by (simp add: arm64_target_ok_def arm64_bitfield_def Let_def)

lemma arm64_three_source_valid: "is_valid (arm64_three_source H bytes inst)"
  by (simp add: arm64_three_source_def Let_def)

lemma arm64_three_source_mnemonic: "mnemonic (arm64_three_source H bytes inst) \<noteq> []"
  by (simp add: arm64_three_source_def Let_def)

lemma arm64_three_source_link: "arm64_link_return_ok (arm64_three_source H bytes inst)"
  by (simp add: arm64_link_return_ok_def arm64_three_source_def Let_def bit_simps)

lemma arm64_three_source_target:
  "arm64_target_ok addr inst \<Longrightarrow> \<not> has_branch_target inst \<Longrightarrow>
   arm64_target_ok addr (arm64_three_source H bytes inst)"
  by (simp add: arm64_target_ok_def arm64_three_source_def Let_def)

lemma arm64_cmp_imm_valid: "is_valid (arm64_cmp_imm H bytes inst)"
  by (simp add: arm64_cmp_imm_def Let_def)

lemma arm64_cmp_imm_mnemonic: "mnemonic (arm64_cmp_imm H bytes inst) \<noteq> []"
  by (simp add: arm64_cmp_imm_def Let_def)

lemma arm64_cmp_imm_link: "arm64_link_return_ok (arm64_cmp_imm H bytes inst)"
  by (simp add: arm64_link_return_ok_def arm64_cmp_imm_def Let_def bit_simps)

lemma arm64_cmp_imm_target:
  "arm64_target_ok addr inst \<Longrightarrow> \<not> has_branch_target inst \<Longrightarrow>
   arm64_target_ok addr (arm64_cmp_imm H bytes inst)"
  by (simp add: arm64_target_ok_def arm64_cmp_imm_def Let_def)

lemma arm64_cmp_reg_valid: "is_valid (arm64_cmp_reg H bytes inst)"
  by (simp add: arm64_cmp_reg_def Let_def)

lemma arm64_cmp_reg_mnemonic: "mnemonic (arm64_cmp_reg H bytes inst) \<noteq> []"
  by (simp add: arm64_cmp_reg_def Let_def)

lemma arm64_cmp_reg_link: "arm64_link_return_ok (arm64_cmp_reg H bytes inst)"
  by (simp add: arm64_link_return_ok_def arm64_cmp_reg_def Let_def bit_simps)

lemma arm64_cmp_reg_target:
  "arm64_target_ok addr inst \<Longrightarrow> \<not> has_branch_target inst \<Longrightarrow>
   arm64_target_ok addr (arm64_cmp_reg H bytes inst)"
  by (simp add: arm64_target_ok_def arm64_cmp_reg_def Let_def)

lemma arm64_shift_valid: "is_valid (arm64_shift H bytes inst)"
  by (simp add: arm64_shift_def Let_def)

lemma arm64_shift_mnemonic: "mnemonic (arm64_shift H bytes inst) \<noteq> []"
  by (simp add: arm64_shift_def Let_def)

lemma arm64_shift_link: "arm64_link_return_ok (arm64_shift H bytes inst)"
  by (simp add: arm64_link_return_ok_def arm64_shift_def Let_def bit_simps)

lemma arm64_shift_target:
  "arm64_target_ok addr inst \<Longrightarrow> \<not> has_branch_target inst \<Longrightarrow>
   arm64_target_ok addr (arm64_shift H bytes inst)"
  by (simp add: arm64_target_ok_def arm64_shift_def Let_def)

lemma arm64_ccmp_valid: "is_valid (arm64_ccmp H bytes inst)"
  by (simp add: arm64_ccmp_def Let_def)

lemma arm64_ccmp_mnemonic: "mnemonic (arm64_ccmp H bytes inst) \<noteq> []"
  by (simp add: arm64_ccmp_def Let_def)

lemma arm64_ccmp_link: "arm64_link_return_ok (arm64_ccmp H bytes inst)"
  by (simp add: arm64_link_return_ok_def arm64_ccmp_def Let_def bit_simps)

lemma arm64_ccmp_target:
  "arm64_target_ok addr inst \<Longrightarrow> \<not> has_branch_target inst \<Longrightarrow>
   arm64_target_ok addr (arm64_ccmp H bytes inst)"
  by (simp add: arm64_target_ok_def arm64_ccmp_def Let_def)

lemma arm64_nop_valid: "is_valid (arm64_nop inst)"
  by (simp add: arm64_nop_def Let_def)

lemma arm64_nop_mnemonic: "mnemonic (arm64_nop inst) \<noteq> []"
  by (simp add: arm64_nop_def Let_def)

lemma arm64_nop_link: "arm64_link_return_ok (arm64_nop inst)"
  by (simp add: arm64_link_return_ok_def arm64_nop_def Let_def bit_simps)

lemma arm64_nop_target:
  "arm64_target_ok addr inst \<Longrightarrow> \<not> has_branch_target inst \<Longrightarrow>
   arm64_target_ok addr (arm64_nop inst)"
  by (simp add: arm64_target_ok_def arm64_nop_def Let_def)

lemma arm64_hint_valid: "is_valid (arm64_hint bytes inst)"
  by (simp add: arm64_hint_def Let_def)

lemma arm64_hint_mnemonic: "mnemonic (arm64_hint bytes inst) \<noteq> []"
  by (simp add: arm64_hint_def Let_def)

lemma arm64_hint_link: "arm64_link_return_ok (arm64_hint bytes inst)"
  by (simp add: arm64_link_return_ok_def arm64_hint_def Let_def bit_simps)

lemma arm64_hint_target:
  "arm64_target_ok addr inst \<Longrightarrow> \<not> has_branch_target inst \<Longrightarrow>
   arm64_target_ok addr (arm64_hint bytes inst)"
  by (simp add: arm64_target_ok_def arm64_hint_def Let_def)

lemma arm64_barrier_valid: "is_valid (arm64_barrier H bytes inst)"
  by (simp add: arm64_barrier_def Let_def)

lemma arm64_barrier_mnemonic: "mnemonic (arm64_barrier H bytes inst) \<noteq> []"
  by (simp add: arm64_barrier_def Let_def)

lemma arm64_barrier_link: "arm64_link_return_ok (arm64_barrier H bytes inst)"
  by (simp add: arm64_link_return_ok_def arm64_barrier_def Let_def bit_simps)

lemma arm64_barrier_target:
  "arm64_target_ok addr inst \<Longrightarrow> \<not> has_branch_target inst \<Longrightarrow>
   arm64_target_ok addr (arm64_barrier H bytes inst)"
  by (simp add: arm64_target_ok_def arm64_barrier_def Let_def)

lemma arm64_mrs_msr_valid: "is_valid (arm64_mrs_msr H bytes inst)"
  by (simp add: arm64_mrs_msr_def Let_def)

lemma arm64_mrs_msr_mnemonic: "mnemonic (arm64_mrs_msr H bytes inst) \<noteq> []"
  by (simp add: arm64_mrs_msr_def Let_def)

lemma arm64_mrs_msr_link: "arm64_link_return_ok (arm64_mrs_msr H bytes inst)"
  by (simp add: arm64_link_return_ok_def arm64_mrs_msr_def Let_def bit_simps)

lemma arm64_mrs_msr_target:
  "arm64_target_ok addr inst \<Longrightarrow> \<not> has_branch_target inst \<Longrightarrow>
   arm64_target_ok addr (arm64_mrs_msr H bytes inst)"
  by (simp add: arm64_target_ok_def arm64_mrs_msr_def Let_def)

lemma arm64_fallback_ldr_str_valid: "is_valid (arm64_fallback_ldr_str H bytes inst)"
  by (simp add: arm64_fallback_ldr_str_def Let_def)

lemma arm64_fallback_ldr_str_mnemonic: "mnemonic (arm64_fallback_ldr_str H bytes inst) \<noteq> []"
  by (simp add: arm64_fallback_ldr_str_def Let_def)

lemma arm64_fallback_ldr_str_link: "arm64_link_return_ok (arm64_fallback_ldr_str H bytes inst)"
  by (simp add: arm64_link_return_ok_def arm64_fallback_ldr_str_def Let_def bit_simps)

lemma arm64_fallback_ldr_str_target:
  "arm64_target_ok addr inst \<Longrightarrow> \<not> has_branch_target inst \<Longrightarrow>
   arm64_target_ok addr (arm64_fallback_ldr_str H bytes inst)"
  by (simp add: arm64_target_ok_def arm64_fallback_ldr_str_def Let_def)

lemma arm64_fallback_dp3src_valid: "is_valid (arm64_fallback_dp3src H bytes inst)"
  by (simp add: arm64_fallback_dp3src_def Let_def)

lemma arm64_fallback_dp3src_mnemonic: "mnemonic (arm64_fallback_dp3src H bytes inst) \<noteq> []"
  by (simp add: arm64_fallback_dp3src_def Let_def)

lemma arm64_fallback_dp3src_link: "arm64_link_return_ok (arm64_fallback_dp3src H bytes inst)"
  by (simp add: arm64_link_return_ok_def arm64_fallback_dp3src_def Let_def bit_simps)

lemma arm64_fallback_dp3src_target:
  "arm64_target_ok addr inst \<Longrightarrow> \<not> has_branch_target inst \<Longrightarrow>
   arm64_target_ok addr (arm64_fallback_dp3src H bytes inst)"
  by (simp add: arm64_target_ok_def arm64_fallback_dp3src_def Let_def)

lemma arm64_fallback_fmov_valid: "is_valid (arm64_fallback_fmov H bytes inst)"
  by (simp add: arm64_fallback_fmov_def Let_def)

lemma arm64_fallback_fmov_mnemonic: "mnemonic (arm64_fallback_fmov H bytes inst) \<noteq> []"
  by (simp add: arm64_fallback_fmov_def Let_def)

lemma arm64_fallback_fmov_link: "arm64_link_return_ok (arm64_fallback_fmov H bytes inst)"
  by (simp add: arm64_link_return_ok_def arm64_fallback_fmov_def Let_def bit_simps)

lemma arm64_fallback_fmov_target:
  "arm64_target_ok addr inst \<Longrightarrow> \<not> has_branch_target inst \<Longrightarrow>
   arm64_target_ok addr (arm64_fallback_fmov H bytes inst)"
  by (simp add: arm64_target_ok_def arm64_fallback_fmov_def Let_def)

lemma arm64_fallback_simd_valid: "is_valid (arm64_fallback_simd H inst)"
  by (simp add: arm64_fallback_simd_def Let_def)

lemma arm64_fallback_simd_mnemonic: "mnemonic (arm64_fallback_simd H inst) \<noteq> []"
  by (simp add: arm64_fallback_simd_def Let_def)

lemma arm64_fallback_simd_link: "arm64_link_return_ok (arm64_fallback_simd H inst)"
  by (simp add: arm64_link_return_ok_def arm64_fallback_simd_def Let_def bit_simps)

lemma arm64_fallback_simd_target:
  "arm64_target_ok addr inst \<Longrightarrow> \<not> has_branch_target inst \<Longrightarrow>
   arm64_target_ok addr (arm64_fallback_simd H inst)"
  by (simp add: arm64_target_ok_def arm64_fallback_simd_def Let_def)

lemma arm64_fallback_dpreg_valid: "is_valid (arm64_fallback_dpreg H bytes inst)"
  by (simp add: arm64_fallback_dpreg_def Let_def)

lemma arm64_fallback_dpreg_mnemonic: "mnemonic (arm64_fallback_dpreg H bytes inst) \<noteq> []"
  by (simp add: arm64_fallback_dpreg_def Let_def)

lemma arm64_fallback_dpreg_link: "arm64_link_return_ok (arm64_fallback_dpreg H bytes inst)"
  by (simp add: arm64_link_return_ok_def arm64_fallback_dpreg_def Let_def bit_simps)

lemma arm64_fallback_dpreg_target:
  "arm64_target_ok addr inst \<Longrightarrow> \<not> has_branch_target inst \<Longrightarrow>
   arm64_target_ok addr (arm64_fallback_dpreg H bytes inst)"
  by (simp add: arm64_target_ok_def arm64_fallback_dpreg_def Let_def)

lemma arm64_fallback_sys_valid: "is_valid (arm64_fallback_sys H inst)"
  by (simp add: arm64_fallback_sys_def Let_def)

lemma arm64_fallback_sys_mnemonic: "mnemonic (arm64_fallback_sys H inst) \<noteq> []"
  by (simp add: arm64_fallback_sys_def Let_def)

lemma arm64_fallback_sys_link: "arm64_link_return_ok (arm64_fallback_sys H inst)"
  by (simp add: arm64_link_return_ok_def arm64_fallback_sys_def Let_def bit_simps)

lemma arm64_fallback_sys_target:
  "arm64_target_ok addr inst \<Longrightarrow> \<not> has_branch_target inst \<Longrightarrow>
   arm64_target_ok addr (arm64_fallback_sys H inst)"
  by (simp add: arm64_target_ok_def arm64_fallback_sys_def Let_def)

subsection \<open>The groups, the cascade and the fallbacks\<close>

lemma arm64_group_imm_valid: "arm64_group_imm H bytes inst = inst \<or> is_valid (arm64_group_imm H bytes inst)"
  by (simp add: arm64_group_imm_def arm64_add_sub_imm_valid arm64_mov_wide_valid)

lemma arm64_group_imm_mnemonic:
  "1 < sizeof_mnemonic H \<Longrightarrow> arm64_mnemonic_ok inst \<Longrightarrow> arm64_mnemonic_ok (arm64_group_imm H bytes inst)"
  by (simp add: arm64_group_imm_def arm64_mnemonic_ok_def arm64_add_sub_imm_mnemonic arm64_mov_wide_mnemonic)

lemma arm64_group_imm_link: "arm64_link_return_ok inst \<Longrightarrow> arm64_link_return_ok (arm64_group_imm H bytes inst)"
  by (simp add: arm64_group_imm_def arm64_add_sub_imm_link arm64_mov_wide_link)

lemma arm64_group_imm_target:
  "arm64_target_ok addr inst \<Longrightarrow> \<not> has_branch_target inst \<Longrightarrow>
   arm64_target_ok addr (arm64_group_imm H bytes inst)"
  by (simp add: arm64_group_imm_def arm64_add_sub_imm_target arm64_mov_wide_target arm64_target_ok_def [of addr inst])

lemma arm64_group_cond_branch_valid: "arm64_group_cond_branch H bytes addr inst = inst \<or> is_valid (arm64_group_cond_branch H bytes addr inst)"
  by (simp add: arm64_group_cond_branch_def arm64_b_cond_valid arm64_cbz_cbnz_valid arm64_tbz_tbnz_valid)

lemma arm64_group_cond_branch_mnemonic:
  "1 < sizeof_mnemonic H \<Longrightarrow> arm64_mnemonic_ok inst \<Longrightarrow> arm64_mnemonic_ok (arm64_group_cond_branch H bytes addr inst)"
  by (simp add: arm64_group_cond_branch_def arm64_mnemonic_ok_def arm64_b_cond_mnemonic arm64_cbz_cbnz_mnemonic arm64_tbz_tbnz_mnemonic)

lemma arm64_group_cond_branch_link: "arm64_link_return_ok inst \<Longrightarrow> arm64_link_return_ok (arm64_group_cond_branch H bytes addr inst)"
  by (simp add: arm64_group_cond_branch_def arm64_b_cond_link arm64_cbz_cbnz_link arm64_tbz_tbnz_link)

lemma arm64_group_cond_branch_target:
  "arm64_target_ok addr inst \<Longrightarrow> \<not> has_branch_target inst \<Longrightarrow>
   arm64_target_ok addr (arm64_group_cond_branch H bytes addr inst)"
  by (simp add: arm64_group_cond_branch_def arm64_b_cond_target arm64_cbz_cbnz_target arm64_tbz_tbnz_target arm64_target_ok_def [of addr inst])

lemma arm64_group_load_store_valid: "arm64_group_load_store H bytes addr inst = inst \<or> is_valid (arm64_group_load_store H bytes addr inst)"
  by (simp add: arm64_group_load_store_def arm64_ldr_str_imm_valid arm64_ldur_stur_valid arm64_ldr_literal_valid)

lemma arm64_group_load_store_mnemonic:
  "1 < sizeof_mnemonic H \<Longrightarrow> arm64_mnemonic_ok inst \<Longrightarrow> arm64_mnemonic_ok (arm64_group_load_store H bytes addr inst)"
  by (simp add: arm64_group_load_store_def arm64_mnemonic_ok_def arm64_ldr_str_imm_mnemonic arm64_ldur_stur_mnemonic arm64_ldr_literal_mnemonic)

lemma arm64_group_load_store_link: "arm64_link_return_ok inst \<Longrightarrow> arm64_link_return_ok (arm64_group_load_store H bytes addr inst)"
  by (simp add: arm64_group_load_store_def arm64_ldr_str_imm_link arm64_ldur_stur_link arm64_ldr_literal_link)

lemma arm64_group_load_store_target:
  "arm64_target_ok addr inst \<Longrightarrow> \<not> has_branch_target inst \<Longrightarrow>
   arm64_target_ok addr (arm64_group_load_store H bytes addr inst)"
  by (simp add: arm64_group_load_store_def arm64_ldr_str_imm_target arm64_ldur_stur_target arm64_ldr_literal_target arm64_target_ok_def [of addr inst])

lemma arm64_group_data_reg_valid: "arm64_group_data_reg H bytes inst = inst \<or> is_valid (arm64_group_data_reg H bytes inst)"
  by (simp add: arm64_group_data_reg_def arm64_logical_shifted_valid arm64_bitfield_valid arm64_three_source_valid)

lemma arm64_group_data_reg_mnemonic:
  "1 < sizeof_mnemonic H \<Longrightarrow> arm64_mnemonic_ok inst \<Longrightarrow> arm64_mnemonic_ok (arm64_group_data_reg H bytes inst)"
  by (simp add: arm64_group_data_reg_def arm64_mnemonic_ok_def arm64_logical_shifted_mnemonic arm64_bitfield_mnemonic arm64_three_source_mnemonic)

lemma arm64_group_data_reg_link: "arm64_link_return_ok inst \<Longrightarrow> arm64_link_return_ok (arm64_group_data_reg H bytes inst)"
  by (simp add: arm64_group_data_reg_def arm64_logical_shifted_link arm64_bitfield_link arm64_three_source_link)

lemma arm64_group_data_reg_target:
  "arm64_target_ok addr inst \<Longrightarrow> \<not> has_branch_target inst \<Longrightarrow>
   arm64_target_ok addr (arm64_group_data_reg H bytes inst)"
  by (simp add: arm64_group_data_reg_def arm64_logical_shifted_target arm64_bitfield_target arm64_three_source_target arm64_target_ok_def [of addr inst])

lemma arm64_group_cmp_valid: "arm64_group_cmp H bytes inst = inst \<or> is_valid (arm64_group_cmp H bytes inst)"
  by (simp add: arm64_group_cmp_def arm64_cmp_imm_valid arm64_cmp_reg_valid)

lemma arm64_group_cmp_mnemonic:
  "1 < sizeof_mnemonic H \<Longrightarrow> arm64_mnemonic_ok inst \<Longrightarrow> arm64_mnemonic_ok (arm64_group_cmp H bytes inst)"
  by (simp add: arm64_group_cmp_def arm64_mnemonic_ok_def arm64_cmp_imm_mnemonic arm64_cmp_reg_mnemonic)

lemma arm64_group_cmp_link: "arm64_link_return_ok inst \<Longrightarrow> arm64_link_return_ok (arm64_group_cmp H bytes inst)"
  by (simp add: arm64_group_cmp_def arm64_cmp_imm_link arm64_cmp_reg_link)

lemma arm64_group_cmp_target:
  "arm64_target_ok addr inst \<Longrightarrow> \<not> has_branch_target inst \<Longrightarrow>
   arm64_target_ok addr (arm64_group_cmp H bytes inst)"
  by (simp add: arm64_group_cmp_def arm64_cmp_imm_target arm64_cmp_reg_target arm64_target_ok_def [of addr inst])

lemma arm64_cascade_cases:
  assumes "P (arm64_b_bl H bytes addr inst)"
    and "P (arm64_adr_adrp H bytes addr inst)"
    and "P (arm64_br_blr_ret H bytes inst)"
    and "P (arm64_ldp_stp H bytes inst)"
    and "P (arm64_group_imm H bytes inst)"
    and "P (arm64_group_cond_branch H bytes addr inst)"
    and "P (arm64_group_load_store H bytes addr inst)"
    and "P (arm64_group_data_reg H bytes inst)"
    and "P (arm64_group_cmp H bytes inst)"
    and "P (arm64_shift H bytes inst)"
    and "P (arm64_ccmp H bytes inst)"
    and "P (arm64_nop inst)"
    and "P (arm64_hint bytes inst)"
    and "P (arm64_barrier H bytes inst)"
    and "P (arm64_mrs_msr H bytes inst)"
    and "P inst"
  shows "P (arm64_cascade H bytes addr inst)"
  unfolding arm64_cascade_def Let_def
  using assms by (simp only: if_split simp_thms)

lemma arm64_cascade_valid:
  "arm64_cascade H bytes addr inst = inst \<or> is_valid (arm64_cascade H bytes addr inst)"
  by (rule arm64_cascade_cases)
     (simp_all add: arm64_b_bl_valid arm64_adr_adrp_valid arm64_br_blr_ret_valid arm64_ldp_stp_valid
        arm64_group_imm_valid arm64_group_cond_branch_valid arm64_group_load_store_valid arm64_group_data_reg_valid
        arm64_group_cmp_valid arm64_shift_valid arm64_ccmp_valid arm64_nop_valid
        arm64_hint_valid arm64_barrier_valid arm64_mrs_msr_valid)

lemma arm64_cascade_mnemonic:
  assumes "1 < sizeof_mnemonic H" and "arm64_mnemonic_ok inst"
  shows "arm64_mnemonic_ok (arm64_cascade H bytes addr inst)"
  by (rule arm64_cascade_cases)
     (simp_all add: assms arm64_mnemonic_ok_def [of "arm64_b_bl H bytes addr inst"]
        arm64_mnemonic_ok_def [of "arm64_adr_adrp H bytes addr inst"]
        arm64_mnemonic_ok_def [of "arm64_br_blr_ret H bytes inst"]
        arm64_mnemonic_ok_def [of "arm64_ldp_stp H bytes inst"]
        arm64_mnemonic_ok_def [of "arm64_shift H bytes inst"]
        arm64_mnemonic_ok_def [of "arm64_ccmp H bytes inst"]
        arm64_mnemonic_ok_def [of "arm64_nop inst"]
        arm64_mnemonic_ok_def [of "arm64_hint bytes inst"]
        arm64_mnemonic_ok_def [of "arm64_barrier H bytes inst"]
        arm64_mnemonic_ok_def [of "arm64_mrs_msr H bytes inst"]
        arm64_b_bl_mnemonic arm64_adr_adrp_mnemonic arm64_br_blr_ret_mnemonic
        arm64_ldp_stp_mnemonic arm64_group_imm_mnemonic [OF assms] arm64_group_cond_branch_mnemonic [OF assms]
        arm64_group_load_store_mnemonic [OF assms] arm64_group_data_reg_mnemonic [OF assms] arm64_group_cmp_mnemonic [OF assms]
        arm64_shift_mnemonic arm64_ccmp_mnemonic arm64_nop_mnemonic
        arm64_hint_mnemonic arm64_barrier_mnemonic arm64_mrs_msr_mnemonic)

lemma arm64_cascade_link:
  assumes "arm64_link_return_ok inst"
  shows "arm64_link_return_ok (arm64_cascade H bytes addr inst)"
  by (rule arm64_cascade_cases)
     (simp_all add: assms arm64_b_bl_link arm64_adr_adrp_link arm64_br_blr_ret_link arm64_ldp_stp_link
        arm64_group_imm_link arm64_group_cond_branch_link arm64_group_load_store_link arm64_group_data_reg_link
        arm64_group_cmp_link arm64_shift_link arm64_ccmp_link arm64_nop_link
        arm64_hint_link arm64_barrier_link arm64_mrs_msr_link)

lemma arm64_cascade_target:
  assumes "arm64_target_ok addr inst" and "\<not> has_branch_target inst"
  shows "arm64_target_ok addr (arm64_cascade H bytes addr inst)"
proof -
  have a: "address inst = addr"
    using assms(1) by (simp add: arm64_target_ok_def)
  show ?thesis
    by (rule arm64_cascade_cases)
       (simp_all add: assms a arm64_b_bl_target arm64_adr_adrp_target arm64_br_blr_ret_target arm64_ldp_stp_target
        arm64_group_imm_target arm64_group_cond_branch_target arm64_group_load_store_target arm64_group_data_reg_target
        arm64_group_cmp_target arm64_shift_target arm64_ccmp_target arm64_nop_target
        arm64_hint_target arm64_barrier_target arm64_mrs_msr_target)
qed

lemma arm64_generic_fallback_cases:
  assumes "P (arm64_fallback_ldr_str H bytes inst, False)"
    and "P (arm64_fallback_dp3src H bytes inst, False)"
    and "P (arm64_fallback_fmov H bytes inst, True)"
    and "P (arm64_fallback_simd H inst, False)"
    and "P (arm64_fallback_dpreg H bytes inst, False)"
    and "P (arm64_fallback_sys H inst, False)"
    and "P (inst, False)"
  shows "P (arm64_generic_fallback H bytes inst)"
  unfolding arm64_generic_fallback_def Let_def
  using assms by (simp only: if_split simp_thms)

lemma arm64_generic_fallback_valid:
  "fst (arm64_generic_fallback H bytes inst) = inst \<or>
   is_valid (fst (arm64_generic_fallback H bytes inst))"
  by (rule arm64_generic_fallback_cases
        [where P = "\<lambda>r. fst r = inst \<or> is_valid (fst r)"])
     (simp_all add: arm64_fallback_ldr_str_valid arm64_fallback_dp3src_valid arm64_fallback_fmov_valid arm64_fallback_simd_valid arm64_fallback_dpreg_valid arm64_fallback_sys_valid)

lemma arm64_generic_fallback_mnemonic:
  "arm64_mnemonic_ok inst \<Longrightarrow> arm64_mnemonic_ok (fst (arm64_generic_fallback H bytes inst))"
  by (rule arm64_generic_fallback_cases [where P = "\<lambda>r. arm64_mnemonic_ok (fst r)"])
     (simp_all add: arm64_mnemonic_ok_def arm64_fallback_ldr_str_mnemonic arm64_fallback_dp3src_mnemonic arm64_fallback_fmov_mnemonic arm64_fallback_simd_mnemonic arm64_fallback_dpreg_mnemonic arm64_fallback_sys_mnemonic)

lemma arm64_generic_fallback_link:
  "arm64_link_return_ok inst \<Longrightarrow>
   arm64_link_return_ok (fst (arm64_generic_fallback H bytes inst))"
  by (rule arm64_generic_fallback_cases [where P = "\<lambda>r. arm64_link_return_ok (fst r)"])
     (simp_all add: arm64_fallback_ldr_str_link arm64_fallback_dp3src_link arm64_fallback_fmov_link arm64_fallback_simd_link arm64_fallback_dpreg_link arm64_fallback_sys_link)

lemma arm64_generic_fallback_target:
  "arm64_target_ok addr inst \<Longrightarrow> \<not> has_branch_target inst \<Longrightarrow>
   arm64_target_ok addr (fst (arm64_generic_fallback H bytes inst))"
  by (rule arm64_generic_fallback_cases [where P = "\<lambda>r. arm64_target_ok addr (fst r)"])
     (simp_all add: arm64_fallback_ldr_str_target arm64_fallback_dp3src_target arm64_fallback_fmov_target arm64_fallback_simd_target arm64_fallback_dpreg_target arm64_fallback_sys_target)

lemma arm64_generic_fallback_returned:
  "snd (arm64_generic_fallback H bytes inst) \<longrightarrow>
   is_valid (fst (arm64_generic_fallback H bytes inst)) \<and>
   mnemonic (fst (arm64_generic_fallback H bytes inst)) = ''FMOV'' \<and>
   is_function_start (fst (arm64_generic_fallback H bytes inst)) = is_function_start inst \<and>
   is_function_end (fst (arm64_generic_fallback H bytes inst)) = is_function_end inst"
  by (rule arm64_generic_fallback_cases
        [where P = "\<lambda>r. snd r \<longrightarrow> is_valid (fst r) \<and> mnemonic (fst r) = ''FMOV'' \<and>
                       is_function_start (fst r) = is_function_start inst \<and>
                       is_function_end (fst r) = is_function_end inst"])
     (simp_all add: arm64_fallback_fmov_def Let_def)

subsection \<open>The end of the AArch64 decoder\<close>

lemma arm64_orr_alias_cases:
  assumes "P inst"
    and "\<And>ops. mnemonic inst = ''ORR'' \<Longrightarrow>
           P (inst\<lparr>mnemonic := ''MOV'', operands := ops,
                   category := INST_CATEGORY_DATA_PROCESSING\<rparr>)"
  shows "P (arm64_orr_alias H inst)"
  unfolding arm64_orr_alias_def Let_def
  using assms by (simp only: if_split option.split simp_thms) blast

lemma arm64_orr_alias_shape:
  "\<exists>m ops cat.
     arm64_orr_alias H inst = inst\<lparr>mnemonic := m, operands := ops, category := cat\<rparr> \<and>
     (m = mnemonic inst \<or> mnemonic inst = ''ORR'' \<and> m = ''MOV'')"
proof (rule arm64_orr_alias_cases)
  have "inst = inst\<lparr>mnemonic := mnemonic inst, operands := operands inst,
                    category := category inst\<rparr>"
    by simp
  then show "\<exists>m ops cat. inst = inst\<lparr>mnemonic := m, operands := ops, category := cat\<rparr> \<and>
               (m = mnemonic inst \<or> mnemonic inst = ''ORR'' \<and> m = ''MOV'')"
    by blast
next
  fix ops
  assume "mnemonic inst = ''ORR''"
  then show "\<exists>m ops' cat.
               inst\<lparr>mnemonic := ''MOV'', operands := ops,
                    category := INST_CATEGORY_DATA_PROCESSING\<rparr> =
               inst\<lparr>mnemonic := m, operands := ops', category := cat\<rparr> \<and>
               (m = mnemonic inst \<or> mnemonic inst = ''ORR'' \<and> m = ''MOV'')"
    by blast
qed

lemma arm64_finish_valid:
  "fst (arm64_finish H ctx bytes inst) \<and> is_valid (snd (arm64_finish H ctx bytes inst))"
  by (simp add: arm64_finish_def Let_def arm64_word_fallback_def)

lemma arm64_finish_mnemonic:
  assumes "arm64_mnemonic_ok inst"
  shows "mnemonic (snd (arm64_finish H ctx bytes inst)) \<noteq> []"
proof -
  obtain m ops cat where
    "arm64_orr_alias H inst = inst\<lparr>mnemonic := m, operands := ops, category := cat\<rparr>"
    "m = mnemonic inst \<or> mnemonic inst = ''ORR'' \<and> m = ''MOV''"
    using arm64_orr_alias_shape by blast
  with assms show ?thesis
    by (auto simp: arm64_finish_def Let_def arm64_word_fallback_def arm64_mnemonic_ok_def)
qed

lemma arm64_finish_link:
  assumes "arm64_link_return_ok inst"
  shows "arm64_link_return_ok (snd (arm64_finish H ctx bytes inst))"
proof -
  obtain m ops cat where
    "arm64_orr_alias H inst = inst\<lparr>mnemonic := m, operands := ops, category := cat\<rparr>"
    "m = mnemonic inst \<or> mnemonic inst = ''ORR'' \<and> m = ''MOV''"
    using arm64_orr_alias_shape by blast
  with assms show ?thesis
    by (auto simp: arm64_finish_def Let_def arm64_word_fallback_def arm64_link_return_ok_def)
qed

lemma arm64_finish_target:
  assumes "arm64_target_ok addr inst" and "is_valid inst \<or> \<not> has_branch_target inst"
  shows "arm64_target_ok addr (snd (arm64_finish H ctx bytes inst))"
proof -
  obtain m ops cat where
    "arm64_orr_alias H inst = inst\<lparr>mnemonic := m, operands := ops, category := cat\<rparr>"
    "m = mnemonic inst \<or> mnemonic inst = ''ORR'' \<and> m = ''MOV''"
    using arm64_orr_alias_shape by blast
  with assms show ?thesis
    by (auto simp: arm64_finish_def Let_def arm64_word_fallback_def arm64_target_ok_def)
qed

lemma arm64_finish_marks:
  "is_function_start (snd (arm64_finish H ctx bytes inst)) =
     arm64_is_prologue H ctx (snd (arm64_finish H ctx bytes inst)) \<and>
   is_function_end (snd (arm64_finish H ctx bytes inst)) =
     arm64_is_epilogue H ctx (snd (arm64_finish H ctx bytes inst))"
  by (simp add: arm64_finish_def Let_def arm64_is_prologue_def arm64_is_epilogue_def)

lemma arm64_finish_unmatched:
  assumes "\<not> is_valid inst"
  shows "mnemonic (snd (arm64_finish H ctx bytes inst)) = ''.word'' \<and>
         operands (snd (arm64_finish H ctx bytes inst)) =
           snprintf (sizeof_operands H) (''0x'' @ fmt_0X 8 (unat bytes)) \<and>
         category (snd (arm64_finish H ctx bytes inst)) = INST_CATEGORY_UNKNOWN"
proof -
  have "arm64_orr_alias H inst = inst"
    using assms by (simp add: arm64_orr_alias_def)
  with assms show ?thesis
    by (simp add: arm64_finish_def Let_def arm64_word_fallback_def)
qed

subsection \<open>The complete AArch64 decoder\<close>

lemma arm64_initial_ok:
  "\<not> is_valid (arm64_initial H bytes addr)"
  "\<not> has_branch_target (arm64_initial H bytes addr)"
  "arm64_mnemonic_ok (arm64_initial H bytes addr)"
  "arm64_link_return_ok (arm64_initial H bytes addr)"
  "arm64_target_ok addr (arm64_initial H bytes addr)"
  "\<not> is_function_start (arm64_initial H bytes addr)"
  "\<not> is_function_end (arm64_initial H bytes addr)"
  by (simp_all add: arm64_initial_def zeroed_instruction_def arm64_mnemonic_ok_def
        arm64_link_return_ok_def arm64_target_ok_def)

lemma arm64_cascade_invalid:
  "\<not> is_valid (arm64_cascade H bytes addr inst) \<Longrightarrow> arm64_cascade H bytes addr inst = inst"
  using arm64_cascade_valid [of H bytes addr inst] by blast

lemma arm64_decode_branches_mnemonic:
  "1 < sizeof_mnemonic H \<Longrightarrow> arm64_mnemonic_ok (fst (arm64_decode_branches H bytes addr))"
  by (simp add: arm64_decode_branches_def Let_def arm64_cascade_mnemonic
        arm64_generic_fallback_mnemonic arm64_initial_ok)

lemma arm64_decode_branches_link:
  "arm64_link_return_ok (fst (arm64_decode_branches H bytes addr))"
  by (simp add: arm64_decode_branches_def Let_def arm64_cascade_link
        arm64_generic_fallback_link arm64_initial_ok)

lemma arm64_decode_branches_target:
  "arm64_target_ok addr (fst (arm64_decode_branches H bytes addr))"
proof (cases "is_valid (arm64_cascade H bytes addr (arm64_initial H bytes addr))")
  case True
  then show ?thesis
    by (simp add: arm64_decode_branches_def Let_def arm64_cascade_target arm64_initial_ok)
next
  case False
  then have "arm64_cascade H bytes addr (arm64_initial H bytes addr) =
             arm64_initial H bytes addr"
    by (rule arm64_cascade_invalid)
  with False show ?thesis
    by (simp add: arm64_decode_branches_def Let_def arm64_generic_fallback_target
          arm64_initial_ok)
qed

lemma arm64_decode_branches_returned:
  assumes "snd (arm64_decode_branches H bytes addr)"
  shows "is_valid (fst (arm64_decode_branches H bytes addr)) \<and>
         mnemonic (fst (arm64_decode_branches H bytes addr)) = ''FMOV'' \<and>
         \<not> is_function_start (fst (arm64_decode_branches H bytes addr)) \<and>
         \<not> is_function_end (fst (arm64_decode_branches H bytes addr))"
proof (cases "is_valid (arm64_cascade H bytes addr (arm64_initial H bytes addr))")
  case True
  with assms show ?thesis
    by (simp add: arm64_decode_branches_def Let_def)
next
  case False
  then have c: "arm64_cascade H bytes addr (arm64_initial H bytes addr) =
                arm64_initial H bytes addr"
    by (rule arm64_cascade_invalid)
  from assms False c have "snd (arm64_generic_fallback H bytes (arm64_initial H bytes addr))"
    by (simp add: arm64_decode_branches_def Let_def)
  with arm64_generic_fallback_returned [of H bytes "arm64_initial H bytes addr"] False c
  show ?thesis
    by (simp add: arm64_decode_branches_def Let_def arm64_initial_ok)
qed

lemma arm64_decode_branches_branch_target:
  "is_valid (fst (arm64_decode_branches H bytes addr)) \<or>
   \<not> has_branch_target (fst (arm64_decode_branches H bytes addr))"
proof (cases "is_valid (arm64_cascade H bytes addr (arm64_initial H bytes addr))")
  case True
  then show ?thesis
    by (simp add: arm64_decode_branches_def Let_def)
next
  case False
  then have c: "arm64_cascade H bytes addr (arm64_initial H bytes addr) =
                arm64_initial H bytes addr"
    by (rule arm64_cascade_invalid)
  with False arm64_generic_fallback_valid [of H bytes "arm64_initial H bytes addr"]
  show ?thesis
    by (auto simp: arm64_decode_branches_def Let_def arm64_initial_ok)
qed

lemma disasm_arm64_cases:
  assumes "snd (arm64_decode_branches H bytes addr) \<Longrightarrow>
           P (is_valid (fst (arm64_decode_branches H bytes addr)),
              fst (arm64_decode_branches H bytes addr))"
    and "\<not> snd (arm64_decode_branches H bytes addr) \<Longrightarrow>
         P (arm64_finish H ctx bytes (fst (arm64_decode_branches H bytes addr)))"
  shows "P (disasm_arm64 H ctx bytes addr)"
  using assms
  by (cases "arm64_decode_branches H bytes addr") (simp add: disasm_arm64_def)

lemma disasm_arm64_valid:
  "fst (disasm_arm64 H ctx bytes addr) \<and> is_valid (snd (disasm_arm64 H ctx bytes addr))"
  by (rule disasm_arm64_cases)
     (simp_all add: arm64_decode_branches_returned arm64_finish_valid)

lemma disasm_arm64_mnemonic:
  "1 < sizeof_mnemonic H \<Longrightarrow> mnemonic (snd (disasm_arm64 H ctx bytes addr)) \<noteq> []"
  by (rule disasm_arm64_cases)
     (simp_all add: arm64_decode_branches_returned arm64_finish_mnemonic
        arm64_decode_branches_mnemonic)

lemma disasm_arm64_link:
  "arm64_link_return_ok (snd (disasm_arm64 H ctx bytes addr))"
  by (rule disasm_arm64_cases)
     (simp_all add: arm64_finish_link arm64_decode_branches_link)

lemma disasm_arm64_target:
  "arm64_target_ok addr (snd (disasm_arm64 H ctx bytes addr))"
  by (rule disasm_arm64_cases)
     (simp_all add: arm64_finish_target arm64_decode_branches_target
        arm64_decode_branches_branch_target)

lemma disasm_arm64_marks:
  "is_function_start (snd (disasm_arm64 H ctx bytes addr)) =
     arm64_is_prologue H ctx (snd (disasm_arm64 H ctx bytes addr)) \<and>
   is_function_end (snd (disasm_arm64 H ctx bytes addr)) =
     arm64_is_epilogue H ctx (snd (disasm_arm64 H ctx bytes addr))"
proof (rule disasm_arm64_cases)
  assume "snd (arm64_decode_branches H bytes addr)"
  then show "is_function_start
               (snd (is_valid (fst (arm64_decode_branches H bytes addr)),
                     fst (arm64_decode_branches H bytes addr))) =
             arm64_is_prologue H ctx
               (snd (is_valid (fst (arm64_decode_branches H bytes addr)),
                     fst (arm64_decode_branches H bytes addr))) \<and>
             is_function_end
               (snd (is_valid (fst (arm64_decode_branches H bytes addr)),
                     fst (arm64_decode_branches H bytes addr))) =
             arm64_is_epilogue H ctx
               (snd (is_valid (fst (arm64_decode_branches H bytes addr)),
                     fst (arm64_decode_branches H bytes addr)))"
    using arm64_decode_branches_returned [of H bytes addr]
    by (simp add: arm64_is_prologue_def arm64_is_epilogue_def)
next
  show "is_function_start
          (snd (arm64_finish H ctx bytes (fst (arm64_decode_branches H bytes addr)))) =
        arm64_is_prologue H ctx
          (snd (arm64_finish H ctx bytes (fst (arm64_decode_branches H bytes addr)))) \<and>
        is_function_end
          (snd (arm64_finish H ctx bytes (fst (arm64_decode_branches H bytes addr)))) =
        arm64_is_epilogue H ctx
          (snd (arm64_finish H ctx bytes (fst (arm64_decode_branches H bytes addr))))"
    by (rule arm64_finish_marks)
qed

lemma disasm_arm64_unmatched:
  assumes "arm64_unmatched H bytes addr"
  shows "mnemonic (snd (disasm_arm64 H ctx bytes addr)) = ''.word'' \<and>
         operands (snd (disasm_arm64 H ctx bytes addr)) =
           snprintf (sizeof_operands H) (''0x'' @ fmt_0X 8 (unat bytes)) \<and>
         category (snd (disasm_arm64 H ctx bytes addr)) = INST_CATEGORY_UNKNOWN"
proof -
  have inv: "\<not> is_valid (fst (arm64_decode_branches H bytes addr))"
    using assms by (simp add: arm64_unmatched_def)
  then have "\<not> snd (arm64_decode_branches H bytes addr)"
    using arm64_decode_branches_returned [of H bytes addr] by blast
  then have "disasm_arm64 H ctx bytes addr =
             arm64_finish H ctx bytes (fst (arm64_decode_branches H bytes addr))"
    by (cases "arm64_decode_branches H bytes addr") (simp add: disasm_arm64_def)
  with inv show ?thesis
    by (simp add: arm64_finish_unmatched)
qed

subsection \<open>Hexadecimal text\<close>

lemma hex_of_nat_length:
  "0 < k \<Longrightarrow> n < 16 ^ k \<Longrightarrow> length (hex_of_nat u n) \<le> k"
proof (induction k arbitrary: n)
  case 0
  then show ?case by simp
next
  case (Suc k)
  show ?case
  proof (cases "n < 16")
    case True
    then show ?thesis
      by (subst hex_of_nat.simps) simp
  next
    case False
    with Suc.prems have k: "0 < k"
      by (cases k) auto
    from Suc.prems have "n div 16 < 16 ^ k"
      by (simp add: less_mult_imp_div_less mult.commute)
    with Suc.IH k have "length (hex_of_nat u (n div 16)) \<le> k"
      by blast
    with False show ?thesis
      by (subst hex_of_nat.simps) simp
  qed
qed

lemma fmt_0X_8_length: "length (fmt_0X 8 (unat (w :: 32 word))) = 8"
proof -
  have "unat w < 16 ^ 8"
    using unsigned_less [of w, where ?'a = nat] by simp
  then have "length (hex_of_nat True (unat w)) \<le> 8"
    by (intro hex_of_nat_length) simp_all
  then show ?thesis
    by (simp add: fmt_0X_def)
qed

subsection \<open>The x86-64 decoder\<close>

lemma x86_cascade_cases:
  assumes "P (x86_ret H bytes opcode pos inst)"
    and "\<And>name cat p. P (x86_plain inst name cat p)"
    and "P (x86_push_pop H opcode has_rex rex pos inst)"
    and "P (x86_jmp_call_rel32 H bytes addr opcode pos inst)"
    and "P (x86_jmp_rel8 H bytes addr pos inst)"
    and "P (x86_jcc_rel8 H bytes addr opcode pos inst)"
    and "P (x86_two_byte H bytes addr inst)"
    and "P (x86_mov_imm H bytes opcode inst)"
    and "P (x86_int H bytes inst)"
    and "P (x86_byte H opcode inst)"
  shows "P (x86_cascade H bytes addr has_rex rex opcode pos inst)"
  unfolding x86_cascade_def
  using assms by (simp only: if_split simp_thms)

lemma x86_ret_target:
  "address inst = addr \<Longrightarrow> branch_offset inst = 0 \<Longrightarrow>
   x86_target_ok addr (x86_ret H bytes opcode pos inst)"
  by (simp add: x86_ret_def x86_target_ok_def Let_def)

lemma x86_plain_target:
  "address inst = addr \<Longrightarrow> branch_offset inst = 0 \<Longrightarrow>
   x86_target_ok addr (x86_plain inst name cat p)"
  by (simp add: x86_plain_def x86_target_ok_def)

lemma x86_push_pop_target:
  "address inst = addr \<Longrightarrow> branch_offset inst = 0 \<Longrightarrow>
   x86_target_ok addr (x86_push_pop H opcode has_rex rex pos inst)"
  by (simp add: x86_push_pop_def x86_target_ok_def Let_def)

lemma x86_jmp_call_rel32_target:
  "address inst = addr \<Longrightarrow> branch_offset inst = 0 \<Longrightarrow>
   x86_target_ok addr (x86_jmp_call_rel32 H bytes addr opcode pos inst)"
  by (simp add: x86_jmp_call_rel32_def x86_target_ok_def Let_def)

lemma x86_jmp_rel8_target:
  "address inst = addr \<Longrightarrow> branch_offset inst = 0 \<Longrightarrow>
   x86_target_ok addr (x86_jmp_rel8 H bytes addr pos inst)"
  by (simp add: x86_jmp_rel8_def x86_target_ok_def Let_def)

lemma x86_jcc_rel8_target:
  "address inst = addr \<Longrightarrow> \<not> has_branch_target inst \<Longrightarrow>
   x86_target_ok addr (x86_jcc_rel8 H bytes addr opcode pos inst)"
  by (simp add: x86_jcc_rel8_def x86_target_ok_def Let_def)

lemma x86_two_byte_target:
  "address inst = addr \<Longrightarrow> branch_offset inst = 0 \<Longrightarrow>
   x86_target_ok addr (x86_two_byte H bytes addr inst)"
  by (simp add: x86_two_byte_def x86_target_ok_def Let_def)

lemma x86_mov_imm_target:
  "address inst = addr \<Longrightarrow> branch_offset inst = 0 \<Longrightarrow>
   x86_target_ok addr (x86_mov_imm H bytes opcode inst)"
  by (simp add: x86_mov_imm_def x86_target_ok_def)

lemma x86_int_target:
  "address inst = addr \<Longrightarrow> branch_offset inst = 0 \<Longrightarrow>
   x86_target_ok addr (x86_int H bytes inst)"
  by (simp add: x86_int_def x86_target_ok_def)

lemma x86_byte_target:
  "address inst = addr \<Longrightarrow> branch_offset inst = 0 \<Longrightarrow>
   x86_target_ok addr (x86_byte H opcode inst)"
  by (simp add: x86_byte_def x86_target_ok_def)

lemma x86_cascade_target:
  assumes "address inst = addr" and "branch_offset inst = 0"
    and "\<not> has_branch_target inst"
  shows "x86_target_ok addr (x86_cascade H bytes addr has_rex rex opcode pos inst)"
  by (rule x86_cascade_cases)
     (simp_all add: assms x86_ret_target x86_plain_target x86_push_pop_target
        x86_jmp_call_rel32_target x86_jmp_rel8_target x86_jcc_rel8_target
        x86_two_byte_target x86_mov_imm_target x86_int_target x86_byte_target)

lemma disasm_x86_64_target:
  "x86_target_ok addr (snd (disasm_x86_64 H bytes addr))"
proof -
  have "x86_target_ok addr (i\<lparr>full_disasm := s\<rparr>)" if "x86_target_ok addr i" for i s
    using that by (simp add: x86_target_ok_def)
  then show ?thesis
    by (simp add: disasm_x86_64_def Let_def x86_cascade_target zeroed_instruction_def)
qed

subsection \<open>Evaluation at some words\<close>

lemmas arm64_top_defs =
  disasm_arm64_def arm64_decode_branches_def arm64_initial_def arm64_finish_def
  arm64_cascade_def zeroed_instruction_def arm64_orr_alias_def arm64_word_fallback_def
  Let_def

lemma eval_adrp:
  "has_branch_target (snd (disasm_arm64 H ctx 0xB0000001 0x2345)) \<and>
   branch_offset (snd (disasm_arm64 H ctx 0xB0000001 0x2345)) = 0x1000 \<and>
   branch_target (snd (disasm_arm64 H ctx 0xB0000001 0x2345)) = 0x3000 \<and>
   address (snd (disasm_arm64 H ctx 0xB0000001 0x2345)) = 0x2345 \<and>
   mnemonic (snd (disasm_arm64 H ctx 0xB0000001 0x2345)) = ''ADRP''"
  by (simp add: arm64_top_defs arm64_adr_adrp_def)

lemma eval_b:
  "has_branch_target (snd (disasm_arm64 H ctx 0x14000002 0x1000)) \<and>
   branch_offset (snd (disasm_arm64 H ctx 0x14000002 0x1000)) = 8 \<and>
   branch_target (snd (disasm_arm64 H ctx 0x14000002 0x1000)) = 0x1008 \<and>
   mnemonic (snd (disasm_arm64 H ctx 0x14000002 0x1000)) = ''B''"
  by (simp add: arm64_top_defs arm64_b_bl_def)

lemma eval_je:
  "has_branch_target (snd (disasm_x86_64 H je_bytes 0x1000)) \<and>
   branch_offset (snd (disasm_x86_64 H je_bytes 0x1000)) = 5 \<and>
   branch_target (snd (disasm_x86_64 H je_bytes 0x1000)) = 0x1007 \<and>
   address (snd (disasm_x86_64 H je_bytes 0x1000)) = 0x1000 \<and>
   inst_length (snd (disasm_x86_64 H je_bytes 0x1000)) = 2 \<and>
   mnemonic (snd (disasm_x86_64 H je_bytes 0x1000)) = ''JE''"
  by (simp add: disasm_x86_64_def x86_cascade_def x86_jcc_rel8_def je_bytes_def
        zeroed_instruction_def Let_def)

lemma eval_zero: "arm64_unmatched H 0 addr"
  by (simp add: arm64_unmatched_def arm64_decode_branches_def arm64_initial_def
        arm64_cascade_def arm64_generic_fallback_def zeroed_instruction_def Let_def)

lemma eval_fmt0: "fmt_0X 8 (unat (0 :: 32 word)) = ''00000000''"
  by (simp add: fmt_0X_def hex_of_nat.simps [of True 0] hex_digit_def eval_nat_numeral)

lemma eval_blr: "mnemonic (snd (disasm_arm64 H ctx 0xD63F0200 addr)) = ''BLR''"
  by (simp add: arm64_top_defs arm64_br_blr_ret_def)

lemma eval_stp:
  "mnemonic (snd (disasm_arm64 H ctx 0xA9BF7BFD addr)) = ''STP'' \<and>
   operands (snd (disasm_arm64 H ctx 0xA9BF7BFD addr)) =
     snprintf (sizeof_operands H) ''X29, X30, [SP, #-16]!''"
  by (simp add: arm64_top_defs arm64_ldp_stp_def arm64_register_name_def fmt_d_def
        dec_of_nat.simps [of 16] dec_of_nat.simps [of "Suc 0"])

lemma eval_ldp:
  "mnemonic (snd (disasm_arm64 H ctx 0xA8C17BFD addr)) = ''LDP'' \<and>
   operands (snd (disasm_arm64 H ctx 0xA8C17BFD addr)) =
     snprintf (sizeof_operands H) ''X29, X30, [SP], #16''"
  by (simp add: arm64_top_defs arm64_ldp_stp_def arm64_register_name_def fmt_d_def
        dec_of_nat.simps [of 16] dec_of_nat.simps [of "Suc 0"])

lemma eval_sample_operands:
  "snprintf (sizeof_operands sample_header) ''X29, X30, [SP, #-16]!'' = ''X29, X30, [SP, #-16]!''"
  "snprintf (sizeof_operands sample_header) ''X29, X30, [SP], #16'' = ''X29, X30, [SP], #16''"
  by (simp_all add: snprintf_def sample_header_def)

lemma eval_bl:
  "mnemonic (snd (disasm_arm64 H ctx 0x94000003 0x1000)) = ''BL'' \<and>
   has_branch_target (snd (disasm_arm64 H ctx 0x94000003 0x1000)) \<and>
   branch_target (snd (disasm_arm64 H ctx 0x94000003 0x1000)) = 0x100C \<and>
   branch_type (snd (disasm_arm64 H ctx 0x94000003 0x1000)) = BRANCH_CALL"
  by (simp add: arm64_top_defs arm64_b_bl_def)

lemma eval_ret: "mnemonic (snd (disasm_arm64 H ctx 0xD65F03C0 addr)) = ''RET''"
  by (simp add: arm64_top_defs arm64_br_blr_ret_def)

subsection \<open>The claims about the decoders\<close>

text \<open>
  C1, as stated: a record with a branch target and an offset other than 0 has
  \<open>branch_target = address + branch_offset\<close>. It fails for ADRP and for the
  conditional jumps of x86-64. The word \<open>0xB0000001\<close> (ADRP X1 with immediate 1) at
  address \<open>0x2345\<close> gives the offset \<open>0x1000\<close> and the target \<open>0x3000\<close>, the page of
  the address plus the offset, where the sum is \<open>0x3345\<close>. The bytes \<open>74 05\<close> (JE +5)
  at address \<open>0x1000\<close> give the offset 5 and the target \<open>0x1007\<close>, counted from the
  end of the instruction, where the sum is \<open>0x1005\<close>.
\<close>

theorem branch_target_sum_counterexample:
  "has_branch_target (snd (disasm_arm64 sample_header None 0xB0000001 0x2345)) \<and>
   branch_offset (snd (disasm_arm64 sample_header None 0xB0000001 0x2345)) \<noteq> 0 \<and>
   branch_target (snd (disasm_arm64 sample_header None 0xB0000001 0x2345)) \<noteq>
     address (snd (disasm_arm64 sample_header None 0xB0000001 0x2345)) +
     branch_offset (snd (disasm_arm64 sample_header None 0xB0000001 0x2345)) \<and>
   has_branch_target (snd (disasm_x86_64 sample_header je_bytes 0x1000)) \<and>
   branch_offset (snd (disasm_x86_64 sample_header je_bytes 0x1000)) \<noteq> 0 \<and>
   branch_target (snd (disasm_x86_64 sample_header je_bytes 0x1000)) \<noteq>
     address (snd (disasm_x86_64 sample_header je_bytes 0x1000)) +
     branch_offset (snd (disasm_x86_64 sample_header je_bytes 0x1000))"
  by (simp add: eval_adrp eval_je)

text \<open>
  C1, amended: the record of either decoder is at the address given. When a record
  of \<open>disasm_arm64\<close> has a branch target and an offset other than 0, the target is
  the address plus the offset, except for ADRP, where it is the 4096-byte page of the
  address plus the offset. When a record of \<open>disasm_x86_64\<close> has a branch target and
  an offset other than 0, the target is the address plus the length of the
  instruction plus the offset.
\<close>

theorem branch_target_relation:
  "address (snd (disasm_arm64 H ctx w addr)) = addr \<and>
   (has_branch_target (snd (disasm_arm64 H ctx w addr)) \<and>
    branch_offset (snd (disasm_arm64 H ctx w addr)) \<noteq> 0 \<longrightarrow>
      branch_target (snd (disasm_arm64 H ctx w addr)) =
        (if mnemonic (snd (disasm_arm64 H ctx w addr)) = ''ADRP''
         then addr AND NOT 0xFFF else addr) +
        branch_offset (snd (disasm_arm64 H ctx w addr))) \<and>
   address (snd (disasm_x86_64 H bs addr)) = addr \<and>
   (has_branch_target (snd (disasm_x86_64 H bs addr)) \<and>
    branch_offset (snd (disasm_x86_64 H bs addr)) \<noteq> 0 \<longrightarrow>
      branch_target (snd (disasm_x86_64 H bs addr)) =
        addr + of_nat (inst_length (snd (disasm_x86_64 H bs addr))) +
        branch_offset (snd (disasm_x86_64 H bs addr)))"
  using disasm_arm64_target [of addr H ctx w] disasm_x86_64_target [of addr H bs]
  by (simp add: arm64_target_ok_def x86_target_ok_def)

theorem branch_target_relation_witness:
  "has_branch_target (snd (disasm_arm64 sample_header None 0xB0000001 0x2345)) \<and>
   branch_offset (snd (disasm_arm64 sample_header None 0xB0000001 0x2345)) = 0x1000 \<and>
   mnemonic (snd (disasm_arm64 sample_header None 0xB0000001 0x2345)) = ''ADRP'' \<and>
   branch_target (snd (disasm_arm64 sample_header None 0xB0000001 0x2345)) = 0x3000 \<and>
   has_branch_target (snd (disasm_arm64 sample_header None 0x14000002 0x1000)) \<and>
   branch_offset (snd (disasm_arm64 sample_header None 0x14000002 0x1000)) = 8 \<and>
   mnemonic (snd (disasm_arm64 sample_header None 0x14000002 0x1000)) = ''B'' \<and>
   branch_target (snd (disasm_arm64 sample_header None 0x14000002 0x1000)) = 0x1008 \<and>
   has_branch_target (snd (disasm_x86_64 sample_header je_bytes 0x1000)) \<and>
   branch_offset (snd (disasm_x86_64 sample_header je_bytes 0x1000)) = 5 \<and>
   inst_length (snd (disasm_x86_64 sample_header je_bytes 0x1000)) = 2 \<and>
   branch_target (snd (disasm_x86_64 sample_header je_bytes 0x1000)) = 0x1007"
proof -
  note a = eval_adrp [of sample_header None]
  note b = eval_b [of sample_header None]
  note c = eval_je [of sample_header]
  have p: "(0x2345 :: 64 word) AND NOT 0xFFF = 0x2000"
    by simp
  show ?thesis
    using a b c p
      branch_target_relation [of sample_header None "0xB0000001" "0x2345" je_bytes]
      branch_target_relation [of sample_header None "0x14000002" "0x1000" je_bytes]
    by simp
qed

text \<open>
  C2. For every header whose mnemonic buffer holds more than the terminating NUL,
  every context, every 32-bit word and every address, \<open>disasm_arm64\<close> returns true
  and writes a record with \<open>is_valid\<close> true and a mnemonic that is not empty. When
  the decode branches and the generic fallbacks leave the word unmatched, the
  mnemonic is \<open>.word\<close>, the category is \<open>INST_CATEGORY_UNKNOWN\<close>, and the operands are
  the text \<open>0x\<close> followed by the eight upper-case hexadecimal digits of the word, cut
  to the operand buffer (not cut at all when the buffer holds more than 10 bytes).
\<close>

theorem disasm_arm64_always_valid:
  assumes "1 < sizeof_mnemonic H"
  shows "fst (disasm_arm64 H ctx bytes addr) \<and>
         is_valid (snd (disasm_arm64 H ctx bytes addr)) \<and>
         mnemonic (snd (disasm_arm64 H ctx bytes addr)) \<noteq> [] \<and>
         (arm64_unmatched H bytes addr \<longrightarrow>
            mnemonic (snd (disasm_arm64 H ctx bytes addr)) = ''.word'' \<and>
            operands (snd (disasm_arm64 H ctx bytes addr)) =
              snprintf (sizeof_operands H) (''0x'' @ fmt_0X 8 (unat bytes)) \<and>
            length (fmt_0X 8 (unat bytes)) = 8 \<and>
            (10 < sizeof_operands H \<longrightarrow>
               operands (snd (disasm_arm64 H ctx bytes addr)) =
                 ''0x'' @ fmt_0X 8 (unat bytes)) \<and>
            category (snd (disasm_arm64 H ctx bytes addr)) = INST_CATEGORY_UNKNOWN)"
proof -
  have v: "fst (disasm_arm64 H ctx bytes addr) \<and>
           is_valid (snd (disasm_arm64 H ctx bytes addr))"
    by (rule disasm_arm64_valid)
  have m: "mnemonic (snd (disasm_arm64 H ctx bytes addr)) \<noteq> []"
    using assms by (rule disasm_arm64_mnemonic)
  have l: "length (fmt_0X 8 (unat bytes)) = 8"
    by (rule fmt_0X_8_length)
  have s: "snprintf (sizeof_operands H) (''0x'' @ fmt_0X 8 (unat bytes)) =
           ''0x'' @ fmt_0X 8 (unat bytes)" if "10 < sizeof_operands H"
    using that l by (simp add: snprintf_def)
  show ?thesis
    using v m l s disasm_arm64_unmatched [of H bytes addr ctx] by simp
qed

theorem disasm_arm64_always_valid_witness:
  "1 < sizeof_mnemonic sample_header \<and>
   10 < sizeof_operands sample_header \<and>
   arm64_unmatched sample_header 0 0x1000 \<and>
   fmt_0X 8 (unat (0 :: 32 word)) = ''00000000'' \<and>
   fst (disasm_arm64 sample_header None 0 0x1000) \<and>
   is_valid (snd (disasm_arm64 sample_header None 0 0x1000)) \<and>
   mnemonic (snd (disasm_arm64 sample_header None 0 0x1000)) = ''.word'' \<and>
   operands (snd (disasm_arm64 sample_header None 0 0x1000)) = ''0x00000000'' \<and>
   category (snd (disasm_arm64 sample_header None 0 0x1000)) = INST_CATEGORY_UNKNOWN"
proof -
  have h: "1 < sizeof_mnemonic sample_header" "10 < sizeof_operands sample_header"
    by (simp_all add: sample_header_def)
  have u: "arm64_unmatched sample_header 0 0x1000"
    by (rule eval_zero)
  have f: "fmt_0X 8 (unat (0 :: 32 word)) = ''00000000''"
    by (rule eval_fmt0)
  have s: "snprintf (sizeof_operands sample_header) ''0x00000000'' = ''0x00000000''"
    by (simp add: snprintf_def sample_header_def)
  show ?thesis
    using h u f s disasm_arm64_always_valid [of sample_header None 0 "0x1000"]
    by simp
qed

text \<open>
  C3. The word \<open>0xF100001F\<close> is CMP X0, #0 (SUBS XZR, X0, #0). For every header,
  context and address the decoder takes the ADD/SUB-immediate branch, which comes
  before the CMP/CMN branch in the chain and tests bit 20 of the word for the
  setting of the flags: the record has the mnemonic SUB and \<open>flags_written = 0\<close>,
  where the claim has \<open>0xF\<close>. In the same way \<open>0xB100001F\<close> (CMN X0, #0) becomes an
  ADD and \<open>0xFA410000\<close> (CCMP X0, X1, #0, EQ) an LDR, each with \<open>flags_written = 0\<close>.
\<close>

theorem cmp_immediate_flags_not_written:
  "mnemonic (snd (disasm_arm64 H ctx 0xF100001F addr)) = ''SUB'' \<and>
   flags_written (snd (disasm_arm64 H ctx 0xF100001F addr)) = 0 \<and>
   flags_written (snd (disasm_arm64 H ctx 0xF100001F addr)) \<noteq> 0xF \<and>
   mnemonic (snd (disasm_arm64 H ctx 0xB100001F addr)) = ''ADD'' \<and>
   flags_written (snd (disasm_arm64 H ctx 0xB100001F addr)) = 0 \<and>
   mnemonic (snd (disasm_arm64 H ctx 0xFA410000 addr)) = ''LDR'' \<and>
   flags_written (snd (disasm_arm64 H ctx 0xFA410000 addr)) = 0"
proof -
  have a: "mnemonic (snd (disasm_arm64 H ctx 0xF100001F addr)) = ''SUB'' \<and>
           flags_written (snd (disasm_arm64 H ctx 0xF100001F addr)) = 0"
    by (simp add: arm64_top_defs arm64_group_imm_def arm64_add_sub_imm_def)
  have b: "mnemonic (snd (disasm_arm64 H ctx 0xB100001F addr)) = ''ADD'' \<and>
           flags_written (snd (disasm_arm64 H ctx 0xB100001F addr)) = 0"
    by (simp add: arm64_top_defs arm64_group_imm_def arm64_add_sub_imm_def)
  have c: "mnemonic (snd (disasm_arm64 H ctx 0xFA410000 addr)) = ''LDR'' \<and>
           flags_written (snd (disasm_arm64 H ctx 0xFA410000 addr)) = 0"
    by (simp add: arm64_top_defs arm64_group_imm_def arm64_generic_fallback_def
          arm64_fallback_ldr_str_def)
  show ?thesis
    using a b c by simp
qed

text \<open>
  C4. For every header, context, word and address: a record of \<open>disasm_arm64\<close> with
  the mnemonic BL or BLR has bit 30 of \<open>regs_written\<close> set, and a record with the
  mnemonic RET has \<open>branch_type = BRANCH_RETURN\<close> and \<open>is_function_end\<close> true. The word
  \<open>0xD65F03C0\<close> decodes to RET at every address, and the word \<open>0x94000003\<close> at
  address \<open>0x1000\<close> decodes to BL with the target \<open>0x100C\<close> and the branch type
  \<open>BRANCH_CALL\<close>.
\<close>

theorem link_and_return_records:
  "(mnemonic (snd (disasm_arm64 H ctx bytes addr)) = ''BL'' \<or>
    mnemonic (snd (disasm_arm64 H ctx bytes addr)) = ''BLR'' \<longrightarrow>
      bit (regs_written (snd (disasm_arm64 H ctx bytes addr))) 30) \<and>
   (mnemonic (snd (disasm_arm64 H ctx bytes addr)) = ''RET'' \<longrightarrow>
      branch_type (snd (disasm_arm64 H ctx bytes addr)) = BRANCH_RETURN \<and>
      is_function_end (snd (disasm_arm64 H ctx bytes addr))) \<and>
   mnemonic (snd (disasm_arm64 H ctx 0xD65F03C0 addr)) = ''RET'' \<and>
   mnemonic (snd (disasm_arm64 H ctx 0x94000003 0x1000)) = ''BL'' \<and>
   has_branch_target (snd (disasm_arm64 H ctx 0x94000003 0x1000)) \<and>
   branch_target (snd (disasm_arm64 H ctx 0x94000003 0x1000)) = 0x100C \<and>
   branch_type (snd (disasm_arm64 H ctx 0x94000003 0x1000)) = BRANCH_CALL"
proof -
  have l: "arm64_link_return_ok (snd (disasm_arm64 H ctx bytes addr))"
    by (rule disasm_arm64_link)
  have e: "mnemonic (snd (disasm_arm64 H ctx bytes addr)) = ''RET'' \<longrightarrow>
           is_function_end (snd (disasm_arm64 H ctx bytes addr))"
    using disasm_arm64_marks [of H ctx bytes addr] by (simp add: arm64_is_epilogue_def)
  have r: "mnemonic (snd (disasm_arm64 H ctx 0xD65F03C0 addr)) = ''RET''"
    by (rule eval_ret)
  have b: "mnemonic (snd (disasm_arm64 H ctx 0x94000003 0x1000)) = ''BL'' \<and>
           has_branch_target (snd (disasm_arm64 H ctx 0x94000003 0x1000)) \<and>
           branch_target (snd (disasm_arm64 H ctx 0x94000003 0x1000)) = 0x100C \<and>
           branch_type (snd (disasm_arm64 H ctx 0x94000003 0x1000)) = BRANCH_CALL"
    by (rule eval_bl)
  show ?thesis
    using l e r b by (simp add: arm64_link_return_ok_def)
qed

theorem link_and_return_records_witness:
  "mnemonic (snd (disasm_arm64 sample_header None 0x94000003 0x1000)) = ''BL'' \<and>
   bit (regs_written (snd (disasm_arm64 sample_header None 0x94000003 0x1000))) 30 \<and>
   mnemonic (snd (disasm_arm64 sample_header None 0xD63F0200 0x1000)) = ''BLR'' \<and>
   bit (regs_written (snd (disasm_arm64 sample_header None 0xD63F0200 0x1000))) 30 \<and>
   mnemonic (snd (disasm_arm64 sample_header None 0xD65F03C0 0x1000)) = ''RET'' \<and>
   branch_type (snd (disasm_arm64 sample_header None 0xD65F03C0 0x1000)) = BRANCH_RETURN \<and>
   is_function_end (snd (disasm_arm64 sample_header None 0xD65F03C0 0x1000))"
proof -
  have a: "mnemonic (snd (disasm_arm64 sample_header None 0x94000003 0x1000)) = ''BL''"
    by (simp add: eval_bl)
  have b: "mnemonic (snd (disasm_arm64 sample_header None 0xD63F0200 0x1000)) = ''BLR''"
    by (rule eval_blr)
  have c: "mnemonic (snd (disasm_arm64 sample_header None 0xD65F03C0 0x1000)) = ''RET''"
    by (rule eval_ret)
  show ?thesis
    using a b c
      link_and_return_records [of sample_header None "0x94000003" "0x1000"]
      link_and_return_records [of sample_header None "0xD63F0200" "0x1000"]
      link_and_return_records [of sample_header None "0xD65F03C0" "0x1000"]
    by simp
qed

text \<open>
  C5. The heuristics are enabled when there is a context and its \<open>flags\<close> have the
  bit \<open>DISASM_FLAG_PROLOGUE_EPILOGUE_HEURISTICS\<close>. For every header, context, word
  and address: a record with the mnemonic RET has \<open>is_function_end\<close> true, enabled
  or not. With the heuristics enabled, a record with the mnemonic STP whose operands
  contain \<open>X29\<close>, \<open>X30\<close> and \<open>#-\<close> has \<open>is_function_start\<close> true, and a record with
  the mnemonic LDP whose operands contain \<open>X29\<close> and \<open>X30\<close> has \<open>is_function_end\<close>
  true. With the heuristics not enabled, \<open>is_function_start\<close> is false and
  \<open>is_function_end\<close> is true for the mnemonic RET only.
\<close>

theorem prologue_epilogue_marks:
  "(mnemonic (snd (disasm_arm64 H ctx bytes addr)) = ''RET'' \<longrightarrow>
      is_function_end (snd (disasm_arm64 H ctx bytes addr))) \<and>
   (heuristics_enabled H ctx \<longrightarrow>
      (mnemonic (snd (disasm_arm64 H ctx bytes addr)) = ''STP'' \<and>
       strstr (operands (snd (disasm_arm64 H ctx bytes addr))) ''X29'' \<noteq> None \<and>
       strstr (operands (snd (disasm_arm64 H ctx bytes addr))) ''X30'' \<noteq> None \<and>
       strstr (operands (snd (disasm_arm64 H ctx bytes addr))) ''#-'' \<noteq> None \<longrightarrow>
         is_function_start (snd (disasm_arm64 H ctx bytes addr))) \<and>
      (mnemonic (snd (disasm_arm64 H ctx bytes addr)) = ''LDP'' \<and>
       strstr (operands (snd (disasm_arm64 H ctx bytes addr))) ''X29'' \<noteq> None \<and>
       strstr (operands (snd (disasm_arm64 H ctx bytes addr))) ''X30'' \<noteq> None \<longrightarrow>
         is_function_end (snd (disasm_arm64 H ctx bytes addr)))) \<and>
   (\<not> heuristics_enabled H ctx \<longrightarrow>
      \<not> is_function_start (snd (disasm_arm64 H ctx bytes addr)) \<and>
      (is_function_end (snd (disasm_arm64 H ctx bytes addr)) \<longleftrightarrow>
         mnemonic (snd (disasm_arm64 H ctx bytes addr)) = ''RET''))"
proof -
  have s: "strstr ''STP'' ''STP'' \<noteq> None" "strstr ''LDP'' ''LDP'' \<noteq> None"
    by simp_all
  show ?thesis
    using s disasm_arm64_marks [of H ctx bytes addr]
    by (auto simp: arm64_is_prologue_def arm64_is_epilogue_def)
qed

theorem prologue_epilogue_marks_witness:
  "heuristics_enabled sample_header (Some \<lparr>flags = 1\<rparr>) \<and>
   \<not> heuristics_enabled sample_header (Some \<lparr>flags = 0\<rparr>) \<and>
   mnemonic (snd (disasm_arm64 sample_header (Some \<lparr>flags = 1\<rparr>) 0xA9BF7BFD 0x1000)) =
     ''STP'' \<and>
   operands (snd (disasm_arm64 sample_header (Some \<lparr>flags = 1\<rparr>) 0xA9BF7BFD 0x1000)) =
     ''X29, X30, [SP, #-16]!'' \<and>
   is_function_start
     (snd (disasm_arm64 sample_header (Some \<lparr>flags = 1\<rparr>) 0xA9BF7BFD 0x1000)) \<and>
   mnemonic (snd (disasm_arm64 sample_header (Some \<lparr>flags = 1\<rparr>) 0xA8C17BFD 0x1000)) =
     ''LDP'' \<and>
   operands (snd (disasm_arm64 sample_header (Some \<lparr>flags = 1\<rparr>) 0xA8C17BFD 0x1000)) =
     ''X29, X30, [SP], #16'' \<and>
   is_function_end
     (snd (disasm_arm64 sample_header (Some \<lparr>flags = 1\<rparr>) 0xA8C17BFD 0x1000)) \<and>
   \<not> is_function_start
     (snd (disasm_arm64 sample_header (Some \<lparr>flags = 0\<rparr>) 0xA9BF7BFD 0x1000)) \<and>
   \<not> is_function_end
     (snd (disasm_arm64 sample_header (Some \<lparr>flags = 0\<rparr>) 0xA8C17BFD 0x1000)) \<and>
   is_function_end
     (snd (disasm_arm64 sample_header (Some \<lparr>flags = 0\<rparr>) 0xD65F03C0 0x1000))"
proof -
  have h1: "heuristics_enabled sample_header (Some \<lparr>flags = 1\<rparr>)"
    by (simp add: heuristics_enabled_def sample_header_def)
  have h0: "\<not> heuristics_enabled sample_header (Some \<lparr>flags = 0\<rparr>)"
    by (simp add: heuristics_enabled_def sample_header_def)
  have a: "mnemonic (snd (disasm_arm64 sample_header (Some \<lparr>flags = 1\<rparr>) 0xA9BF7BFD 0x1000)) =
             ''STP''"
    by (simp add: eval_stp)
  have a': "operands (snd (disasm_arm64 sample_header (Some \<lparr>flags = 1\<rparr>) 0xA9BF7BFD 0x1000)) =
             ''X29, X30, [SP, #-16]!''"
    by (simp only: eval_stp eval_sample_operands)
  have b: "mnemonic (snd (disasm_arm64 sample_header (Some \<lparr>flags = 1\<rparr>) 0xA8C17BFD 0x1000)) =
             ''LDP''"
    by (simp add: eval_ldp)
  have b': "operands (snd (disasm_arm64 sample_header (Some \<lparr>flags = 1\<rparr>) 0xA8C17BFD 0x1000)) =
             ''X29, X30, [SP], #16''"
    by (simp only: eval_ldp eval_sample_operands)
  have c: "mnemonic (snd (disasm_arm64 sample_header (Some \<lparr>flags = 0\<rparr>) 0xA8C17BFD 0x1000)) \<noteq>
             ''RET''"
    by (simp add: eval_ldp)
  have d: "mnemonic (snd (disasm_arm64 sample_header (Some \<lparr>flags = 0\<rparr>) 0xD65F03C0 0x1000)) =
             ''RET''"
    by (rule eval_ret)
  have s: "strstr ''X29, X30, [SP, #-16]!'' ''X29'' \<noteq> None"
    "strstr ''X29, X30, [SP, #-16]!'' ''X30'' \<noteq> None"
    "strstr ''X29, X30, [SP, #-16]!'' ''#-'' \<noteq> None"
    by simp_all
  have t: "strstr ''X29, X30, [SP], #16'' ''X29'' \<noteq> None"
    "strstr ''X29, X30, [SP], #16'' ''X30'' \<noteq> None"
    by simp_all
  have 1: "is_function_start
             (snd (disasm_arm64 sample_header (Some \<lparr>flags = 1\<rparr>) 0xA9BF7BFD 0x1000))"
    using h1 a s [folded a']
      prologue_epilogue_marks
        [of sample_header "Some \<lparr>flags = 1\<rparr>" "0xA9BF7BFD" "0x1000"]
    by blast
  have 2: "is_function_end
             (snd (disasm_arm64 sample_header (Some \<lparr>flags = 1\<rparr>) 0xA8C17BFD 0x1000))"
    using h1 b t [folded b']
      prologue_epilogue_marks
        [of sample_header "Some \<lparr>flags = 1\<rparr>" "0xA8C17BFD" "0x1000"]
    by blast
  have 3: "\<not> is_function_start
             (snd (disasm_arm64 sample_header (Some \<lparr>flags = 0\<rparr>) 0xA9BF7BFD 0x1000))"
    using h0
      prologue_epilogue_marks
        [of sample_header "Some \<lparr>flags = 0\<rparr>" "0xA9BF7BFD" "0x1000"]
    by blast
  have 4: "\<not> is_function_end
             (snd (disasm_arm64 sample_header (Some \<lparr>flags = 0\<rparr>) 0xA8C17BFD 0x1000))"
    using h0 c
      prologue_epilogue_marks
        [of sample_header "Some \<lparr>flags = 0\<rparr>" "0xA8C17BFD" "0x1000"]
    by blast
  have 5: "is_function_end
             (snd (disasm_arm64 sample_header (Some \<lparr>flags = 0\<rparr>) 0xD65F03C0 0x1000))"
    using d
      prologue_epilogue_marks
        [of sample_header "Some \<lparr>flags = 0\<rparr>" "0xD65F03C0" "0x1000"]
    by blast
  from h1 h0 a a' 1 b b' 2 3 4 5 show ?thesis
    by (intro conjI)
qed


end
